theory Spec2Isabelle
  imports Complex_Main "HOL-Library.AList" "HOL-Library.Multiset"
begin

section \<open>Tables, files and exceptions\<close>

text \<open>
  The pipeline works on pandas data frames.  A frame is kept column-wise, as pandas keeps
  it: the row labels (\<open>index\<close>) and the named columns in their order.  The cell type
  \<open>'v\<close> is left open; every numeric or learning routine of a library is taken from the
  record \<open>ext\<close> below and never defined here.
\<close>

type_synonym path = string

record 'v table =
  index :: "'v list"
  cols :: "(string \<times> 'v list) list"

text \<open>A Python float as the number it denotes, with the three special values.\<close>

datatype pyfloat = NaN | NInf | Fin real | PInf

fun float_gt :: "pyfloat \<Rightarrow> pyfloat \<Rightarrow> bool" where
  "float_gt NaN b = False"
| "float_gt a NaN = False"
| "float_gt PInf PInf = False"
| "float_gt PInf b = True"
| "float_gt NInf b = False"
| "float_gt (Fin x) NInf = True"
| "float_gt (Fin x) (Fin y) = (y < x)"
| "float_gt (Fin x) PInf = False"

text \<open>
  Exceptions.  \<open>CustomException m d\<close> is the class of \<^verbatim>\<open>custom_exception.py\<close>:
  \<open>m\<close> is the message given to the constructor, \<open>d\<close> the detailed \<^verbatim>\<open>error_message\<close>
  that \<^verbatim>\<open>__str__\<close> returns.  The others are raised by libraries.
\<close>

datatype exn =
    KeyError "string list"
  | FileNotFoundError path
  | OSError path
  | LibraryError string
  | CustomException string string

datatype level = INFO | ERROR

type_synonym 'v csv = "(string \<times> 'v list) list"

datatype ('v, 'm) content = CsvFile "'v csv" | ModelFile 'm

text \<open>
  The process state: the log file written through \<^verbatim>\<open>logger\<close>, the data-frame objects
  (addressed by reference, so that in-place updates are visible to every holder of the
  reference), the next free reference, and the files on disk.
\<close>

record ('v, 'm) state =
  logs :: "(level \<times> string) list"
  heap :: "nat \<Rightarrow> 'v table"
  next_ref :: nat
  fs :: "path \<rightharpoonup> ('v, 'm) content"

text \<open>
  What the libraries supply (pandas, numpy, scikit-learn, imbalanced-learn).  Each entry
  is a parameter of the model: nothing is assumed about it unless a theorem says so.
\<close>

record 'v ext =
  exc_text :: "exn \<Rightarrow> string"
  int_cell :: "nat \<Rightarrow> 'v"
  nan_cell :: "'v"
  label_encode :: "'v list \<Rightarrow> exn + 'v list \<times> ('v \<times> 'v) list"
  show_mapping :: "('v \<times> 'v) list \<Rightarrow> string"
  log1p :: "'v list \<Rightarrow> exn + 'v list"
  skew :: "'v list \<Rightarrow> exn + pyfloat"
  sort_desc :: "(string \<times> pyfloat) list \<Rightarrow> (string \<times> pyfloat) list"
  smote :: "'v table \<Rightarrow> 'v list \<Rightarrow> exn + 'v table \<times> 'v list"
  rf_importances :: "'v table \<Rightarrow> 'v list \<Rightarrow> exn + pyfloat list"
  show_features :: "string list \<Rightarrow> string"
  train_test_split :: "'v table \<Rightarrow> real \<Rightarrow> nat \<Rightarrow> exn + 'v table \<times> 'v table"
  write_error :: "path \<Rightarrow> exn option"

subsection \<open>\<^verbatim>\<open>custom_exception.py\<close>\<close>

fun digits :: "nat \<Rightarrow> string" where
  "digits n = (if n < 10 then [char_of (48 + n)] else digits (n div 10) @ [char_of (48 + n mod 10)])"

declare digits.simps [simp del]

fun str_exn :: "(exn \<Rightarrow> string) \<Rightarrow> exn \<Rightarrow> string" where
  "str_exn txt (CustomException m d) = d"
| "str_exn txt e = txt e"

text \<open>
  \<^verbatim>\<open>get_detailed_error_message\<close>: the file and line come from the traceback of the
  exception being handled, that is the file of the method whose \<^verbatim>\<open>except\<close> clause
  builds the exception and the line of its \<^verbatim>\<open>try\<close> body that failed.  The second
  constructor argument (the cause) is not used.
\<close>

definition get_detailed_error_message :: "string \<Rightarrow> nat \<Rightarrow> string \<Rightarrow> string" where
  "get_detailed_error_message file_name line_number error_message =
     ''Error in '' @ file_name @ '' at line '' @ digits line_number @ '': '' @ error_message"

definition custom_exception :: "string \<Rightarrow> nat \<Rightarrow> string \<Rightarrow> exn" where
  "custom_exception file_name line_number error_message =
     CustomException error_message (get_detailed_error_message file_name line_number error_message)"

subsection \<open>Statements of a \<^verbatim>\<open>try\<close> body\<close>

text \<open>
  A \<^verbatim>\<open>try\<close> body either finishes with a value or stops at the first exception,
  which is recorded with the line of the body it passed through.  A method returns a value
  or raises.
\<close>

type_synonym ('s, 'a) body = "'s \<Rightarrow> ((nat \<times> exn) + 'a) \<times> 's"
type_synonym ('s, 'a) meth = "'s \<Rightarrow> (exn + 'a) \<times> 's"

definition ret :: "'a \<Rightarrow> ('s, 'a) body" where
  "ret a = (\<lambda>s. (Inr a, s))"

definition and_then :: "('s, 'a) body \<Rightarrow> ('a \<Rightarrow> ('s, 'b) body) \<Rightarrow> ('s, 'b) body" where
  "and_then m f = (\<lambda>s. case m s of (Inl e, s') \<Rightarrow> (Inl e, s') | (Inr a, s') \<Rightarrow> f a s')"

definition at_line :: "nat \<Rightarrow> exn + 'a \<Rightarrow> ('s, 'a) body" where
  "at_line lno r = (\<lambda>s. (case r of Inl e \<Rightarrow> Inl (lno, e) | Inr a \<Rightarrow> Inr a, s))"

definition call :: "nat \<Rightarrow> ('s, 'a) meth \<Rightarrow> ('s, 'a) body" where
  "call lno m = (\<lambda>s. case m s of (Inl e, s') \<Rightarrow> (Inl (lno, e), s') | (Inr a, s') \<Rightarrow> (Inr a, s'))"

definition log_line :: "level \<Rightarrow> string \<Rightarrow> ('v, 'm) state \<Rightarrow> ('v, 'm) state" where
  "log_line lv msg s = s\<lparr>logs := logs s @ [(lv, msg)]\<rparr>"

definition info :: "string \<Rightarrow> (('v, 'm) state, unit) body" where
  "info msg = (\<lambda>s. (Inr (), log_line INFO msg s))"

text \<open>
  \<^verbatim>\<open>try: body  except Exception as e: logger.error(f(e)); raise CustomException(msg(e), e)\<close>
\<close>

definition try_except ::
  "(('v, 'm) state, 'a) body \<Rightarrow> (exn \<Rightarrow> string) \<Rightarrow> string \<Rightarrow> (exn \<Rightarrow> string) \<Rightarrow> (('v, 'm) state, 'a) meth" where
  "try_except b err_line file_name msg =
     (\<lambda>s. case b s of
        (Inr a, s') \<Rightarrow> (Inr a, s')
      | (Inl (lno, e), s') \<Rightarrow> (Inl (custom_exception file_name lno (msg e)), log_line ERROR (err_line e) s'))"

subsection \<open>Data-frame operations used by the pipeline\<close>

definition columns :: "'v table \<Rightarrow> string list" where
  "columns t = map fst (cols t)"

text \<open>\<^verbatim>\<open>df.drop(columns=ns)\<close>: every label must exist.\<close>

definition drop_columns :: "string list \<Rightarrow> 'v table \<Rightarrow> exn + 'v table" where
  "drop_columns ns t =
     (let missing = filter (\<lambda>n. n \<notin> set (columns t)) ns in
      if missing \<noteq> [] then Inl (KeyError missing)
      else Inr (t\<lparr>cols := filter (\<lambda>(n, c). n \<notin> set ns) (cols t)\<rparr>))"

text \<open>\<^verbatim>\<open>df[n]\<close> for one label.\<close>

definition get_column :: "string \<Rightarrow> 'v table \<Rightarrow> exn + 'v list" where
  "get_column n t = (case map_of (cols t) n of None \<Rightarrow> Inl (KeyError [n]) | Some c \<Rightarrow> Inr c)"

text \<open>\<^verbatim>\<open>df[n] = c\<close>: replaces the column in place, or appends a new last column.\<close>

definition set_column :: "string \<Rightarrow> 'v list \<Rightarrow> 'v table \<Rightarrow> 'v table" where
  "set_column n c t =
     (if n \<in> set (columns t)
      then t\<lparr>cols := map (\<lambda>(m, d). if m = n then (m, c) else (m, d)) (cols t)\<rparr>
      else t\<lparr>cols := cols t @ [(n, c)]\<rparr>)"

text \<open>\<^verbatim>\<open>df[ns]\<close> for a list of labels: the columns in the order of the list.\<close>

definition select_columns :: "string list \<Rightarrow> 'v table \<Rightarrow> exn + 'v table" where
  "select_columns ns t =
     (let missing = filter (\<lambda>n. n \<notin> set (columns t)) ns in
      if missing \<noteq> [] then Inl (KeyError missing)
      else Inr (t\<lparr>cols := concat (map (\<lambda>n. filter (\<lambda>(m, d). m = n) (cols t)) ns)\<rparr>))"

text \<open>\<^verbatim>\<open>df.drop_duplicates()\<close>: of equal rows the first is kept.\<close>

definition rows :: "'v table \<Rightarrow> 'v list list" where
  "rows t = map (\<lambda>i. map (\<lambda>(n, c). c ! i) (cols t)) [0..<length (index t)]"

fun keep_first :: "'a list \<Rightarrow> 'a list \<Rightarrow> bool list" where
  "keep_first seen [] = []"
| "keep_first seen (r # rs) = (r \<notin> set seen) # keep_first (r # seen) rs"

definition pick :: "bool list \<Rightarrow> 'a list \<Rightarrow> 'a list" where
  "pick keep xs = map snd (filter fst (zip keep xs))"

definition drop_duplicates :: "'v table \<Rightarrow> 'v table" where
  "drop_duplicates t =
     (let keep = keep_first [] (rows t) in
      \<lparr>index = pick keep (index t), cols = map (\<lambda>(n, c). (n, pick keep c)) (cols t)\<rparr>)"

text \<open>\<^verbatim>\<open>pd.DataFrame(X, columns=ns)\<close>: the named columns of \<open>X\<close>, a missing one filled with NaN.\<close>

definition reindex_columns :: "'v ext \<Rightarrow> string list \<Rightarrow> 'v table \<Rightarrow> 'v table" where
  "reindex_columns ext ns t =
     t\<lparr>cols := map (\<lambda>n. (n, case map_of (cols t) n of
                                  Some c \<Rightarrow> c
                                | None \<Rightarrow> replicate (length (index t)) (nan_cell ext))) ns\<rparr>"

text \<open>
  \<^verbatim>\<open>df.to_csv(path, index=...)\<close> and \<^verbatim>\<open>pd.read_csv(path)\<close>.  A file is its header
  with the values below each name; the row labels, when written, form a first column with
  an empty name, which pandas reads back as \<^verbatim>\<open>Unnamed: 0\<close>.  Headers are taken to be
  distinct (pandas renames repeated ones on reading; that renaming is not modelled).
\<close>

definition to_csv :: "bool \<Rightarrow> 'v table \<Rightarrow> 'v csv" where
  "to_csv with_index t = (if with_index then [([], index t)] else []) @ cols t"

definition read_csv :: "'v ext \<Rightarrow> 'v csv \<Rightarrow> exn + 'v table" where
  "read_csv ext f =
     (case f of
        [] \<Rightarrow> Inl (LibraryError ''EmptyDataError'')
      | (n, c) # rest \<Rightarrow>
          Inr \<lparr>index = map (int_cell ext) [0..<length c],
               cols = map (\<lambda>(i, (m, d)). (if m = [] then ''Unnamed: '' @ digits i else m, d))
                        (enumerate 0 f)\<rparr>)"

text \<open>\<^verbatim>\<open>pd.read_csv(p)\<close> on the file system of the state.\<close>

definition pd_read_csv :: "'v ext \<Rightarrow> path \<Rightarrow> ('v, 'm) state \<Rightarrow> exn + 'v table" where
  "pd_read_csv ext p s =
     (case fs s p of
        None \<Rightarrow> Inl (FileNotFoundError p)
      | Some (ModelFile m) \<Rightarrow> Inl (LibraryError ''ParserError'')
      | Some (CsvFile f) \<Rightarrow> read_csv ext f)"

definition alloc :: "'v table \<Rightarrow> (('v, 'm) state, nat) body" where
  "alloc t = (\<lambda>s. (Inr (next_ref s), s\<lparr>heap := (heap s)(next_ref s := t), next_ref := Suc (next_ref s)\<rparr>))"

definition df_read :: "nat \<Rightarrow> nat \<Rightarrow> ('v table \<Rightarrow> exn + 'a) \<Rightarrow> (('v, 'm) state, 'a) body" where
  "df_read lno r f = (\<lambda>s. at_line lno (f (heap s r)) s)"

text \<open>An in-place update of the frame at reference \<open>r\<close>; a failing update leaves it as it was.\<close>

definition df_update :: "nat \<Rightarrow> nat \<Rightarrow> ('v table \<Rightarrow> exn + 'v table) \<Rightarrow> (('v, 'm) state, unit) body" where
  "df_update lno r f =
     (\<lambda>s. case f (heap s r) of
        Inl e \<Rightarrow> (Inl (lno, e), s)
      | Inr t \<Rightarrow> (Inr (), s\<lparr>heap := (heap s)(r := t)\<rparr>))"

definition write_file :: "'v ext \<Rightarrow> nat \<Rightarrow> path \<Rightarrow> ('v, 'm) content \<Rightarrow> (('v, 'm) state, unit) body" where
  "write_file ext lno p c =
     (\<lambda>s. case write_error ext p of
        Some e \<Rightarrow> (Inl (lno, e), s)
      | None \<Rightarrow> (Inr (), s\<lparr>fs := (fs s)(p \<mapsto> c)\<rparr>))"

section \<open>Configuration and constants\<close>

text \<open>
  The configuration is the nested dictionary that \<^verbatim>\<open>read_yaml\<close> returns; a key that is
  absent is \<open>None\<close> and looking it up raises \<^verbatim>\<open>KeyError\<close>.
\<close>

record data_processing_cfg =
  categorical_columns :: "string list option"
  numerical_columns :: "string list option"
  skewness_threshold :: "pyfloat option"
  no_of_features :: "int option"

record data_ingestion_cfg =
  cfg_bucket_name :: "string option"
  cfg_bucket_file_name :: "string option"
  cfg_train_ratio :: "real option"

record config =
  data_processing :: "data_processing_cfg option"
  data_ingestion :: "data_ingestion_cfg option"

definition lookup :: "string \<Rightarrow> 'a option \<Rightarrow> exn + 'a" where
  "lookup key v = (case v of None \<Rightarrow> Inl (KeyError [key]) | Some x \<Rightarrow> Inr x)"

definition dp_lookup :: "config \<Rightarrow> string \<Rightarrow> (data_processing_cfg \<Rightarrow> 'a option) \<Rightarrow> exn + 'a" where
  "dp_lookup cfg key field =
     (case data_processing cfg of
        None \<Rightarrow> Inl (KeyError [''data_processing''])
      | Some dp \<Rightarrow> lookup key (field dp))"

text \<open>
  The constants of \<^verbatim>\<open>config/paths_config.py\<close> (not among the sources) and the file names
  that the tracebacks of the three modules report.
\<close>

record env =
  RAW_FILE_PATH :: path
  TRAIN_FILE_PATH :: path
  TEST_FILE_PATH :: path
  PROCESSED_TRAIN_DATA_PATH :: path
  PROCESSED_TEST_DATA_PATH :: path
  data_ingestion_py :: string
  data_preprocessing_py :: string
  model_training_py :: string

text \<open>
  Modelled from the spec: \<^verbatim>\<open>utils.common_functions.load_data\<close> is not among the
  sources.  The spec keeps the tables on disk as delimited text with headers, so loading
  reads the file at the path into a new frame and raises when there is no such table.
\<close>

definition load_data :: "'v ext \<Rightarrow> path \<Rightarrow> (('v, 'm) state, nat) meth" where
  "load_data ext p =
     (\<lambda>s. case pd_read_csv ext p s of
        Inl e \<Rightarrow> (Inl e, s)
      | Inr t \<Rightarrow> (Inr (next_ref s),
                   s\<lparr>heap := (heap s)(next_ref s := t), next_ref := Suc (next_ref s)\<rparr>))"

section \<open>\<^verbatim>\<open>data_preprocessing.py\<close>: class \<^verbatim>\<open>DataProcessor\<close>\<close>

record data_processor =
  train_path :: path
  test_path :: path
  processed_dir :: path
  dp_config :: config

subsection \<open>\<^verbatim>\<open>preprocess_data\<close>\<close>

text \<open>Lines 45 to 48: one encoder fit per categorical column, the mapping kept per column.\<close>

fun encode_columns ::
  "'v ext \<Rightarrow> nat \<Rightarrow> string list \<Rightarrow> (string \<times> ('v \<times> 'v) list) list
     \<Rightarrow> (('v, 'm) state, (string \<times> ('v \<times> 'v) list) list) body" where
  "encode_columns ext r [] mappings = ret mappings"
| "encode_columns ext r (column # rest) mappings =
     and_then (df_read 46 r (get_column column)) (\<lambda>c.
     and_then (at_line 46 (label_encode ext c)) (\<lambda>(codes, mapping).
     and_then (df_update 46 r (\<lambda>t. Inr (set_column column codes t))) (\<lambda>_.
     encode_columns ext r rest (AList.update column mapping mappings))))"

text \<open>Lines 52 and 53.\<close>

fun log_mappings :: "'v ext \<Rightarrow> (string \<times> ('v \<times> 'v) list) list \<Rightarrow> (('v, 'm) state, unit) body" where
  "log_mappings ext [] = ret ()"
| "log_mappings ext ((col, mapping) # rest) =
     and_then (info (col @ '': '' @ show_mapping ext mapping)) (\<lambda>_. log_mappings ext rest)"

text \<open>\<^verbatim>\<open>df[column] = np.log1p(df[column])\<close> at the given line.\<close>

definition log1p_column :: "'v ext \<Rightarrow> nat \<Rightarrow> nat \<Rightarrow> string \<Rightarrow> (('v, 'm) state, unit) body" where
  "log1p_column ext lno r column =
     and_then (df_read lno r (get_column column)) (\<lambda>c.
     and_then (at_line lno (log1p ext c)) (\<lambda>c'.
     df_update lno r (\<lambda>t. Inr (set_column column c' t))))"

text \<open>Lines 63 and 64.\<close>

fun log1p_columns :: "'v ext \<Rightarrow> nat \<Rightarrow> string list \<Rightarrow> (('v, 'm) state, unit) body" where
  "log1p_columns ext r [] = ret ()"
| "log1p_columns ext r (column # rest) =
     and_then (log1p_column ext 64 r column) (\<lambda>_. log1p_columns ext r rest)"

text \<open>Line 61: \<^verbatim>\<open>df[num_cols].apply(lambda x: x.skew()).sort_values(ascending=False)\<close>.\<close>

fun skew_each :: "'v ext \<Rightarrow> (string \<times> 'v list) list \<Rightarrow> exn + (string \<times> pyfloat) list" where
  "skew_each ext [] = Inr []"
| "skew_each ext ((n, c) # rest) =
     (case skew ext c of
        Inl e \<Rightarrow> Inl e
      | Inr k \<Rightarrow> (case skew_each ext rest of Inl e \<Rightarrow> Inl e | Inr ks \<Rightarrow> Inr ((n, k) # ks)))"

definition skewness_of :: "'v ext \<Rightarrow> string list \<Rightarrow> 'v table \<Rightarrow> exn + (string \<times> pyfloat) list" where
  "skewness_of ext num_cols t =
     (case select_columns num_cols t of
        Inl e \<Rightarrow> Inl e
      | Inr sub \<Rightarrow> (case skew_each ext (cols sub) of Inl e \<Rightarrow> Inl e | Inr ks \<Rightarrow> Inr (sort_desc ext ks)))"

text \<open>Line 63: \<^verbatim>\<open>skewness[skewness > skew_threshold].index\<close>.\<close>

definition skewed :: "pyfloat \<Rightarrow> (string \<times> pyfloat) list \<Rightarrow> string list" where
  "skewed skew_threshold skewness = map fst (filter (\<lambda>(n, k). float_gt k skew_threshold) skewness)"

text \<open>Lines 60 to 64: the transform driven by the measured skewness.\<close>

definition skew_transform ::
  "'v ext \<Rightarrow> data_processor \<Rightarrow> string list \<Rightarrow> nat \<Rightarrow> (('v, 'm) state, unit) body" where
  "skew_transform ext self num_cols df =
     and_then (at_line 60 (dp_lookup (dp_config self) ''skewness_threshold'' skewness_threshold)) (\<lambda>skew_threshold.
     and_then (df_read 61 df (skewness_of ext num_cols)) (\<lambda>skewness.
     log1p_columns ext df (skewed skew_threshold skewness)))"

definition preprocess_body ::
  "'v ext \<Rightarrow> data_processor \<Rightarrow> nat \<Rightarrow> (('v, 'm) state, nat) body" where
  "preprocess_body ext self df =
     and_then (info '' Starting the Preprocessing data'') (\<lambda>_.
     and_then (info ''Dropping unnecessary columns'') (\<lambda>_.
     and_then (df_update 35 df (drop_columns [''Booking_ID''])) (\<lambda>_.
     and_then (df_update 36 df (\<lambda>t. Inr (drop_duplicates t))) (\<lambda>_.
     and_then (at_line 38 (dp_lookup (dp_config self) ''categorical_columns'' categorical_columns)) (\<lambda>cat_cols.
     and_then (at_line 39 (dp_lookup (dp_config self) ''numerical_columns'' numerical_columns)) (\<lambda>num_cols.
     and_then (info ''Applying Label Encoding'') (\<lambda>_.
     and_then (encode_columns ext df cat_cols []) (\<lambda>mappings.
     and_then (info ''Label Mapping are: '') (\<lambda>_.
     and_then (log_mappings ext mappings) (\<lambda>_.
     and_then (info ''Skewness handling'') (\<lambda>_.
     and_then (log1p_column ext 57 df ''no_of_previous_cancellations'') (\<lambda>_.
     and_then (log1p_column ext 58 df ''no_of_previous_bookings_not_canceled'') (\<lambda>_.
     and_then (skew_transform ext self num_cols df) (\<lambda>_.
     ret df))))))))))))))"

definition preprocess_data ::
  "env \<Rightarrow> 'v ext \<Rightarrow> data_processor \<Rightarrow> nat \<Rightarrow> (('v, 'm) state, nat) meth" where
  "preprocess_data env ext self df =
     try_except (preprocess_body ext self df)
       (\<lambda>e. ''Error occurred during data preprocessing: '' @ str_exn (exc_text ext) e)
       (data_preprocessing_py env) (\<lambda>e. ''Failed to preprocess the data'')"

subsection \<open>\<^verbatim>\<open>balanced_data\<close>\<close>

definition balanced_body :: "'v ext \<Rightarrow> nat \<Rightarrow> (('v, 'm) state, nat) body" where
  "balanced_body ext df =
     and_then (info ''Balancing the data using SMOTE'') (\<lambda>_.
     and_then (df_read 76 df (drop_columns [''booking_status''])) (\<lambda>X.
     and_then (df_read 77 df (get_column ''booking_status'')) (\<lambda>y.
     and_then (at_line 80 (smote ext X y)) (\<lambda>(X_resampled, y_resampled).
     and_then (alloc (set_column ''booking_status'' y_resampled
                        (reindex_columns ext (columns X) X_resampled))) (\<lambda>balanced_df.
     and_then (info ''Data balanced successfully'') (\<lambda>_.
     ret balanced_df))))))"

definition balanced_data :: "env \<Rightarrow> 'v ext \<Rightarrow> nat \<Rightarrow> (('v, 'm) state, nat) meth" where
  "balanced_data env ext df =
     try_except (balanced_body ext df)
       (\<lambda>e. ''Error occurred during data balancing: '' @ str_exn (exc_text ext) e)
       (data_preprocessing_py env) (\<lambda>e. ''Failed to balance the data'')"

subsection \<open>\<^verbatim>\<open>select_feature\<close>\<close>

text \<open>\<^verbatim>\<open>str\<close> of an integer, and \<^verbatim>\<open>Series.head(n)\<close>.\<close>

definition show_int :: "int \<Rightarrow> string" where
  "show_int i = (if i < 0 then ''-'' @ digits (nat (- i)) else digits (nat i))"

definition head :: "int \<Rightarrow> 'a list \<Rightarrow> 'a list" where
  "head n xs = (if 0 \<le> n then take (nat n) xs else take (nat (int (length xs) + n)) xs)"

text \<open>Line 102: the two columns of the importance frame must have one length.\<close>

definition importance_frame :: "string list \<Rightarrow> pyfloat list \<Rightarrow> exn + (string \<times> pyfloat) list" where
  "importance_frame names importance =
     (if length names = length importance then Inr (zip names importance)
      else Inl (LibraryError ''ValueError''))"

definition select_body :: "'v ext \<Rightarrow> data_processor \<Rightarrow> nat \<Rightarrow> (('v, 'm) state, nat) body" where
  "select_body ext self df =
     and_then (info ''Feature selection using Random Forest'') (\<lambda>_.
     and_then (df_read 95 df (drop_columns [''booking_status''])) (\<lambda>X.
     and_then (df_read 96 df (get_column ''booking_status'')) (\<lambda>y.
     and_then (at_line 99 (rf_importances ext X y)) (\<lambda>feature_importance.
     and_then (at_line 102 (importance_frame (columns X) feature_importance)) (\<lambda>feature_importance_df.
     and_then (at_line 105 (dp_lookup (dp_config self) ''no_of_features'' no_of_features)) (\<lambda>num_features_to_select.
     and_then (ret (head num_features_to_select (map fst (sort_desc ext feature_importance_df)))) (\<lambda>top_10_features.
     and_then (df_read 109 df (select_columns (top_10_features @ [''booking_status'']))) (\<lambda>t.
     and_then (alloc t) (\<lambda>top_10_df.
     and_then (info ''Feature selection completed'') (\<lambda>_.
     and_then (info (''Top '' @ show_int num_features_to_select @ '' features selected: ''
                       @ show_features ext top_10_features)) (\<lambda>_.
     ret top_10_df)))))))))))"

definition select_feature :: "env \<Rightarrow> 'v ext \<Rightarrow> data_processor \<Rightarrow> nat \<Rightarrow> (('v, 'm) state, nat) meth" where
  "select_feature env ext self df =
     try_except (select_body ext self df)
       (\<lambda>e. ''Error occurred during feature selection: '' @ str_exn (exc_text ext) e)
       (data_preprocessing_py env) (\<lambda>e. ''Failed to select features'')"

subsection \<open>\<^verbatim>\<open>save_data\<close> and \<^verbatim>\<open>process\<close>\<close>

definition save_body :: "'v ext \<Rightarrow> nat \<Rightarrow> path \<Rightarrow> (('v, 'm) state, unit) body" where
  "save_body ext df file_path =
     and_then (info (''Saving processed data to '' @ file_path)) (\<lambda>_.
     and_then (\<lambda>s. write_file ext 124 file_path (CsvFile (to_csv False (heap s df))) s) (\<lambda>_.
     info ''Data saved successfully''))"

definition save_data :: "env \<Rightarrow> 'v ext \<Rightarrow> nat \<Rightarrow> path \<Rightarrow> (('v, 'm) state, unit) meth" where
  "save_data env ext df file_path =
     try_except (save_body ext df file_path)
       (\<lambda>e. ''Error occurred while saving the data: '' @ str_exn (exc_text ext) e)
       (data_preprocessing_py env) (\<lambda>e. ''Failed to save the processed data'')"

definition process_body :: "env \<Rightarrow> 'v ext \<Rightarrow> data_processor \<Rightarrow> (('v, 'm) state, unit) body" where
  "process_body env ext self =
     and_then (info ''Loading data from RAW directory'') (\<lambda>_.
     and_then (call 134 (load_data ext (train_path self))) (\<lambda>train_df.
     and_then (call 135 (load_data ext (test_path self))) (\<lambda>test_df.
     and_then (call 137 (preprocess_data env ext self train_df)) (\<lambda>train_df.
     and_then (call 138 (preprocess_data env ext self test_df)) (\<lambda>test_df.
     and_then (call 140 (balanced_data env ext train_df)) (\<lambda>train_df.
     and_then (call 141 (balanced_data env ext test_df)) (\<lambda>test_df.
     and_then (call 143 (select_feature env ext self train_df)) (\<lambda>train_df.
     and_then (\<lambda>s. df_read 144 train_df (select_columns (columns (heap s train_df))) s) (\<lambda>t.
     and_then (alloc t) (\<lambda>test_df.
     and_then (call 146 (save_data env ext train_df (PROCESSED_TRAIN_DATA_PATH env))) (\<lambda>_.
     and_then (call 147 (save_data env ext test_df (PROCESSED_TEST_DATA_PATH env))) (\<lambda>_.
     info ''Data processing completed successfully''))))))))))))"

definition process :: "env \<Rightarrow> 'v ext \<Rightarrow> data_processor \<Rightarrow> (('v, 'm) state, unit) meth" where
  "process env ext self =
     try_except (process_body env ext self)
       (\<lambda>e. ''Error occurred during data processing: '' @ str_exn (exc_text ext) e)
       (data_preprocessing_py env) (\<lambda>e. ''Failed to process the data'')"

section \<open>\<^verbatim>\<open>data_ingestion.py\<close>: class \<^verbatim>\<open>DataIngestion\<close>\<close>

text \<open>
  The services outside the process: the storage bucket, the directory creation of the
  operating system, the learner with its search and scores, and the experiment tracker.
  A tracker call is \<open>None\<close> when it goes through and \<open>Some e\<close> when it raises \<open>e\<close>.
  The constants of \<^verbatim>\<open>config/model_params.py\<close> (not among the sources) are part of
  \<open>random_search_fit\<close>.
\<close>

record metrics =
  accuracy :: pyfloat
  precision :: pyfloat
  recall :: pyfloat
  f1_score :: pyfloat

record ('v, 'm) services =
  gcs_client :: "exn option"
  gcs_download :: "string \<Rightarrow> string \<Rightarrow> exn + ('v, 'm) content"
  makedirs_error :: "path \<Rightarrow> exn option"
  random_search_fit :: "'v table \<Rightarrow> 'v list \<Rightarrow> exn + 'm"
  show_best_params :: "'m \<Rightarrow> string"
  predict :: "'m \<Rightarrow> 'v table \<Rightarrow> exn + 'v list"
  accuracy_score :: "'v list \<Rightarrow> 'v list \<Rightarrow> exn + pyfloat"
  precision_score :: "'v list \<Rightarrow> 'v list \<Rightarrow> exn + pyfloat"
  recall_score :: "'v list \<Rightarrow> 'v list \<Rightarrow> exn + pyfloat"
  f1_score_fn :: "'v list \<Rightarrow> 'v list \<Rightarrow> exn + pyfloat"
  show_float :: "pyfloat \<Rightarrow> string"
  mlflow_start_run :: "exn option"
  mlflow_end_run :: "exn option"
  mlflow_log_artifact :: "path \<Rightarrow> exn option"
  mlflow_log_params :: "'m \<Rightarrow> exn option"
  mlflow_log_metrics :: "metrics \<Rightarrow> exn option"

definition raises :: "nat \<Rightarrow> exn option \<Rightarrow> ('s, unit) body" where
  "raises lno r = (\<lambda>s. (case r of Some e \<Rightarrow> Inl (lno, e) | None \<Rightarrow> Inr (), s))"

record data_ingestion =
  bucket_name :: string
  file_name :: string
  train_test_ratio :: real

definition download_body ::
  "env \<Rightarrow> 'v ext \<Rightarrow> ('v, 'm) services \<Rightarrow> data_ingestion \<Rightarrow> (('v, 'm) state, unit) body" where
  "download_body env ext srv self =
     and_then (raises 28 (gcs_client srv)) (\<lambda>_.
     and_then (at_line 32 (gcs_download srv (bucket_name self) (file_name self))) (\<lambda>blob.
     and_then (write_file ext 32 (RAW_FILE_PATH env) blob) (\<lambda>_.
     info (''CSV file is successfully downloaded to '' @ RAW_FILE_PATH env))))"

definition download_csv_from_gcp ::
  "env \<Rightarrow> 'v ext \<Rightarrow> ('v, 'm) services \<Rightarrow> data_ingestion \<Rightarrow> (('v, 'm) state, unit) meth" where
  "download_csv_from_gcp env ext srv self =
     try_except (download_body env ext srv self)
       (\<lambda>e. ''Error while downloading the csv file: '' @ str_exn (exc_text ext) e)
       (data_ingestion_py env)
       (\<lambda>e. ''Failed to download csv file: '' @ str_exn (exc_text ext) e @ '' '')"

definition split_body :: "env \<Rightarrow> 'v ext \<Rightarrow> data_ingestion \<Rightarrow> (('v, 'm) state, unit) body" where
  "split_body env ext self =
     and_then (info ''Splitting the data into train and test sets'') (\<lambda>_.
     and_then (\<lambda>s. at_line 44 (pd_read_csv ext (RAW_FILE_PATH env) s) s) (\<lambda>data.
     and_then (at_line 46 (train_test_split ext data (1 - train_test_ratio self) 42)) (\<lambda>(train_data, test_data).
     and_then (write_file ext 48 (TRAIN_FILE_PATH env) (CsvFile (to_csv True train_data))) (\<lambda>_.
     and_then (write_file ext 49 (TEST_FILE_PATH env) (CsvFile (to_csv True test_data))) (\<lambda>_.
     and_then (info (''Train data saved to '' @ TRAIN_FILE_PATH env)) (\<lambda>_.
     info (''Test data saved to '' @ TEST_FILE_PATH env)))))))"

definition split_data :: "env \<Rightarrow> 'v ext \<Rightarrow> data_ingestion \<Rightarrow> (('v, 'm) state, unit) meth" where
  "split_data env ext self =
     try_except (split_body env ext self)
       (\<lambda>e. ''Error occurred while splitting the data into train and test sets'')
       (data_ingestion_py env)
       (\<lambda>e. ''Failed to split the data into train and test sets'')"

definition ingestion_run_body ::
  "env \<Rightarrow> 'v ext \<Rightarrow> ('v, 'm) services \<Rightarrow> data_ingestion \<Rightarrow> (('v, 'm) state, unit) body" where
  "ingestion_run_body env ext srv self =
     and_then (info ''Starting the data ingestion process'') (\<lambda>_.
     and_then (call 64 (download_csv_from_gcp env ext srv self)) (\<lambda>_.
     and_then (call 65 (split_data env ext self)) (\<lambda>_.
     info ''Data ingestion process completed successfully'')))"

text \<open>
  \<^verbatim>\<open>DataIngestion.run\<close>: the handler catches \<^verbatim>\<open>CustomException\<close> only, logs it and
  does not raise again; the \<^verbatim>\<open>finally\<close> clause logs in every case.
\<close>

definition ingestion_run ::
  "env \<Rightarrow> 'v ext \<Rightarrow> ('v, 'm) services \<Rightarrow> data_ingestion \<Rightarrow> (('v, 'm) state, unit) meth" where
  "ingestion_run env ext srv self =
     (\<lambda>s. case ingestion_run_body env ext srv self s of
        (Inr u, s') \<Rightarrow> (Inr (), log_line INFO ''Data ingestion Completed'' s')
      | (Inl (lno, CustomException m d), s') \<Rightarrow>
          (Inr (), log_line INFO ''Data ingestion Completed''
                     (log_line ERROR (''Custom Exception: '' @ d) s'))
      | (Inl (lno, e), s') \<Rightarrow> (Inl e, log_line INFO ''Data ingestion Completed'' s'))"

section \<open>\<^verbatim>\<open>model_training.py\<close>: class \<^verbatim>\<open>ModelTraining\<close>\<close>

record model_training =
  mt_train_path :: path
  mt_test_path :: path
  model_output_path :: path

definition load_and_split_body ::
  "'v ext \<Rightarrow> model_training
     \<Rightarrow> (('v, 'm) state, 'v table \<times> 'v list \<times> 'v table \<times> 'v list) body" where
  "load_and_split_body ext self =
     and_then (info (''Loading the data from '' @ mt_train_path self)) (\<lambda>_.
     and_then (call 35 (load_data ext (mt_train_path self))) (\<lambda>train_df.
     and_then (info (''Loading the data from '' @ mt_test_path self)) (\<lambda>_.
     and_then (call 38 (load_data ext (mt_test_path self))) (\<lambda>test_df.
     and_then (info ''Deleting the unnecessary columns'') (\<lambda>_.
     and_then (df_read 41 train_df (drop_columns [''Unnamed: 0''])) (\<lambda>train_df.
     and_then (df_read 42 test_df (drop_columns [''Unnamed: 0''])) (\<lambda>test_df.
     and_then (at_line 44 (drop_columns [''booking_status''] train_df)) (\<lambda>X_train.
     and_then (at_line 45 (get_column ''booking_status'' train_df)) (\<lambda>y_train.
     and_then (at_line 47 (drop_columns [''booking_status''] test_df)) (\<lambda>X_test.
     and_then (at_line 48 (get_column ''booking_status'' test_df)) (\<lambda>y_test.
     and_then (info ''Data loaded and split into features and target variable'') (\<lambda>_.
     ret (X_train, y_train, X_test, y_test)))))))))))))"

definition load_and_split_data ::
  "env \<Rightarrow> 'v ext \<Rightarrow> model_training
     \<Rightarrow> (('v, 'm) state, 'v table \<times> 'v list \<times> 'v table \<times> 'v list) meth" where
  "load_and_split_data env ext self =
     try_except (load_and_split_body ext self)
       (\<lambda>e. ''Error occurred while loading and splitting the data: '' @ str_exn (exc_text ext) e)
       (model_training_py env) (\<lambda>e. ''Failed to load and split the data'')"

definition train_lgbm_body ::
  "('v, 'm) services \<Rightarrow> 'v table \<Rightarrow> 'v list \<Rightarrow> (('v, 'm) state, 'm) body" where
  "train_lgbm_body srv X_train y_train =
     and_then (info ''Training the model using LightGBM'') (\<lambda>_.
     and_then (info ''Performing Randomized Search for hyperparameter tuning'') (\<lambda>_.
     and_then (info ''Hyperparameter tuning started'') (\<lambda>_.
     and_then (at_line 79 (random_search_fit srv X_train y_train)) (\<lambda>best_lgbm_model.
     and_then (info ''Hyperparameter tuning completed'') (\<lambda>_.
     and_then (info (''Best parameters found: '' @ show_best_params srv best_lgbm_model)) (\<lambda>_.
     and_then (info ''Model training completed successfully'') (\<lambda>_.
     ret best_lgbm_model)))))))"

definition train_lgbm ::
  "env \<Rightarrow> 'v ext \<Rightarrow> ('v, 'm) services \<Rightarrow> 'v table \<Rightarrow> 'v list \<Rightarrow> (('v, 'm) state, 'm) meth" where
  "train_lgbm env ext srv X_train y_train =
     try_except (train_lgbm_body srv X_train y_train)
       (\<lambda>e. ''Error occurred during model training: '' @ str_exn (exc_text ext) e)
       (model_training_py env) (\<lambda>e. ''Failed to train the model'')"

definition evaluate_body ::
  "('v, 'm) services \<Rightarrow> 'm \<Rightarrow> 'v table \<Rightarrow> 'v list \<Rightarrow> (('v, 'm) state, metrics) body" where
  "evaluate_body srv model X_test y_test =
     and_then (info ''Evaluating the model'') (\<lambda>_.
     and_then (at_line 98 (predict srv model X_test)) (\<lambda>y_pred.
     and_then (at_line 100 (accuracy_score srv y_test y_pred)) (\<lambda>acc.
     and_then (at_line 101 (precision_score srv y_test y_pred)) (\<lambda>prec.
     and_then (at_line 102 (recall_score srv y_test y_pred)) (\<lambda>rec.
     and_then (at_line 103 (f1_score_fn srv y_test y_pred)) (\<lambda>f1.
     and_then (info (''Model evaluation completed with accuracy: '' @ show_float srv acc)) (\<lambda>_.
     and_then (info (''Model evaluation completed with precision: '' @ show_float srv prec)) (\<lambda>_.
     and_then (info (''Model evaluation completed with recall: '' @ show_float srv rec)) (\<lambda>_.
     and_then (info (''Model evaluation completed with f1: '' @ show_float srv f1)) (\<lambda>_.
     ret \<lparr>accuracy = acc, precision = prec, recall = rec, f1_score = f1\<rparr>))))))))))"

definition evaluate_model ::
  "env \<Rightarrow> 'v ext \<Rightarrow> ('v, 'm) services \<Rightarrow> 'm \<Rightarrow> 'v table \<Rightarrow> 'v list \<Rightarrow> (('v, 'm) state, metrics) meth" where
  "evaluate_model env ext srv model X_test y_test =
     try_except (evaluate_body srv model X_test y_test)
       (\<lambda>e. ''Error occurred during model evaluation: '' @ str_exn (exc_text ext) e)
       (model_training_py env) (\<lambda>e. ''Failed to evaluate the model'')"

definition save_model_body ::
  "'v ext \<Rightarrow> ('v, 'm) services \<Rightarrow> model_training \<Rightarrow> 'm \<Rightarrow> (('v, 'm) state, unit) body" where
  "save_model_body ext srv self model =
     and_then (raises 124 (makedirs_error srv (model_output_path self))) (\<lambda>_.
     and_then (info (''Saving the model to '' @ model_output_path self)) (\<lambda>_.
     and_then (write_file ext 127 (model_output_path self) (ModelFile model)) (\<lambda>_.
     info (''Model saved successfully to '' @ model_output_path self))))"

definition save_model ::
  "env \<Rightarrow> 'v ext \<Rightarrow> ('v, 'm) services \<Rightarrow> model_training \<Rightarrow> 'm \<Rightarrow> (('v, 'm) state, unit) meth" where
  "save_model env ext srv self model =
     try_except (save_model_body ext srv self model)
       (\<lambda>e. ''Error occurred while saving the model: '' @ str_exn (exc_text ext) e)
       (model_training_py env) (\<lambda>e. ''Failed to save the model'')"

text \<open>
  \<^verbatim>\<open>with mlflow.start_run(): block\<close>: the run is opened, the block runs, and the run is
  closed whether the block finished or raised; an exception of the closing call replaces
  the one in flight.
\<close>

definition with_run :: "('v, 'm) services \<Rightarrow> nat \<Rightarrow> ('s, 'a) body \<Rightarrow> ('s, 'a) body" where
  "with_run srv lno block =
     (case mlflow_start_run srv of
        Some e \<Rightarrow> (\<lambda>s. (Inl (lno, e), s))
      | None \<Rightarrow>
          (\<lambda>s. case block s of
             (r, s') \<Rightarrow> (case mlflow_end_run srv of Some e \<Rightarrow> (Inl (lno, e), s') | None \<Rightarrow> (r, s'))))"

definition training_block ::
  "env \<Rightarrow> 'v ext \<Rightarrow> ('v, 'm) services \<Rightarrow> model_training \<Rightarrow> (('v, 'm) state, unit) body" where
  "training_block env ext srv self =
     and_then (info ''Starting the model training process'') (\<lambda>_.
     and_then (info ''Starting our MLFLOW experiment'') (\<lambda>_.
     and_then (info ''Logging the training and testing dataset to MLFLOW'') (\<lambda>_.
     and_then (raises 143 (mlflow_log_artifact srv (mt_train_path self))) (\<lambda>_.
     and_then (raises 144 (mlflow_log_artifact srv (mt_test_path self))) (\<lambda>_.
     and_then (call 146 (load_and_split_data env ext self)) (\<lambda>(X_train, y_train, X_test, y_test).
     and_then (call 147 (train_lgbm env ext srv X_train y_train)) (\<lambda>best_lgbm_model.
     and_then (call 148 (evaluate_model env ext srv best_lgbm_model X_test y_test)) (\<lambda>metrics.
     and_then (call 149 (save_model env ext srv self best_lgbm_model)) (\<lambda>_.
     and_then (info ''Logging the model parameters and metrics to MLFLOW'') (\<lambda>_.
     and_then (raises 152 (mlflow_log_artifact srv (model_output_path self))) (\<lambda>_.
     and_then (raises 154 (mlflow_log_params srv best_lgbm_model)) (\<lambda>_.
     and_then (info ''Logging the model metrics to MLFLOW'') (\<lambda>_.
     and_then (raises 157 (mlflow_log_metrics srv metrics)) (\<lambda>_.
     info ''Model training process completed successfully''))))))))))))))"

definition training_run ::
  "env \<Rightarrow> 'v ext \<Rightarrow> ('v, 'm) services \<Rightarrow> model_training \<Rightarrow> (('v, 'm) state, unit) meth" where
  "training_run env ext srv self =
     try_except (with_run srv 136 (training_block env ext srv self))
       (\<lambda>e. ''Error occurred during model training: '' @ str_exn (exc_text ext) e)
       (model_training_py env) (\<lambda>e. ''Failed to train the model'')"

section \<open>A small concrete installation\<close>

text \<open>
  Cells are integers and a fitted model is a number.  The library routines are simple
  stand-ins: the encoder keeps the codes, \<open>log1p\<close> adds 100 (so that its use shows), the
  skewness of a column is the sum of its cells, sorting is a stable insertion sort in
  descending order, every feature has importance 1, the oversampler refuses a single class
  and otherwise returns its input, and the splitter gives the first row to the train part
  and the other rows to the test part.  Nothing
  fails unless a variant below says so.
\<close>

fun insert_desc :: "string \<times> pyfloat \<Rightarrow> (string \<times> pyfloat) list \<Rightarrow> (string \<times> pyfloat) list" where
  "insert_desc x [] = [x]"
| "insert_desc x (y # ys) = (if float_gt (snd y) (snd x) then y # insert_desc x ys else x # y # ys)"

definition demo_sort :: "(string \<times> pyfloat) list \<Rightarrow> (string \<times> pyfloat) list" where
  "demo_sort ks = foldr insert_desc ks []"

definition demo_env :: env where
  "demo_env = \<lparr>RAW_FILE_PATH = ''raw.csv'', TRAIN_FILE_PATH = ''train.csv'',
      TEST_FILE_PATH = ''test.csv'', PROCESSED_TRAIN_DATA_PATH = ''ptrain.csv'',
      PROCESSED_TEST_DATA_PATH = ''ptest.csv'', data_ingestion_py = ''ingest.py'',
      data_preprocessing_py = ''prep.py'', model_training_py = ''train.py''\<rparr>"

definition demo_ext :: "int ext" where
  "demo_ext = \<lparr>exc_text = (\<lambda>e. ''cause''), int_cell = int, nan_cell = - 1,
      label_encode = (\<lambda>c. Inr (c, [])), show_mapping = (\<lambda>m. ''{}''),
      log1p = (\<lambda>c. Inr (map (\<lambda>x. x + 100) c)),
      skew = (\<lambda>c. Inr (Fin (real_of_int (sum_list c)))),
      sort_desc = demo_sort,
      smote = (\<lambda>X y. if length (remdups y) < 2 then Inl (LibraryError ''ValueError'')
                       else Inr (X, y)),
      rf_importances = (\<lambda>X y. Inr (map (\<lambda>c. Fin 1) (cols X))),
      show_features = (\<lambda>ns. ''[]''),
      train_test_split = (\<lambda>t r seed.
         Inr (t\<lparr>index := take 1 (index t), cols := map (\<lambda>(n, c). (n, take 1 c)) (cols t)\<rparr>,
              t\<lparr>index := drop 1 (index t), cols := map (\<lambda>(n, c). (n, drop 1 c)) (cols t)\<rparr>)),
      write_error = (\<lambda>p. None)\<rparr>"

text \<open>
  The same libraries with another importance ranking, and the ranking in which the column
  of row labels counts for nothing.
\<close>

definition demo_ext_with :: "(int table \<Rightarrow> int list \<Rightarrow> exn + pyfloat list) \<Rightarrow> int ext" where
  "demo_ext_with importances = demo_ext\<lparr>rf_importances := importances\<rparr>"

definition demo_ext_low :: "int ext" where
  "demo_ext_low = demo_ext_with
     (\<lambda>X y. Inr (map (\<lambda>(n, c). if n = ''Unnamed: 0'' then Fin 0 else Fin 1) (cols X)))"

definition demo_config :: config where
  "demo_config = \<lparr>data_processing = Some \<lparr>categorical_columns = Some [],
        numerical_columns = Some [''lead_time''], skewness_threshold = Some (Fin 3),
        no_of_features = Some 2\<rparr>,
      data_ingestion = None\<rparr>"

definition demo_processor :: data_processor where
  "demo_processor = \<lparr>train_path = ''train.csv'', test_path = ''test.csv'',
      processed_dir = ''processed'', dp_config = demo_config\<rparr>"

definition demo_frame :: "int table" where
  "demo_frame = \<lparr>index = [0, 1],
      cols = [(''Booking_ID'', [1, 2]), (''lead_time'', [1, 2]),
              (''no_of_previous_cancellations'', [0, 0]),
              (''no_of_previous_bookings_not_canceled'', [0, 0]),
              (''booking_status'', [0, 1])]\<rparr>"

definition demo_state :: "(int, nat) state" where
  "demo_state = \<lparr>logs = [], heap = (\<lambda>r. demo_frame), next_ref = 1, fs = Map.empty\<rparr>"

text \<open>
  The disk after ingestion: the train file holds the two-row table and the test file
  another two-row table, each written with its row labels.  In the second variant the
  test file has one class only.
\<close>

definition demo_test_frame :: "int table" where
  "demo_test_frame = \<lparr>index = [0, 1],
      cols = [(''Booking_ID'', [3, 4]), (''lead_time'', [5, 6]),
              (''no_of_previous_cancellations'', [0, 0]),
              (''no_of_previous_bookings_not_canceled'', [0, 0]),
              (''booking_status'', [1, 0])]\<rparr>"

definition demo_disk :: "(int, nat) state" where
  "demo_disk = demo_state\<lparr>fs := [''train.csv'' \<mapsto> CsvFile (to_csv True demo_frame),
                               ''test.csv'' \<mapsto> CsvFile (to_csv True demo_test_frame)]\<rparr>"

definition demo_one_class :: "int table" where
  "demo_one_class = \<lparr>index = [0, 1],
      cols = [(''Booking_ID'', [3, 4]), (''lead_time'', [1, 2]),
              (''no_of_previous_cancellations'', [0, 0]),
              (''no_of_previous_bookings_not_canceled'', [0, 0]),
              (''booking_status'', [1, 1])]\<rparr>"

definition demo_disk_one_class :: "(int, nat) state" where
  "demo_disk_one_class = demo_state\<lparr>fs := [''train.csv'' \<mapsto> CsvFile (to_csv True demo_frame),
                               ''test.csv'' \<mapsto> CsvFile (to_csv True demo_one_class)]\<rparr>"

text \<open>The two-row table as loaded, after preprocessing, and after feature selection.\<close>

definition demo_loaded :: "int table" where
  "demo_loaded = \<lparr>index = [0, 1],
      cols = [(''Unnamed: 0'', [0, 1]), (''Booking_ID'', [1, 2]), (''lead_time'', [1, 2]),
              (''no_of_previous_cancellations'', [0, 0]),
              (''no_of_previous_bookings_not_canceled'', [0, 0]),
              (''booking_status'', [0, 1])]\<rparr>"

definition demo_clean :: "int table" where
  "demo_clean = \<lparr>index = [0, 1],
      cols = [(''Unnamed: 0'', [0, 1]), (''lead_time'', [1, 2]),
              (''no_of_previous_cancellations'', [100, 100]),
              (''no_of_previous_bookings_not_canceled'', [100, 100]),
              (''booking_status'', [0, 1])]\<rparr>"

definition demo_selected :: "int table" where
  "demo_selected = \<lparr>index = [0, 1],
      cols = [(''Unnamed: 0'', [0, 1]), (''lead_time'', [1, 2]), (''booking_status'', [0, 1])]\<rparr>"

text \<open>
  The table of the test file as loaded and after preprocessing (its \<^verbatim>\<open>lead_time\<close> has
  skewness 11, above the threshold 3), and the train table as selected under the second
  ranking.
\<close>

definition demo_test_loaded :: "int table" where
  "demo_test_loaded = \<lparr>index = [0, 1],
      cols = [(''Unnamed: 0'', [0, 1]), (''Booking_ID'', [3, 4]), (''lead_time'', [5, 6]),
              (''no_of_previous_cancellations'', [0, 0]),
              (''no_of_previous_bookings_not_canceled'', [0, 0]),
              (''booking_status'', [1, 0])]\<rparr>"

definition demo_test_clean :: "int table" where
  "demo_test_clean = \<lparr>index = [0, 1],
      cols = [(''Unnamed: 0'', [0, 1]), (''lead_time'', [105, 106]),
              (''no_of_previous_cancellations'', [100, 100]),
              (''no_of_previous_bookings_not_canceled'', [100, 100]),
              (''booking_status'', [1, 0])]\<rparr>"

definition demo_selected_low :: "int table" where
  "demo_selected_low = \<lparr>index = [0, 1],
      cols = [(''lead_time'', [1, 2]), (''no_of_previous_cancellations'', [100, 100]),
              (''booking_status'', [0, 1])]\<rparr>"

definition demo_one_class_loaded :: "int table" where
  "demo_one_class_loaded = \<lparr>index = [0, 1],
      cols = [(''Unnamed: 0'', [0, 1]), (''Booking_ID'', [3, 4]), (''lead_time'', [1, 2]),
              (''no_of_previous_cancellations'', [0, 0]),
              (''no_of_previous_bookings_not_canceled'', [0, 0]),
              (''booking_status'', [1, 1])]\<rparr>"

definition demo_one_class_clean :: "int table" where
  "demo_one_class_clean = \<lparr>index = [0, 1],
      cols = [(''Unnamed: 0'', [0, 1]), (''lead_time'', [1, 2]),
              (''no_of_previous_cancellations'', [100, 100]),
              (''no_of_previous_bookings_not_canceled'', [100, 100]),
              (''booking_status'', [1, 1])]\<rparr>"

definition demo_training :: model_training where
  "demo_training = \<lparr>mt_train_path = ''ptrain.csv'', mt_test_path = ''ptest.csv'',
      model_output_path = ''model.pkl''\<rparr>"

text \<open>The disk after the two-row table itself has been saved as both processed files.\<close>

definition demo_saved :: "(int, nat) state" where
  "demo_saved = snd (save_data demo_env demo_ext 0 ''ptest.csv''
                  (snd (save_data demo_env demo_ext 0 ''ptrain.csv'' demo_state)))"

text \<open>
  Services that all go through, and two variants: one without credentials for the
  bucket, one whose tracker refuses the metrics.
\<close>

definition demo_srv :: "(int, nat) services" where
  "demo_srv = \<lparr>gcs_client = None,
      gcs_download = (\<lambda>b f. Inr (CsvFile (cols demo_frame))),
      makedirs_error = (\<lambda>p. None),
      random_search_fit = (\<lambda>X y. Inr 7),
      show_best_params = (\<lambda>m. ''{}''),
      predict = (\<lambda>m X. Inr (index X)),
      accuracy_score = (\<lambda>a b. Inr (Fin 1)),
      precision_score = (\<lambda>a b. Inr (Fin 1)),
      recall_score = (\<lambda>a b. Inr (Fin 1)),
      f1_score_fn = (\<lambda>a b. Inr (Fin 1)),
      show_float = (\<lambda>x. ''1.0''),
      mlflow_start_run = None,
      mlflow_end_run = None,
      mlflow_log_artifact = (\<lambda>p. None),
      mlflow_log_params = (\<lambda>m. None),
      mlflow_log_metrics = (\<lambda>x. None)\<rparr>"

definition demo_srv_no_credentials :: "(int, nat) services" where
  "demo_srv_no_credentials = demo_srv\<lparr>gcs_client := Some (LibraryError ''DefaultCredentialsError'')\<rparr>"

definition demo_srv_tracker_down :: "(int, nat) services" where
  "demo_srv_tracker_down = demo_srv\<lparr>mlflow_log_metrics := (\<lambda>x. Some (LibraryError ''MlflowException''))\<rparr>"

definition demo_ingestion :: data_ingestion where
  "demo_ingestion = \<lparr>bucket_name = ''bucket'', file_name = ''Hotel.csv'', train_test_ratio = 4 / 5\<rparr>"

definition demo_srv_unreachable :: "(int, nat) services" where
  "demo_srv_unreachable = demo_srv\<lparr>mlflow_start_run := Some (LibraryError ''MlflowException'')\<rparr>"

text \<open>The disk after processing: the two processed files.\<close>

definition demo_processed :: "(int, nat) state" where
  "demo_processed = demo_state\<lparr>fs := [''ptrain.csv'' \<mapsto> CsvFile (cols demo_selected),
                                     ''ptest.csv'' \<mapsto> CsvFile (cols demo_selected)]\<rparr>"

text \<open>The disk after the download: the raw file.\<close>

definition demo_raw :: "(int, nat) state" where
  "demo_raw = demo_state\<lparr>fs := [''raw.csv'' \<mapsto> CsvFile (cols demo_frame)]\<rparr>"



section \<open>Basic facts about statements and frames\<close>

lemmas body_defs = and_then_def ret_def at_line_def call_def info_def log_line_def try_except_def
  df_read_def df_update_def alloc_def write_file_def raises_def

lemmas frame_defs = columns_def drop_columns_def get_column_def set_column_def select_columns_def
  drop_duplicates_def rows_def pick_def reindex_columns_def to_csv_def read_csv_def

lemmas demo_defs = demo_env_def demo_ext_def demo_config_def demo_processor_def demo_frame_def
  demo_state_def demo_disk_def demo_one_class_def demo_disk_one_class_def demo_sort_def
  demo_ext_with_def demo_test_frame_def

lemma mset_insert_desc: "mset (insert_desc x ys) = add_mset x (mset ys)"
  by (induction ys) auto

lemma mset_demo_sort: "mset (demo_sort ks) = mset ks"
  by (induction ks) (simp_all add: demo_sort_def mset_insert_desc)

lemma and_then_Inr:
  "and_then m f s = (Inr b, s') \<longleftrightarrow> (\<exists>a s1. m s = (Inr a, s1) \<and> f a s1 = (Inr b, s'))"
  by (auto simp: and_then_def split: prod.splits sum.splits)

lemma and_then_Inl:
  "and_then m f s = (Inl e, s') \<longleftrightarrow>
     (m s = (Inl e, s') \<or> (\<exists>a s1. m s = (Inr a, s1) \<and> f a s1 = (Inl e, s')))"
  by (auto simp: and_then_def split: prod.splits sum.splits)

lemma ret_eq: "ret a s = (r, s') \<longleftrightarrow> r = Inr a \<and> s' = s"
  by (auto simp: ret_def)

lemma info_eq: "info msg s = (r, s') \<longleftrightarrow> r = Inr () \<and> s' = log_line INFO msg s"
  by (auto simp: info_def)

lemma at_line_Inr: "at_line lno x s = (Inr a, s') \<longleftrightarrow> x = Inr a \<and> s' = s"
  by (auto simp: at_line_def split: sum.splits)

lemma at_line_Inl: "at_line lno x s = (Inl e, s') \<longleftrightarrow> (\<exists>c. x = Inl c \<and> e = (lno, c) \<and> s' = s)"
  by (auto simp: at_line_def split: sum.splits)

lemma call_Inr: "call lno m s = (Inr a, s') \<longleftrightarrow> m s = (Inr a, s')"
  by (auto simp: call_def split: prod.splits sum.splits)

lemma call_Inl: "call lno m s = (Inl e, s') \<longleftrightarrow> (\<exists>c. m s = (Inl c, s') \<and> e = (lno, c))"
  by (auto simp: call_def split: prod.splits sum.splits)

lemma try_except_Inr: "try_except b el fn msg s = (Inr a, s') \<longleftrightarrow> b s = (Inr a, s')"
  by (auto simp: try_except_def split: prod.splits sum.splits)

lemma try_except_Inl:
  "try_except b el fn msg s = (Inl e, s') \<longleftrightarrow>
     (\<exists>lno c s1. b s = (Inl (lno, c), s1) \<and> e = custom_exception fn lno (msg c)
        \<and> s' = log_line ERROR (el c) s1)"
  by (auto simp: try_except_def split: prod.splits sum.splits)

lemma df_read_Inr: "df_read lno r f s = (Inr a, s') \<longleftrightarrow> f (heap s r) = Inr a \<and> s' = s"
  by (auto simp: df_read_def at_line_Inr)

lemma df_update_Inr:
  "df_update lno r f s = (Inr u, s') \<longleftrightarrow> (\<exists>t. f (heap s r) = Inr t \<and> s' = s\<lparr>heap := (heap s)(r := t)\<rparr>)"
  by (auto simp: df_update_def split: sum.splits)

lemma alloc_eq:
  "alloc t s = (r, s') \<longleftrightarrow>
     r = Inr (next_ref s) \<and> s' = s\<lparr>heap := (heap s)(next_ref s := t), next_ref := Suc (next_ref s)\<rparr>"
  by (auto simp: alloc_def)

lemma float_gt_irrefl: "\<not> float_gt k k"
  by (cases k) auto


lemma map_of_replace:
  "map_of (map (\<lambda>(m, d). if m = n then (m, c) else (m, d)) xs) k =
     (if k = n then (if n \<in> fst ` set xs then Some c else None) else map_of xs k)"
  by (induction xs) (force simp: image_iff)+

lemma get_column_set_column:
  "get_column k (set_column n c t) = (if k = n then Inr c else get_column k t)"
proof (cases "n \<in> set (columns t)")
  case True
  then show ?thesis
    by (simp add: get_column_def set_column_def map_of_replace columns_def)
next
  case False
  then have "map_of (cols t) n = None"
    by (simp add: columns_def map_of_eq_None_iff)
  with False show ?thesis
    by (auto simp: get_column_def set_column_def map_add_def split: option.splits)
qed

lemma columns_set_column:
  "n \<in> set (columns t) \<Longrightarrow> columns (set_column n c t) = columns t"
  by (induction "cols t") (auto simp: set_column_def columns_def case_prod_unfold)

lemma get_column_Inr_columns: "get_column n t = Inr c \<Longrightarrow> n \<in> set (columns t)"
  by (auto simp: get_column_def columns_def split: option.splits dest: map_of_SomeD intro: rev_image_eqI)

lemma log1p_column_Inr:
  "log1p_column ext lno r n s = (Inr u, s') \<longleftrightarrow>
     (\<exists>c c'. get_column n (heap s r) = Inr c \<and> log1p ext c = Inr c'
        \<and> s' = s\<lparr>heap := (heap s)(r := set_column n c' (heap s r))\<rparr>)"
  by (auto simp: log1p_column_def and_then_Inr df_read_Inr at_line_Inr df_update_Inr)

lemma log1p_columns_Inr:
  assumes "log1p_columns ext r cs s = (Inr u, s')" and "distinct cs"
  shows "columns (heap s' r) = columns (heap s r)
     \<and> s' = s\<lparr>heap := (heap s)(r := heap s' r)\<rparr>
     \<and> (\<forall>n. n \<notin> set cs \<longrightarrow> get_column n (heap s' r) = get_column n (heap s r))
     \<and> (\<forall>n. n \<in> set cs \<longrightarrow> (\<exists>c c'. get_column n (heap s r) = Inr c \<and> log1p ext c = Inr c'
            \<and> get_column n (heap s' r) = Inr c'))"
  using assms
proof (induction cs arbitrary: s)
  case Nil
  then show ?case by (simp add: ret_eq)
next
  case (Cons a cs)
  from Cons.prems obtain s1 where
    one: "log1p_column ext 64 r a s = (Inr (), s1)" and
    rest: "log1p_columns ext r cs s1 = (Inr u, s')"
    by (auto simp: and_then_Inr)
  from one obtain c c' where
    c: "get_column a (heap s r) = Inr c" "log1p ext c = Inr c'" and
    s1: "s1 = s\<lparr>heap := (heap s)(r := set_column a c' (heap s r))\<rparr>"
    by (auto simp: log1p_column_Inr)
  have h1: "heap s1 r = set_column a c' (heap s r)" by (simp add: s1)
  from Cons.prems have d: "distinct cs" "a \<notin> set cs" by auto
  note IH = Cons.IH[OF rest d(1)]
  have cols1: "columns (heap s1 r) = columns (heap s r)"
    by (simp add: h1 columns_set_column get_column_Inr_columns[OF c(1)])
  have frame: "s' = s\<lparr>heap := (heap s)(r := heap s' r)\<rparr>"
  proof -
    from IH have "s' = s1\<lparr>heap := (heap s1)(r := heap s' r)\<rparr>" by blast
    then show ?thesis by (simp add: s1)
  qed
  have out: "\<forall>n. n \<notin> set (a # cs) \<longrightarrow> get_column n (heap s' r) = get_column n (heap s r)"
  proof (intro allI impI)
    fix n assume n: "n \<notin> set (a # cs)"
    with IH have "get_column n (heap s' r) = get_column n (heap s1 r)" by auto
    with n show "get_column n (heap s' r) = get_column n (heap s r)"
      by (simp add: h1 get_column_set_column)
  qed
  have inn: "\<forall>n. n \<in> set (a # cs) \<longrightarrow> (\<exists>c c'. get_column n (heap s r) = Inr c \<and> log1p ext c = Inr c'
            \<and> get_column n (heap s' r) = Inr c')"
  proof (intro allI impI)
    fix n assume n: "n \<in> set (a # cs)"
    show "\<exists>c c'. get_column n (heap s r) = Inr c \<and> log1p ext c = Inr c' \<and> get_column n (heap s' r) = Inr c'"
    proof (cases "n = a")
      case True
      with d IH have "get_column n (heap s' r) = get_column n (heap s1 r)" by auto
      with True c show ?thesis by (auto simp: h1 get_column_set_column)
    next
      case False
      with n have "n \<in> set cs" by simp
      with IH obtain e e' where "get_column n (heap s1 r) = Inr e" "log1p ext e = Inr e'"
        "get_column n (heap s' r) = Inr e'" by blast
      with False show ?thesis by (auto simp: h1 get_column_set_column)
    qed
  qed
  have colsf: "columns (heap s' r) = columns (heap s r)"
    using IH cols1 by simp
  show ?case
    using colsf frame out inn by blast
qed


lemma filter_name_distinct:
  "distinct (map fst xs) \<Longrightarrow> map_of xs n = Some c \<Longrightarrow> filter (\<lambda>(m, d). m = n) xs = [(n, c)]"
proof (induction xs)
  case Nil
  then show ?case by simp
next
  case (Cons x xs)
  obtain m d where x: "x = (m, d)" by (cases x)
  show ?case
  proof (cases "m = n")
    case True
    with Cons.prems x have "c = d" and "n \<notin> fst ` set xs" by auto
    then have "filter (\<lambda>(m, d). m = n) xs = []"
      by (auto simp: filter_empty_conv image_iff)
    with True x \<open>c = d\<close> show ?thesis by simp
  next
    case False
    with Cons x show ?thesis by auto
  qed
qed

lemma concat_singletons: "(\<forall>x\<in>set ns. f x = [g x]) \<Longrightarrow> concat (map f ns) = map g ns"
  by (induction ns) auto

lemma select_columns_Inr:
  assumes "select_columns ns t = Inr sub" and "distinct (columns t)"
  shows "set ns \<subseteq> set (columns t)
     \<and> cols sub = map (\<lambda>n. (n, the (map_of (cols t) n))) ns \<and> index sub = index t"
proof -
  from assms(1) have sub: "set ns \<subseteq> set (columns t)"
    and eq: "sub = t\<lparr>cols := concat (map (\<lambda>n. filter (\<lambda>(m, d). m = n) (cols t)) ns)\<rparr>"
    by (auto simp: select_columns_def Let_def filter_empty_conv split: if_splits)
  have "\<forall>n\<in>set ns. filter (\<lambda>(m, d). m = n) (cols t) = [(n, the (map_of (cols t) n))]"
  proof
    fix n assume "n \<in> set ns"
    with sub have "n \<in> fst ` set (cols t)" by (auto simp: columns_def)
    then obtain c where "map_of (cols t) n = Some c"
      by (metis domD dom_map_of_conv_image_fst)
    with assms(2) show "filter (\<lambda>(m, d). m = n) (cols t) = [(n, the (map_of (cols t) n))]"
      by (simp add: filter_name_distinct columns_def)
  qed
  then have "concat (map (\<lambda>n. filter (\<lambda>(m, d). m = n) (cols t)) ns)
      = map (\<lambda>n. (n, the (map_of (cols t) n))) ns"
    by (rule concat_singletons)
  with sub eq show ?thesis by simp
qed

lemma skew_each_Inr:
  "skew_each ext xs = Inr ks \<Longrightarrow>
     map fst ks = map fst xs \<and> (\<forall>n k. (n, k) \<in> set ks \<longrightarrow> (\<exists>c. (n, c) \<in> set xs \<and> skew ext c = Inr k))"
proof (induction xs arbitrary: ks)
  case Nil
  then show ?case by simp
next
  case (Cons x xs)
  obtain n c where x: "x = (n, c)" by (cases x)
  from Cons.prems x obtain k ks' where k: "skew ext c = Inr k" and r: "skew_each ext xs = Inr ks'"
    and ks: "ks = (n, k) # ks'"
    by (auto split: sum.splits)
  from Cons.IH[OF r] x k ks show ?case by auto
qed

section \<open>The skewness-driven transform\<close>

text \<open>
  Claim C8.  In lines 60 to 64 a configured numerical column is replaced by its \<open>log1p\<close>
  exactly when its measured skewness is strictly greater than the threshold of the
  configuration; a column whose skewness equals the threshold keeps its values.  The
  statement is for a frame with distinct column names and a list of distinct numerical
  columns, and for a sort that only reorders the series.
\<close>

theorem skew_transform_strict:
  assumes run: "skew_transform ext self num_cols df s = (Inr (), s')"
    and dn: "distinct num_cols"
    and dc: "distinct (columns (heap s df))"
    and perm: "\<forall>ks. mset (sort_desc ext ks) = mset ks"
    and n: "n \<in> set num_cols"
  shows "\<exists>thr c k. dp_lookup (dp_config self) ''skewness_threshold'' skewness_threshold = Inr thr
     \<and> get_column n (heap s df) = Inr c \<and> skew ext c = Inr k
     \<and> get_column n (heap s' df) = (if float_gt k thr then log1p ext c else Inr c)
     \<and> (k = thr \<longrightarrow> get_column n (heap s' df) = Inr c)"
proof -
  from run obtain thr sk where
    thr: "dp_lookup (dp_config self) ''skewness_threshold'' skewness_threshold = Inr thr" and
    sk: "skewness_of ext num_cols (heap s df) = Inr sk" and
    loop: "log1p_columns ext df (skewed thr sk) s = (Inr (), s')"
    by (auto simp: skew_transform_def and_then_Inr at_line_Inr df_read_Inr)
  from sk obtain sub ks where
    sub: "select_columns num_cols (heap s df) = Inr sub" and
    ks: "skew_each ext (cols sub) = Inr ks" and
    sorted: "sk = sort_desc ext ks"
    by (auto simp: skewness_of_def split: sum.splits)
  note sel = select_columns_Inr[OF sub dc]
  note sks = skew_each_Inr[OF ks]
  from sel have names: "map fst (cols sub) = num_cols" by (simp add: comp_def)
  with sks have ksn: "map fst ks = num_cols" by simp
  from perm sorted have msk: "mset sk = mset ks" by simp
  then have setsk: "set sk = set ks" by (rule mset_eq_setD)
  from msk have "mset (map fst sk) = mset (map fst ks)" by (metis mset_map)
  with ksn dn have dsk: "distinct (map fst sk)" by (metis mset_eq_imp_distinct_iff)
  from n ksn have "n \<in> fst ` set ks" by (metis list.set_map)
  then obtain k where nk: "(n, k) \<in> set ks" by auto
  with sks obtain c where nc: "(n, c) \<in> set (cols sub)" and kc: "skew ext c = Inr k" by blast
  from nc sel have c: "c = the (map_of (cols (heap s df)) n)" by auto
  from n sel have "n \<in> fst ` set (cols (heap s df))" by (auto simp: columns_def)
  then obtain c0 where "map_of (cols (heap s df)) n = Some c0"
    by (metis domD dom_map_of_conv_image_fst)
  with c have gc: "get_column n (heap s df) = Inr c" by (simp add: get_column_def)
  have mem: "n \<in> set (skewed thr sk) \<longleftrightarrow> float_gt k thr"
  proof
    assume "n \<in> set (skewed thr sk)"
    then obtain k' where "(n, k') \<in> set sk" "float_gt k' thr"
      by (auto simp: skewed_def)
    moreover from nk setsk have "(n, k) \<in> set sk" by simp
    ultimately show "float_gt k thr" using dsk by (metis eq_key_imp_eq_value)
  next
    assume "float_gt k thr"
    with nk setsk show "n \<in> set (skewed thr sk)" by (force simp: skewed_def)
  qed
  from dsk have dl: "distinct (skewed thr sk)"
    by (simp add: skewed_def distinct_map_filter)
  note L = log1p_columns_Inr[OF loop dl]
  have res: "get_column n (heap s' df) = (if float_gt k thr then log1p ext c else Inr c)"
  proof (cases "float_gt k thr")
    case True
    with mem L obtain e e' where "get_column n (heap s df) = Inr e" "log1p ext e = Inr e'"
      "get_column n (heap s' df) = Inr e'" by blast
    with gc True show ?thesis by simp
  next
    case False
    with mem L gc show ?thesis by simp
  qed
  have "k = thr \<longrightarrow> get_column n (heap s' df) = Inr c"
    using res by (simp add: float_gt_irrefl)
  with thr gc kc res show ?thesis by blast
qed


theorem skew_transform_strict_witness:
  "skew_transform demo_ext demo_processor [''lead_time''] 0 demo_state = (Inr (), demo_state)
   \<and> skew demo_ext [1, 2] = Inr (Fin 3)
   \<and> dp_lookup (dp_config demo_processor) ''skewness_threshold'' skewness_threshold = Inr (Fin 3)
   \<and> get_column ''lead_time'' (heap demo_state 0) = Inr [1, 2]"
proof -
  have run: "skew_transform demo_ext demo_processor [''lead_time''] 0 demo_state = (Inr (), demo_state)"
    by (simp add: skew_transform_def body_defs frame_defs demo_defs dp_lookup_def lookup_def
        skewness_of_def skewed_def)
  have d: "distinct (columns (heap demo_state 0))"
    by (simp add: frame_defs demo_defs)
  have p: "\<forall>ks. mset (sort_desc demo_ext ks) = mset ks"
    by (simp add: demo_ext_def mset_demo_sort)
  from skew_transform_strict[OF run _ d p, of "''lead_time''"] run
  show ?thesis
    by (simp add: demo_defs dp_lookup_def lookup_def frame_defs)
qed

section \<open>What a successful \<^verbatim>\<open>preprocess_data\<close> does\<close>

lemma log_line_fields [simp]:
  "heap (log_line lv msg s) = heap s"
  "fs (log_line lv msg s) = fs s"
  "next_ref (log_line lv msg s) = next_ref s"
  "logs (log_line lv msg s) = logs s @ [(lv, msg)]"
  by (simp_all add: log_line_def)

lemma drop_columns_Inr:
  "drop_columns [n] t = Inr t' \<Longrightarrow>
     n \<in> set (columns t) \<and> t' = t\<lparr>cols := filter (\<lambda>(m, c). m \<noteq> n) (cols t)\<rparr>"
  by (auto simp: drop_columns_def Let_def split: if_splits)

lemma columns_filter: "map fst (filter (\<lambda>(m, c). P m) xs) = filter P (map fst xs)"
  by (induction xs) auto

lemma columns_drop_duplicates: "columns (drop_duplicates t) = columns t"
  by (simp add: drop_duplicates_def columns_def Let_def comp_def case_prod_unfold)

lemma encode_columns_Inr:
  "encode_columns ext r cs mp s = (Inr mp', s') \<Longrightarrow>
     \<exists>t. s' = s\<lparr>heap := (heap s)(r := t)\<rparr> \<and> columns t = columns (heap s r)"
proof (induction cs arbitrary: mp s)
  case Nil
  then have "s' = s" by (simp add: ret_eq)
  then have "s' = s\<lparr>heap := (heap s)(r := heap s r)\<rparr>" by simp
  then show ?case by blast
next
  case (Cons a cs)
  from Cons.prems obtain c codes mapping s1 where
    c: "get_column a (heap s r) = Inr c" and
    s1: "s1 = s\<lparr>heap := (heap s)(r := set_column a codes (heap s r))\<rparr>" and
    rest: "encode_columns ext r cs (AList.update a mapping mp) s1 = (Inr mp', s')"
    by (auto simp: and_then_Inr df_read_Inr at_line_Inr df_update_Inr)
  from Cons.IH[OF rest] obtain t where
    t: "s' = s1\<lparr>heap := (heap s1)(r := t)\<rparr>" "columns t = columns (heap s1 r)" by blast
  from t(1) have "s' = s\<lparr>heap := (heap s)(r := t)\<rparr>" by (simp add: s1)
  moreover from t(2) have "columns t = columns (heap s r)"
    by (simp add: s1 columns_set_column get_column_Inr_columns[OF c])
  ultimately show ?case by blast
qed

lemma log_mappings_eq:
  "log_mappings ext ms s = (r, s') \<longleftrightarrow>
     r = Inr () \<and> s' = s\<lparr>logs := logs s @ map (\<lambda>(c, m). (INFO, c @ '': '' @ show_mapping ext m)) ms\<rparr>"
proof (induction ms arbitrary: s)
  case Nil
  then show ?case by (auto simp: ret_eq)
next
  case (Cons a ms)
  obtain c m where a: "a = (c, m)" by (cases a)
  show ?case
    by (auto simp: a and_then_def info_def log_line_def Cons.IH split: prod.splits sum.splits)
qed

lemma log1p_column_frame:
  "log1p_column ext lno r n s = (Inr u, s') \<Longrightarrow>
     \<exists>t. s' = s\<lparr>heap := (heap s)(r := t)\<rparr> \<and> columns t = columns (heap s r)"
  by (auto simp: log1p_column_Inr columns_set_column get_column_Inr_columns)

lemma log1p_columns_frame:
  "log1p_columns ext r cs s = (Inr u, s') \<Longrightarrow>
     \<exists>t. s' = s\<lparr>heap := (heap s)(r := t)\<rparr> \<and> columns t = columns (heap s r)"
proof (induction cs arbitrary: s)
  case Nil
  then have "s' = s\<lparr>heap := (heap s)(r := heap s r)\<rparr>" by (simp add: ret_eq)
  then show ?case by blast
next
  case (Cons a cs)
  from Cons.prems obtain s1 where
    one: "log1p_column ext 64 r a s = (Inr (), s1)" and
    rest: "log1p_columns ext r cs s1 = (Inr u, s')"
    by (auto simp: and_then_Inr)
  from log1p_column_frame[OF one] obtain t1 where
    t1: "s1 = s\<lparr>heap := (heap s)(r := t1)\<rparr>" "columns t1 = columns (heap s r)" by blast
  from Cons.IH[OF rest] obtain t where
    t: "s' = s1\<lparr>heap := (heap s1)(r := t)\<rparr>" "columns t = columns (heap s1 r)" by blast
  from t(1) have "s' = s\<lparr>heap := (heap s)(r := t)\<rparr>" by (simp add: t1)
  moreover from t(2) t1 have "columns t = columns (heap s r)" by simp
  ultimately show ?case by blast
qed

lemma skew_transform_frame:
  "skew_transform ext self num_cols r s = (Inr u, s') \<Longrightarrow>
     \<exists>t. s' = s\<lparr>heap := (heap s)(r := t)\<rparr> \<and> columns t = columns (heap s r)"
  by (auto simp: skew_transform_def and_then_Inr at_line_Inr df_read_Inr dest: log1p_columns_frame)

lemma preprocess_body_Inr:
  assumes "preprocess_body ext self df s = (Inr r, s')"
  shows "r = df \<and> ''Booking_ID'' \<in> set (columns (heap s df))
     \<and> (\<exists>t ms. s' = s\<lparr>logs := logs s @ [(INFO, '' Starting the Preprocessing data''),
                               (INFO, ''Dropping unnecessary columns''),
                               (INFO, ''Applying Label Encoding''),
                               (INFO, ''Label Mapping are: '')]
                    @ map (\<lambda>(c, m). (INFO, c @ '': '' @ show_mapping ext m)) ms
                    @ [(INFO, ''Skewness handling'')],
                  heap := (heap s)(df := t)\<rparr>
           \<and> columns t = filter (\<lambda>n. n \<noteq> ''Booking_ID'') (columns (heap s df)))"
proof -
  let ?s1 = "log_line INFO ''Dropping unnecessary columns''
               (log_line INFO '' Starting the Preprocessing data'' s)"
  let ?L = "\<lambda>ms. logs s @ [(INFO, '' Starting the Preprocessing data''),
                               (INFO, ''Dropping unnecessary columns''),
                               (INFO, ''Applying Label Encoding''),
                               (INFO, ''Label Mapping are: '')]
                    @ map (\<lambda>(c, m). (INFO, c @ '': '' @ show_mapping ext m)) ms
                    @ [(INFO, ''Skewness handling'')]"
  from assms obtain t1 cat_cols num_cols ms s4 s5 s6 where
    t1: "drop_columns [''Booking_ID''] (heap s df) = Inr t1" and
    enc: "encode_columns ext df cat_cols []
            (log_line INFO ''Applying Label Encoding''
              (?s1\<lparr>heap := (heap s)(df := drop_duplicates t1)\<rparr>)) = (Inr ms, s4)" and
    l57: "log1p_column ext 57 df ''no_of_previous_cancellations''
            (log_line INFO ''Skewness handling''
              ((log_line INFO ''Label Mapping are: '' s4)
                 \<lparr>logs := logs (log_line INFO ''Label Mapping are: '' s4)
                    @ map (\<lambda>(c, m). (INFO, c @ '': '' @ show_mapping ext m)) ms\<rparr>)) = (Inr (), s5)" and
    l58: "log1p_column ext 58 df ''no_of_previous_bookings_not_canceled'' s5 = (Inr (), s6)" and
    sk: "skew_transform ext self num_cols df s6 = (Inr (), s')" and
    r: "r = df"
    unfolding preprocess_body_def
    by (auto simp: and_then_Inr info_eq at_line_Inr df_update_Inr log_mappings_eq ret_eq)
  note d = drop_columns_Inr[OF t1]
  from encode_columns_Inr[OF enc] obtain t4 where
    t4: "s4 = s\<lparr>logs := logs s @ [(INFO, '' Starting the Preprocessing data''),
                               (INFO, ''Dropping unnecessary columns''),
                               (INFO, ''Applying Label Encoding'')],
               heap := (heap s)(df := t4)\<rparr>"
    and c4: "columns t4 = columns (drop_duplicates t1)"
    by (auto simp: log_line_def)
  from log1p_column_frame[OF l57] obtain t5 where
    t5: "s5 = s\<lparr>logs := ?L ms, heap := (heap s)(df := t5)\<rparr>"
    and c5: "columns t5 = columns t4"
    by (auto simp: log_line_def t4)
  from log1p_column_frame[OF l58] obtain t6 where
    t6: "s6 = s5\<lparr>heap := (heap s5)(df := t6)\<rparr>" and c6: "columns t6 = columns (heap s5 df)"
    by blast
  from skew_transform_frame[OF sk] obtain t7 where
    t7: "s' = s6\<lparr>heap := (heap s6)(df := t7)\<rparr>" and c7: "columns t7 = columns (heap s6 df)"
    by blast
  have "s' = s\<lparr>logs := ?L ms, heap := (heap s)(df := t7)\<rparr>"
    by (simp add: t7 t6 t5)
  moreover have "columns t7 = filter (\<lambda>n. n \<noteq> ''Booking_ID'') (columns (heap s df))"
    using c7 c6 c5 c4 d
    by (simp add: t6 t5 columns_drop_duplicates) (simp add: columns_def columns_filter)
  ultimately show ?thesis using r d by blast
qed


lemmas method_defs = preprocess_data_def preprocess_body_def skew_transform_def log1p_column_def
  skewness_of_def skewed_def dp_lookup_def lookup_def

section \<open>The preprocessing stage works in place\<close>

text \<open>
  Claim C10, as the code has it.  \<^verbatim>\<open>preprocess_data\<close> drops the identifier column and
  the duplicate rows with \<^verbatim>\<open>inplace=True\<close>, assigns the encoded and transformed
  columns into the frame it was given, and returns that frame.  So after a successful call
  the reference returned is the reference passed in, the caller's table has changed (it no
  longer has \<^verbatim>\<open>Booking_ID\<close>), every other table is untouched and no new table exists.
\<close>

theorem preprocess_data_in_place:
  assumes "preprocess_data env ext self df s = (Inr r, s')"
  shows "r = df \<and> heap s' df \<noteq> heap s df \<and> (\<forall>r'. r' \<noteq> df \<longrightarrow> heap s' r' = heap s r')
     \<and> next_ref s' = next_ref s"
proof -
  from assms have "preprocess_body ext self df s = (Inr r, s')"
    by (simp add: preprocess_data_def try_except_Inr)
  from preprocess_body_Inr[OF this] obtain t l where
    r: "r = df" and b: "''Booking_ID'' \<in> set (columns (heap s df))" and
    s': "s' = s\<lparr>logs := l, heap := (heap s)(df := t)\<rparr>" and
    c: "columns t = filter (\<lambda>n. n \<noteq> ''Booking_ID'') (columns (heap s df))"
    by blast
  from c have "''Booking_ID'' \<notin> set (columns t)" by simp
  with b have "t \<noteq> heap s df" by auto
  with r s' show ?thesis by simp
qed

lemma demo_preprocess_run:
  "preprocess_data demo_env demo_ext demo_processor 0 demo_state
     = (Inr 0, demo_state\<lparr>logs := [(INFO, '' Starting the Preprocessing data''),
                               (INFO, ''Dropping unnecessary columns''),
                               (INFO, ''Applying Label Encoding''),
                               (INFO, ''Label Mapping are: ''),
                               (INFO, ''Skewness handling'')],
          heap := (heap demo_state)(0 := \<lparr>index = [0, 1],
             cols = [(''lead_time'', [1, 2]), (''no_of_previous_cancellations'', [100, 100]),
                     (''no_of_previous_bookings_not_canceled'', [100, 100]),
                     (''booking_status'', [0, 1])]\<rparr>)\<rparr>)"
  by (simp add: method_defs body_defs frame_defs demo_defs Let_def)

theorem preprocess_data_in_place_witness:
  "preprocess_data demo_env demo_ext demo_processor 0 demo_state
     = (Inr 0, snd (preprocess_data demo_env demo_ext demo_processor 0 demo_state))
   \<and> next_ref (snd (preprocess_data demo_env demo_ext demo_processor 0 demo_state)) = 1"
proof -
  have "preprocess_data demo_env demo_ext demo_processor 0 demo_state
     = (Inr 0, snd (preprocess_data demo_env demo_ext demo_processor 0 demo_state))"
    by (simp add: demo_preprocess_run)
  from preprocess_data_in_place[OF this] this show ?thesis
    by (simp add: demo_state_def)
qed

text \<open>
  The claim as written fails on the two-row table of the installation: the call returns
  the reference 0 it was given, and the caller's table at 0 has lost a column and has two
  transformed columns.
\<close>

theorem preprocess_data_mutates_counterexample:
  "fst (preprocess_data demo_env demo_ext demo_processor 0 demo_state) = Inr 0
   \<and> columns (heap demo_state 0) = [''Booking_ID'', ''lead_time'', ''no_of_previous_cancellations'',
        ''no_of_previous_bookings_not_canceled'', ''booking_status'']
   \<and> heap (snd (preprocess_data demo_env demo_ext demo_processor 0 demo_state)) 0
       = \<lparr>index = [0, 1],
          cols = [(''lead_time'', [1, 2]), (''no_of_previous_cancellations'', [100, 100]),
                  (''no_of_previous_bookings_not_canceled'', [100, 100]),
                  (''booking_status'', [0, 1])]\<rparr>"
  by (simp add: demo_preprocess_run) (simp add: demo_state_def demo_frame_def columns_def)

section \<open>What the other stages of \<^verbatim>\<open>DataProcessor\<close> do when they succeed\<close>

lemma load_data_Inr:
  "load_data ext p s = (Inr r, s') \<longleftrightarrow>
     (\<exists>t. pd_read_csv ext p s = Inr t \<and> r = next_ref s
        \<and> s' = s\<lparr>heap := (heap s)(next_ref s := t), next_ref := Suc (next_ref s)\<rparr>)"
  by (auto simp: load_data_def split: sum.splits)

lemma no_colon: "a @ CHR '':'' # b = x \<Longrightarrow> CHR '':'' \<in> set x"
  by auto

lemma preprocess_data_Inr:
  assumes "preprocess_data env ext self df s = (Inr r, s')"
  shows "r = df \<and> (\<exists>t l. s' = s\<lparr>logs := logs s @ l, heap := (heap s)(df := t)\<rparr>
           \<and> columns t = filter (\<lambda>n. n \<noteq> ''Booking_ID'') (columns (heap s df))
           \<and> filter (\<lambda>e. e = (INFO, ''Balancing the data using SMOTE'')
                         \<or> e = (INFO, ''Feature selection using Random Forest'')) l = [])"
proof -
  from assms have "preprocess_body ext self df s = (Inr r, s')"
    by (simp add: preprocess_data_def try_except_Inr)
  from preprocess_body_Inr[OF this] obtain t ms where
    r: "r = df" and
    s': "s' = s\<lparr>logs := logs s @ [(INFO, '' Starting the Preprocessing data''),
                               (INFO, ''Dropping unnecessary columns''),
                               (INFO, ''Applying Label Encoding''),
                               (INFO, ''Label Mapping are: '')]
                    @ map (\<lambda>(c, m). (INFO, c @ '': '' @ show_mapping ext m)) ms
                    @ [(INFO, ''Skewness handling'')],
                  heap := (heap s)(df := t)\<rparr>" and
    c: "columns t = filter (\<lambda>n. n \<noteq> ''Booking_ID'') (columns (heap s df))"
    by blast
  have "filter (\<lambda>e. e = (INFO, ''Balancing the data using SMOTE'')
                 \<or> e = (INFO, ''Feature selection using Random Forest''))
          (map (\<lambda>(c, m). (INFO, c @ '': '' @ show_mapping ext m)) ms) = []"
    by (auto simp: filter_empty_conv dest!: no_colon)
  then have "filter (\<lambda>e. e = (INFO, ''Balancing the data using SMOTE'')
                 \<or> e = (INFO, ''Feature selection using Random Forest''))
       ([(INFO, '' Starting the Preprocessing data''),
                               (INFO, ''Dropping unnecessary columns''),
                               (INFO, ''Applying Label Encoding''),
                               (INFO, ''Label Mapping are: '')]
                    @ map (\<lambda>(c, m). (INFO, c @ '': '' @ show_mapping ext m)) ms
                    @ [(INFO, ''Skewness handling'')]) = []"
    by simp
  with r s' c show ?thesis by blast
qed

lemma columns_reindex: "columns (reindex_columns ext ns t) = ns"
  by (simp add: reindex_columns_def columns_def comp_def)

lemma columns_set_column_new:
  "n \<notin> set (columns t) \<Longrightarrow> columns (set_column n c t) = columns t @ [n]"
  by (simp add: set_column_def columns_def)

lemma balanced_data_Inr:
  assumes "balanced_data env ext df s = (Inr r, s')"
  shows "\<exists>X y X' y'. drop_columns [''booking_status''] (heap s df) = Inr X
     \<and> get_column ''booking_status'' (heap s df) = Inr y
     \<and> smote ext X y = Inr (X', y')
     \<and> r = next_ref s
     \<and> s' = s\<lparr>logs := logs s @ [(INFO, ''Balancing the data using SMOTE''),
                                (INFO, ''Data balanced successfully'')],
              heap := (heap s)(next_ref s :=
                 set_column ''booking_status'' y' (reindex_columns ext (columns X) X')),
              next_ref := Suc (next_ref s)\<rparr>"
  using assms
  by (auto simp: balanced_data_def balanced_body_def try_except_Inr and_then_Inr info_eq
      df_read_Inr at_line_Inr alloc_eq ret_eq log_line_def)

lemma select_feature_Inr:
  assumes "select_feature env ext self df s = (Inr r, s')"
  shows "\<exists>X y fi k t l. drop_columns [''booking_status''] (heap s df) = Inr X
     \<and> get_column ''booking_status'' (heap s df) = Inr y
     \<and> rf_importances ext X y = Inr fi
     \<and> length fi = length (columns X)
     \<and> dp_lookup (dp_config self) ''no_of_features'' no_of_features = Inr k
     \<and> select_columns (head k (map fst (sort_desc ext (zip (columns X) fi))) @ [''booking_status''])
          (heap s df) = Inr t
     \<and> r = next_ref s
     \<and> s' = s\<lparr>logs := logs s @ [(INFO, ''Feature selection using Random Forest''),
                                (INFO, ''Feature selection completed''),
                                (INFO, ''Top '' @ l)],
              heap := (heap s)(next_ref s := t),
              next_ref := Suc (next_ref s)\<rparr>"
proof -
  from assms obtain X y fi k t where
    "drop_columns [''booking_status''] (heap s df) = Inr X"
    "get_column ''booking_status'' (heap s df) = Inr y"
    "rf_importances ext X y = Inr fi"
    "length fi = length (columns X)"
    "dp_lookup (dp_config self) ''no_of_features'' no_of_features = Inr k"
    "select_columns (head k (map fst (sort_desc ext (zip (columns X) fi))) @ [''booking_status''])
          (heap s df) = Inr t"
    "r = next_ref s"
    "s' = s\<lparr>logs := logs s @ [(INFO, ''Feature selection using Random Forest''),
                                (INFO, ''Feature selection completed''),
                                (INFO, ''Top '' @ (show_int k @ '' features selected: ''
                       @ show_features ext (head k (map fst (sort_desc ext (zip (columns X) fi))))))],
              heap := (heap s)(next_ref s := t),
              next_ref := Suc (next_ref s)\<rparr>"
    by (auto simp: select_feature_def select_body_def try_except_Inr and_then_Inr info_eq
      df_read_Inr at_line_Inr alloc_eq ret_eq log_line_def importance_frame_def split: if_splits)
  then show ?thesis by blast
qed

lemma save_data_Inr:
  "save_data env ext df p s = (Inr u, s') \<longleftrightarrow>
     write_error ext p = None
     \<and> s' = s\<lparr>logs := logs s @ [(INFO, ''Saving processed data to '' @ p),
                                (INFO, ''Data saved successfully'')],
              fs := (fs s)(p \<mapsto> CsvFile (to_csv False (heap s df)))\<rparr>"
  by (auto simp: save_data_def save_body_def try_except_Inr and_then_Inr info_eq
      write_file_def log_line_def split: option.splits)

section \<open>A successful run of \<^verbatim>\<open>DataProcessor.process\<close>\<close>

lemma pd_read_csv_fs: "fs s1 = fs s2 \<Longrightarrow> pd_read_csv ext p s1 = pd_read_csv ext p s2"
  by (simp add: pd_read_csv_def)

lemma process_trace:
  fixes ext :: "'v ext"
  assumes "process env ext self s = (Inr u, s')"
  shows "\<exists>rtr s1 rte s2 s3 s4 r5 s5 r6 s6 r7 s7 T' s9 s10 l.
      load_data ext (train_path self) (log_line INFO ''Loading data from RAW directory'' s) = (Inr rtr, s1)
    \<and> load_data ext (test_path self) s1 = (Inr rte, s2)
    \<and> preprocess_data env ext self rtr s2 = (Inr rtr, s3)
    \<and> preprocess_data env ext self rte s3 = (Inr rte, s4)
    \<and> balanced_data env ext rtr s4 = (Inr r5, s5)
    \<and> balanced_data env ext rte s5 = (Inr r6, s6)
    \<and> select_feature env ext self r5 s6 = (Inr r7, s7)
    \<and> select_columns (columns (heap s7 r7)) (heap s7 r7) = Inr T'
    \<and> save_data env ext r7 (PROCESSED_TRAIN_DATA_PATH env)
         (s7\<lparr>heap := (heap s7)(next_ref s7 := T'), next_ref := Suc (next_ref s7)\<rparr>) = (Inr (), s9)
    \<and> save_data env ext (next_ref s7) (PROCESSED_TEST_DATA_PATH env) s9 = (Inr (), s10)
    \<and> s' = log_line INFO ''Data processing completed successfully'' s10
    \<and> rte \<noteq> rtr \<and> r5 \<noteq> rte \<and> r6 \<noteq> r5
    \<and> heap s2 rtr = heap s1 rtr \<and> heap s3 rte = heap s2 rte \<and> heap s4 rtr = heap s3 rtr
    \<and> heap s5 rte = heap s4 rte \<and> heap s6 r5 = heap s5 r5
    \<and> fs s2 = fs s
    \<and> fs s' = (fs s)(PROCESSED_TRAIN_DATA_PATH env \<mapsto> CsvFile (to_csv False (heap s7 r7)),
                       PROCESSED_TEST_DATA_PATH env \<mapsto> CsvFile (to_csv False T'))
    \<and> logs s' = logs s @ l
    \<and> filter (\<lambda>e. e = (INFO, ''Balancing the data using SMOTE'')
                  \<or> e = (INFO, ''Feature selection using Random Forest'')) l
        = [(INFO, ''Balancing the data using SMOTE''), (INFO, ''Balancing the data using SMOTE''),
           (INFO, ''Feature selection using Random Forest'')]"
proof -
  let ?P = "\<lambda>e. e = (INFO, ''Balancing the data using SMOTE'')
                  \<or> e = (INFO, ''Feature selection using Random Forest'')"
  let ?s0 = "log_line INFO ''Loading data from RAW directory'' s"
  let ?n = "next_ref s"
  from assms obtain rtr s1 rte s2 r3 s3 r4 s4 r5 s5 r6 s6 r7 s7 T' s9 s10 where
    m1: "load_data ext (train_path self) ?s0 = (Inr rtr, s1)" and
    m2: "load_data ext (test_path self) s1 = (Inr rte, s2)" and
    m3: "preprocess_data env ext self rtr s2 = (Inr r3, s3)" and
    m4: "preprocess_data env ext self rte s3 = (Inr r4, s4)" and
    m5: "balanced_data env ext r3 s4 = (Inr r5, s5)" and
    m6: "balanced_data env ext r4 s5 = (Inr r6, s6)" and
    m7: "select_feature env ext self r5 s6 = (Inr r7, s7)" and
    m8: "select_columns (columns (heap s7 r7)) (heap s7 r7) = Inr T'" and
    m9: "save_data env ext r7 (PROCESSED_TRAIN_DATA_PATH env)
           (s7\<lparr>heap := (heap s7)(next_ref s7 := T'), next_ref := Suc (next_ref s7)\<rparr>) = (Inr (), s9)" and
    m10: "save_data env ext (next_ref s7) (PROCESSED_TEST_DATA_PATH env) s9 = (Inr (), s10)" and
    m11: "s' = log_line INFO ''Data processing completed successfully'' s10"
    unfolding process_def process_body_def
    by (auto simp: try_except_Inr and_then_Inr call_Inr info_eq df_read_Inr alloc_eq)
  \<comment> \<open>loading\<close>
  from m1 obtain Ltr where
    rtr: "rtr = ?n" and
    s1: "s1 = ?s0\<lparr>heap := (heap ?s0)(?n := Ltr), next_ref := Suc ?n\<rparr>"
    by (auto simp: load_data_Inr)
  from m2 obtain Lte where
    rte: "rte = Suc ?n" and
    s2: "s2 = s1\<lparr>heap := (heap s1)(Suc ?n := Lte), next_ref := Suc (Suc ?n)\<rparr>"
    by (auto simp: load_data_Inr s1)
  have f2: "fs s2 = fs s" "next_ref s2 = Suc (Suc ?n)" "heap s2 rtr = heap s1 rtr"
    "logs s2 = logs s @ [(INFO, ''Loading data from RAW directory'')]"
    by (simp_all add: s2 s1 rtr)
  \<comment> \<open>preprocessing, in place\<close>
  from preprocess_data_Inr[OF m3] obtain Ptr l3 where
    r3: "r3 = rtr" and s3: "s3 = s2\<lparr>logs := logs s2 @ l3, heap := (heap s2)(rtr := Ptr)\<rparr>" and
    l3: "filter ?P l3 = []"
    by auto
  from preprocess_data_Inr[OF m4] obtain Pte l4 where
    r4: "r4 = rte" and s4: "s4 = s3\<lparr>logs := logs s3 @ l4, heap := (heap s3)(rte := Pte)\<rparr>" and
    l4: "filter ?P l4 = []"
    by auto
  have f4: "fs s4 = fs s" "next_ref s4 = Suc (Suc ?n)" "heap s3 rte = heap s2 rte"
    "heap s4 rtr = heap s3 rtr"
    "logs s4 = logs s @ [(INFO, ''Loading data from RAW directory'')] @ l3 @ l4"
    using f2 by (simp_all add: s4 s3 rtr rte)
  \<comment> \<open>balancing both tables\<close>
  from balanced_data_Inr[OF m5] obtain Btr where
    r5: "r5 = Suc (Suc ?n)" and
    s5: "s5 = s4\<lparr>logs := logs s4 @ [(INFO, ''Balancing the data using SMOTE''),
                                (INFO, ''Data balanced successfully'')],
              heap := (heap s4)(Suc (Suc ?n) := Btr),
              next_ref := Suc (Suc (Suc ?n))\<rparr>"
    using f4 by auto
  have f5: "fs s5 = fs s" "next_ref s5 = Suc (Suc (Suc ?n))" "heap s5 rte = heap s4 rte"
    "logs s5 = logs s @ [(INFO, ''Loading data from RAW directory'')] @ l3 @ l4
        @ [(INFO, ''Balancing the data using SMOTE''), (INFO, ''Data balanced successfully'')]"
    using f4 by (simp_all add: s5 rte)
  from balanced_data_Inr[OF m6] obtain Bte where
    r6: "r6 = Suc (Suc (Suc ?n))" and
    s6: "s6 = s5\<lparr>logs := logs s5 @ [(INFO, ''Balancing the data using SMOTE''),
                                (INFO, ''Data balanced successfully'')],
              heap := (heap s5)(Suc (Suc (Suc ?n)) := Bte),
              next_ref := Suc (Suc (Suc (Suc ?n)))\<rparr>"
    using f5 by auto
  have f6: "fs s6 = fs s" "next_ref s6 = Suc (Suc (Suc (Suc ?n)))" "heap s6 r5 = heap s5 r5"
    "logs s6 = logs s @ [(INFO, ''Loading data from RAW directory'')] @ l3 @ l4
        @ [(INFO, ''Balancing the data using SMOTE''), (INFO, ''Data balanced successfully''),
           (INFO, ''Balancing the data using SMOTE''), (INFO, ''Data balanced successfully'')]"
    using f5 by (simp_all add: s6 r5)
  \<comment> \<open>selecting on the balanced train table only\<close>
  from select_feature_Inr[OF m7] obtain T l7 where
    r7: "r7 = Suc (Suc (Suc (Suc ?n)))" and
    s7: "s7 = s6\<lparr>logs := logs s6 @ [(INFO, ''Feature selection using Random Forest''),
                                (INFO, ''Feature selection completed''),
                                (INFO, ''Top '' @ l7)],
              heap := (heap s6)(Suc (Suc (Suc (Suc ?n))) := T),
              next_ref := Suc (Suc (Suc (Suc (Suc ?n))))\<rparr>"
    using f6 by auto
  have f7: "fs s7 = fs s" "next_ref s7 = Suc (Suc (Suc (Suc (Suc ?n))))" "heap s7 r7 = T"
    "logs s7 = logs s @ [(INFO, ''Loading data from RAW directory'')] @ l3 @ l4
        @ [(INFO, ''Balancing the data using SMOTE''), (INFO, ''Data balanced successfully''),
           (INFO, ''Balancing the data using SMOTE''), (INFO, ''Data balanced successfully''),
           (INFO, ''Feature selection using Random Forest''),
           (INFO, ''Feature selection completed''), (INFO, ''Top '' @ l7)]"
    using f6 by (simp_all add: s7 r7)
  \<comment> \<open>saving\<close>
  let ?s8 = "s7\<lparr>heap := (heap s7)(next_ref s7 := T'), next_ref := Suc (next_ref s7)\<rparr>"
  have h8: "heap ?s8 r7 = T" "heap ?s8 (next_ref s7) = T'"
    using f7 by (simp_all add: r7)
  from m9 have s9: "s9 = ?s8\<lparr>logs := logs ?s8 @ [(INFO, ''Saving processed data to '' @ PROCESSED_TRAIN_DATA_PATH env),
                                (INFO, ''Data saved successfully'')],
              fs := (fs ?s8)(PROCESSED_TRAIN_DATA_PATH env \<mapsto> CsvFile (to_csv False (heap ?s8 r7)))\<rparr>"
    by (simp add: save_data_Inr)
  from m10 have s10: "s10 = s9\<lparr>logs := logs s9 @ [(INFO, ''Saving processed data to '' @ PROCESSED_TEST_DATA_PATH env),
                                (INFO, ''Data saved successfully'')],
              fs := (fs s9)(PROCESSED_TEST_DATA_PATH env \<mapsto> CsvFile (to_csv False (heap s9 (next_ref s7))))\<rparr>"
    by (simp add: save_data_Inr)
  have h9: "heap s9 (next_ref s7) = T'"
    using h8 by (simp add: s9)
  have fsf: "fs s' = (fs s)(PROCESSED_TRAIN_DATA_PATH env \<mapsto> CsvFile (to_csv False (heap s7 r7)),
                       PROCESSED_TEST_DATA_PATH env \<mapsto> CsvFile (to_csv False T'))"
    using h8 h9 f7 by (simp add: m11 s10 s9)
  let ?l = "[(INFO, ''Loading data from RAW directory'')] @ l3 @ l4
        @ [(INFO, ''Balancing the data using SMOTE''), (INFO, ''Data balanced successfully''),
           (INFO, ''Balancing the data using SMOTE''), (INFO, ''Data balanced successfully''),
           (INFO, ''Feature selection using Random Forest''),
           (INFO, ''Feature selection completed''), (INFO, ''Top '' @ l7),
           (INFO, ''Saving processed data to '' @ PROCESSED_TRAIN_DATA_PATH env),
           (INFO, ''Data saved successfully''),
           (INFO, ''Saving processed data to '' @ PROCESSED_TEST_DATA_PATH env),
           (INFO, ''Data saved successfully''),
           (INFO, ''Data processing completed successfully'')]"
  have lg: "logs s' = logs s @ ?l"
    using f7 by (simp add: m11 s10 s9)
  have fl: "filter ?P ?l = [(INFO, ''Balancing the data using SMOTE''), (INFO, ''Balancing the data using SMOTE''),
           (INFO, ''Feature selection using Random Forest'')]"
    using l3 l4 by simp
  have ne: "rte \<noteq> rtr" "r5 \<noteq> rte" "r6 \<noteq> r5"
    by (simp_all add: rtr rte r5 r6)
  from m1 m2 m3[unfolded r3] m4[unfolded r4] m5[unfolded r3] m6[unfolded r4] m7 m8 m9 m10 m11 ne
    f2(3) f4(3) f4(4) f5(3) f6(3) f2(1) fsf lg fl
  show ?thesis by blast
qed

section \<open>The concrete installation, stage by stage\<close>

text \<open>
  The stages before the selector do not look at the importance ranking, so their runs are
  stated once for every ranking.
\<close>

lemmas process_defs = process_def process_body_def load_data_def pd_read_csv_def
  balanced_data_def balanced_body_def select_feature_def select_body_def importance_frame_def
  head_def show_int_def save_data_def save_body_def

lemma demo_ext_self: "demo_ext_with (rf_importances demo_ext) = demo_ext"
  by (simp add: demo_ext_with_def)

lemma digits_0: "digits 0 = ''0''"
  by code_simp

lemma digits_2: "digits 2 = ''2''"
  by code_simp

lemma demo_read_any: "read_csv (demo_ext_with imp) (to_csv True demo_frame) = Inr demo_loaded"
  by (simp add: frame_defs demo_defs demo_loaded_def digits_0 enumerate_eq_zip)

lemma demo_read_test_any:
  "read_csv (demo_ext_with imp) (to_csv True demo_test_frame) = Inr demo_test_loaded"
  by (simp add: frame_defs demo_defs demo_test_loaded_def digits_0 enumerate_eq_zip)

lemma demo_read_one_class_any:
  "read_csv (demo_ext_with imp) (to_csv True demo_one_class) = Inr demo_one_class_loaded"
  by (simp add: frame_defs demo_defs demo_one_class_loaded_def digits_0 enumerate_eq_zip)

lemma demo_load_any:
  "fs s p = Some (CsvFile (to_csv True demo_frame)) \<Longrightarrow>
   load_data (demo_ext_with imp) p s
     = (Inr (next_ref s), s\<lparr>heap := (heap s)(next_ref s := demo_loaded), next_ref := Suc (next_ref s)\<rparr>)"
  by (simp add: load_data_def pd_read_csv_def demo_read_any)

lemma demo_load_test_any:
  "fs s p = Some (CsvFile (to_csv True demo_test_frame)) \<Longrightarrow>
   load_data (demo_ext_with imp) p s
     = (Inr (next_ref s), s\<lparr>heap := (heap s)(next_ref s := demo_test_loaded),
          next_ref := Suc (next_ref s)\<rparr>)"
  by (simp add: load_data_def pd_read_csv_def demo_read_test_any)

lemma demo_load_one_class_any:
  "fs s p = Some (CsvFile (to_csv True demo_one_class)) \<Longrightarrow>
   load_data (demo_ext_with imp) p s
     = (Inr (next_ref s), s\<lparr>heap := (heap s)(next_ref s := demo_one_class_loaded),
          next_ref := Suc (next_ref s)\<rparr>)"
  by (simp add: load_data_def pd_read_csv_def demo_read_one_class_any)

lemma demo_preprocess_any:
  "heap s r = demo_loaded \<Longrightarrow>
   preprocess_data demo_env (demo_ext_with imp) demo_processor r s
     = (Inr r, s\<lparr>logs := logs s @ [(INFO, '' Starting the Preprocessing data''),
                               (INFO, ''Dropping unnecessary columns''),
                               (INFO, ''Applying Label Encoding''),
                               (INFO, ''Label Mapping are: ''),
                               (INFO, ''Skewness handling'')],
          heap := (heap s)(r := demo_clean)\<rparr>)"
  by (simp add: method_defs body_defs frame_defs demo_defs demo_loaded_def demo_clean_def Let_def)

lemma demo_preprocess_test_any:
  "heap s r = demo_test_loaded \<Longrightarrow>
   preprocess_data demo_env (demo_ext_with imp) demo_processor r s
     = (Inr r, s\<lparr>logs := logs s @ [(INFO, '' Starting the Preprocessing data''),
                               (INFO, ''Dropping unnecessary columns''),
                               (INFO, ''Applying Label Encoding''),
                               (INFO, ''Label Mapping are: ''),
                               (INFO, ''Skewness handling'')],
          heap := (heap s)(r := demo_test_clean)\<rparr>)"
  by (simp add: method_defs body_defs frame_defs demo_defs demo_test_loaded_def
      demo_test_clean_def Let_def)

lemma demo_preprocess_one_class_any:
  "heap s r = demo_one_class_loaded \<Longrightarrow>
   preprocess_data demo_env (demo_ext_with imp) demo_processor r s
     = (Inr r, s\<lparr>logs := logs s @ [(INFO, '' Starting the Preprocessing data''),
                               (INFO, ''Dropping unnecessary columns''),
                               (INFO, ''Applying Label Encoding''),
                               (INFO, ''Label Mapping are: ''),
                               (INFO, ''Skewness handling'')],
          heap := (heap s)(r := demo_one_class_clean)\<rparr>)"
  by (simp add: method_defs body_defs frame_defs demo_defs demo_one_class_loaded_def
      demo_one_class_clean_def Let_def)

lemma demo_balance_any:
  "heap s r = demo_clean \<Longrightarrow>
   balanced_data demo_env (demo_ext_with imp) r s
     = (Inr (next_ref s), s\<lparr>logs := logs s @ [(INFO, ''Balancing the data using SMOTE''),
                                (INFO, ''Data balanced successfully'')],
          heap := (heap s)(next_ref s := demo_clean), next_ref := Suc (next_ref s)\<rparr>)"
  by (simp add: process_defs body_defs frame_defs demo_defs demo_clean_def Let_def)

lemma demo_balance_test_any:
  "heap s r = demo_test_clean \<Longrightarrow>
   balanced_data demo_env (demo_ext_with imp) r s
     = (Inr (next_ref s), s\<lparr>logs := logs s @ [(INFO, ''Balancing the data using SMOTE''),
                                (INFO, ''Data balanced successfully'')],
          heap := (heap s)(next_ref s := demo_test_clean), next_ref := Suc (next_ref s)\<rparr>)"
  by (simp add: process_defs body_defs frame_defs demo_defs demo_test_clean_def Let_def)

lemma demo_balance_one_class_any:
  "heap s r = demo_one_class_clean \<Longrightarrow>
   balanced_data demo_env (demo_ext_with imp) r s
     = (Inl (custom_exception ''prep.py'' 80 ''Failed to balance the data''),
        s\<lparr>logs := logs s @ [(INFO, ''Balancing the data using SMOTE''),
                            (ERROR, ''Error occurred during data balancing: cause'')]\<rparr>)"
  by (simp add: process_defs body_defs frame_defs demo_defs demo_one_class_clean_def Let_def)

lemma demo_save_any:
  "save_data demo_env (demo_ext_with imp) r p s
     = (Inr (), s\<lparr>logs := logs s @ [(INFO, ''Saving processed data to '' @ p),
                                (INFO, ''Data saved successfully'')],
              fs := (fs s)(p \<mapsto> CsvFile (to_csv False (heap s r)))\<rparr>)"
  by (simp add: save_data_def save_body_def body_defs demo_ext_def demo_ext_with_def)

lemmas demo_read = demo_read_any[of "rf_importances demo_ext", unfolded demo_ext_self]
lemmas demo_load = demo_load_any[of _ _ "rf_importances demo_ext", unfolded demo_ext_self]
lemmas demo_load_test = demo_load_test_any[of _ _ "rf_importances demo_ext", unfolded demo_ext_self]
lemmas demo_load_one_class =
  demo_load_one_class_any[of _ _ "rf_importances demo_ext", unfolded demo_ext_self]
lemmas demo_preprocess = demo_preprocess_any[of _ _ "rf_importances demo_ext", unfolded demo_ext_self]
lemmas demo_preprocess_test =
  demo_preprocess_test_any[of _ _ "rf_importances demo_ext", unfolded demo_ext_self]
lemmas demo_preprocess_one_class =
  demo_preprocess_one_class_any[of _ _ "rf_importances demo_ext", unfolded demo_ext_self]
lemmas demo_balance = demo_balance_any[of _ _ "rf_importances demo_ext", unfolded demo_ext_self]
lemmas demo_balance_test =
  demo_balance_test_any[of _ _ "rf_importances demo_ext", unfolded demo_ext_self]
lemmas demo_balance_one_class =
  demo_balance_one_class_any[of _ _ "rf_importances demo_ext", unfolded demo_ext_self]
lemmas demo_save = demo_save_any[of "rf_importances demo_ext", unfolded demo_ext_self]

text \<open>The selector under the two rankings.\<close>

lemma demo_select:
  "heap s r = demo_clean \<Longrightarrow>
   select_feature demo_env demo_ext demo_processor r s
     = (Inr (next_ref s), s\<lparr>logs := logs s @ [(INFO, ''Feature selection using Random Forest''),
                                (INFO, ''Feature selection completed''),
                                (INFO, ''Top 2 features selected: []'')],
          heap := (heap s)(next_ref s := demo_selected), next_ref := Suc (next_ref s)\<rparr>)"
  by (simp add: process_defs method_defs body_defs frame_defs demo_defs demo_clean_def
      demo_selected_def Let_def digits_2)

lemma demo_select_low:
  "heap s r = demo_clean \<Longrightarrow>
   select_feature demo_env demo_ext_low demo_processor r s
     = (Inr (next_ref s), s\<lparr>logs := logs s @ [(INFO, ''Feature selection using Random Forest''),
                                (INFO, ''Feature selection completed''),
                                (INFO, ''Top 2 features selected: []'')],
          heap := (heap s)(next_ref s := demo_selected_low), next_ref := Suc (next_ref s)\<rparr>)"
  by (simp add: process_defs method_defs body_defs frame_defs demo_defs demo_clean_def
      demo_ext_low_def demo_selected_low_def Let_def digits_2)

lemmas demo_load_low = demo_load_any[of _ _
  "\<lambda>X y. Inr (map (\<lambda>(n, c). if n = ''Unnamed: 0'' then Fin 0 else Fin 1) (cols X))",
  folded demo_ext_low_def]
lemmas demo_load_test_low = demo_load_test_any[of _ _
  "\<lambda>X y. Inr (map (\<lambda>(n, c). if n = ''Unnamed: 0'' then Fin 0 else Fin 1) (cols X))",
  folded demo_ext_low_def]
lemmas demo_preprocess_low = demo_preprocess_any[of _ _
  "\<lambda>X y. Inr (map (\<lambda>(n, c). if n = ''Unnamed: 0'' then Fin 0 else Fin 1) (cols X))",
  folded demo_ext_low_def]
lemmas demo_preprocess_test_low = demo_preprocess_test_any[of _ _
  "\<lambda>X y. Inr (map (\<lambda>(n, c). if n = ''Unnamed: 0'' then Fin 0 else Fin 1) (cols X))",
  folded demo_ext_low_def]
lemmas demo_balance_low = demo_balance_any[of _ _
  "\<lambda>X y. Inr (map (\<lambda>(n, c). if n = ''Unnamed: 0'' then Fin 0 else Fin 1) (cols X))",
  folded demo_ext_low_def]
lemmas demo_balance_test_low = demo_balance_test_any[of _ _
  "\<lambda>X y. Inr (map (\<lambda>(n, c). if n = ''Unnamed: 0'' then Fin 0 else Fin 1) (cols X))",
  folded demo_ext_low_def]
lemmas demo_save_low = demo_save_any[of
  "\<lambda>X y. Inr (map (\<lambda>(n, c). if n = ''Unnamed: 0'' then Fin 0 else Fin 1) (cols X))",
  folded demo_ext_low_def]

lemma demo_fields:
  "train_path demo_processor = ''train.csv''"
  "test_path demo_processor = ''test.csv''"
  "PROCESSED_TRAIN_DATA_PATH demo_env = ''ptrain.csv''"
  "PROCESSED_TEST_DATA_PATH demo_env = ''ptest.csv''"
  "data_preprocessing_py demo_env = ''prep.py''"
  by (simp_all add: demo_processor_def demo_env_def)

lemma demo_process_run:
  "fst (process demo_env demo_ext demo_processor demo_disk) = Inr ()
   \<and> logs (snd (process demo_env demo_ext demo_processor demo_disk))
      = [(INFO, ''Loading data from RAW directory''),
           (INFO, '' Starting the Preprocessing data''),
           (INFO, ''Dropping unnecessary columns''),
           (INFO, ''Applying Label Encoding''),
           (INFO, ''Label Mapping are: ''),
           (INFO, ''Skewness handling''),
           (INFO, '' Starting the Preprocessing data''),
           (INFO, ''Dropping unnecessary columns''),
           (INFO, ''Applying Label Encoding''),
           (INFO, ''Label Mapping are: ''),
           (INFO, ''Skewness handling''),
           (INFO, ''Balancing the data using SMOTE''),
           (INFO, ''Data balanced successfully''),
           (INFO, ''Balancing the data using SMOTE''),
           (INFO, ''Data balanced successfully''),
           (INFO, ''Feature selection using Random Forest''),
           (INFO, ''Feature selection completed''),
           (INFO, ''Top 2 features selected: []''),
           (INFO, ''Saving processed data to ptrain.csv''),
           (INFO, ''Data saved successfully''),
           (INFO, ''Saving processed data to ptest.csv''),
           (INFO, ''Data saved successfully''),
           (INFO, ''Data processing completed successfully'')]
   \<and> fs (snd (process demo_env demo_ext demo_processor demo_disk))
      = (fs demo_disk)(''ptrain.csv'' \<mapsto> CsvFile (cols demo_selected),
                       ''ptest.csv'' \<mapsto> CsvFile (cols demo_selected))"
  by (simp add: process_def process_body_def body_defs demo_load demo_load_test demo_preprocess
      demo_preprocess_test demo_balance demo_balance_test
      demo_select demo_save demo_disk_def demo_state_def demo_fields
      frame_defs demo_selected_def)

lemma demo_process_run_low:
  "fst (process demo_env demo_ext_low demo_processor demo_disk) = Inr ()
   \<and> fs (snd (process demo_env demo_ext_low demo_processor demo_disk))
      = (fs demo_disk)(''ptrain.csv'' \<mapsto> CsvFile (cols demo_selected_low),
                       ''ptest.csv'' \<mapsto> CsvFile (cols demo_selected_low))"
  by (simp add: process_def process_body_def body_defs demo_load_low demo_load_test_low
      demo_preprocess_low demo_preprocess_test_low demo_balance_low demo_balance_test_low
      demo_select_low demo_save_low demo_disk_def demo_state_def demo_fields
      frame_defs demo_selected_low_def)

section \<open>Which tables the stages of \<^verbatim>\<open>process\<close> are applied to\<close>

lemma filter_filter_imp: "(\<And>x. Q x \<Longrightarrow> P x) \<Longrightarrow> filter Q (filter P xs) = filter Q xs"
  by (induction xs) auto

lemma demo_process_pair:
  "process demo_env demo_ext demo_processor demo_disk
     = (Inr (), snd (process demo_env demo_ext demo_processor demo_disk))"
  using demo_process_run by (metis prod.collapse)

lemma demo_files_differ:
  "pd_read_csv demo_ext (test_path demo_processor) demo_disk
     \<noteq> pd_read_csv demo_ext (train_path demo_processor) demo_disk"
  by (simp add: pd_read_csv_def demo_disk_def demo_fields demo_read demo_read_test_any[of "rf_importances demo_ext", unfolded demo_ext_self]
      demo_loaded_def demo_test_loaded_def)

text \<open>
  Claim C1, as the code has it.  \<^verbatim>\<open>process\<close> calls \<^verbatim>\<open>balanced_data\<close> on the train
  table (line 140) and on the test table (line 141).  A successful run is the chain of its
  method calls, each started in the state the one before left: the two loads, the two
  preprocessing calls on the references the loads returned, the two balancing calls on
  those same references, the selection on the balanced train table, and the two saves.
  In that chain the call of line 141 is given the reference that \<^verbatim>\<open>load_data\<close> returned
  for the test path, the frame behind it is the one that \<^verbatim>\<open>preprocess_data\<close> left there,
  and the oversampler has returned a resampled table for the features and labels of that
  frame; the frame that \<^verbatim>\<open>balanced_data\<close> returns for the test table is built from that
  resampled table.  The log of the run shows two balancing steps.
\<close>

theorem process_balances_test_table:
  fixes ext :: "'v ext"
  assumes "process env ext self s = (Inr (), s')"
  shows "\<exists>rtr s1 rte s2 s3 s4 r5 s5 r6 s6 r7 s7 T' s9 s10 Xte yte Xte' yte' l.
      load_data ext (train_path self) (log_line INFO ''Loading data from RAW directory'' s) = (Inr rtr, s1)
    \<and> load_data ext (test_path self) s1 = (Inr rte, s2)
    \<and> preprocess_data env ext self rtr s2 = (Inr rtr, s3)
    \<and> preprocess_data env ext self rte s3 = (Inr rte, s4)
    \<and> balanced_data env ext rtr s4 = (Inr r5, s5)
    \<and> balanced_data env ext rte s5 = (Inr r6, s6)
    \<and> select_feature env ext self r5 s6 = (Inr r7, s7)
    \<and> select_columns (columns (heap s7 r7)) (heap s7 r7) = Inr T'
    \<and> save_data env ext r7 (PROCESSED_TRAIN_DATA_PATH env)
         (s7\<lparr>heap := (heap s7)(next_ref s7 := T'), next_ref := Suc (next_ref s7)\<rparr>) = (Inr (), s9)
    \<and> save_data env ext (next_ref s7) (PROCESSED_TEST_DATA_PATH env) s9 = (Inr (), s10)
    \<and> s' = log_line INFO ''Data processing completed successfully'' s10
    \<and> rte \<noteq> rtr
    \<and> heap s5 rte = heap s4 rte
    \<and> drop_columns [''booking_status''] (heap s4 rte) = Inr Xte
    \<and> get_column ''booking_status'' (heap s4 rte) = Inr yte
    \<and> smote ext Xte yte = Inr (Xte', yte')
    \<and> heap s6 r6 = set_column ''booking_status'' yte' (reindex_columns ext (columns Xte) Xte')
    \<and> logs s' = logs s @ l
    \<and> length (filter (\<lambda>e. e = (INFO, ''Balancing the data using SMOTE'')) l) = 2"
proof -
  let ?P = "\<lambda>e. e = (INFO, ''Balancing the data using SMOTE'')
                  \<or> e = (INFO, ''Feature selection using Random Forest'')"
  let ?Q = "\<lambda>e. e = (INFO, ''Balancing the data using SMOTE'')"
  from process_trace[OF assms] obtain rtr s1 rte s2 s3 s4 r5 s5 r6 s6 r7 s7 T' s9 s10 l where
    m1: "load_data ext (train_path self) (log_line INFO ''Loading data from RAW directory'' s) = (Inr rtr, s1)" and
    m2: "load_data ext (test_path self) s1 = (Inr rte, s2)" and
    m3: "preprocess_data env ext self rtr s2 = (Inr rtr, s3)" and
    m4: "preprocess_data env ext self rte s3 = (Inr rte, s4)" and
    m5: "balanced_data env ext rtr s4 = (Inr r5, s5)" and
    m6: "balanced_data env ext rte s5 = (Inr r6, s6)" and
    m7: "select_feature env ext self r5 s6 = (Inr r7, s7)" and
    m8: "select_columns (columns (heap s7 r7)) (heap s7 r7) = Inr T'" and
    m9: "save_data env ext r7 (PROCESSED_TRAIN_DATA_PATH env)
         (s7\<lparr>heap := (heap s7)(next_ref s7 := T'), next_ref := Suc (next_ref s7)\<rparr>) = (Inr (), s9)" and
    m10: "save_data env ext (next_ref s7) (PROCESSED_TEST_DATA_PATH env) s9 = (Inr (), s10)" and
    m11: "s' = log_line INFO ''Data processing completed successfully'' s10" and
    ne: "rte \<noteq> rtr" "r5 \<noteq> rte" "r6 \<noteq> r5" and
    h: "heap s2 rtr = heap s1 rtr" "heap s3 rte = heap s2 rte" "heap s4 rtr = heap s3 rtr"
       "heap s5 rte = heap s4 rte" "heap s6 r5 = heap s5 r5" and
    f2: "fs s2 = fs s" and
    fsf: "fs s' = (fs s)(PROCESSED_TRAIN_DATA_PATH env \<mapsto> CsvFile (to_csv False (heap s7 r7)),
                       PROCESSED_TEST_DATA_PATH env \<mapsto> CsvFile (to_csv False T'))" and
    lg: "logs s' = logs s @ l" and
    l: "filter ?P l = [(INFO, ''Balancing the data using SMOTE''), (INFO, ''Balancing the data using SMOTE''),
           (INFO, ''Feature selection using Random Forest'')]"
    by (elim exE conjE) (rule that)
  from balanced_data_Inr[OF m6] obtain Xte yte Xte' yte' where
    b: "drop_columns [''booking_status''] (heap s5 rte) = Inr Xte"
       "get_column ''booking_status'' (heap s5 rte) = Inr yte"
       "smote ext Xte yte = Inr (Xte', yte')" and
    r6: "r6 = next_ref s5" and
    s6: "s6 = s5\<lparr>logs := logs s5 @ [(INFO, ''Balancing the data using SMOTE''),
                                (INFO, ''Data balanced successfully'')],
              heap := (heap s5)(next_ref s5 :=
                 set_column ''booking_status'' yte' (reindex_columns ext (columns Xte) Xte')),
              next_ref := Suc (next_ref s5)\<rparr>"
    by (elim exE conjE) (rule that)
  have h6: "heap s6 r6 = set_column ''booking_status'' yte' (reindex_columns ext (columns Xte) Xte')"
    by (simp add: s6 r6)
  have "filter ?Q l = filter ?Q (filter ?P l)"
    by (rule filter_filter_imp[symmetric]) simp
  also have "\<dots> = [(INFO, ''Balancing the data using SMOTE''), (INFO, ''Balancing the data using SMOTE'')]"
    by (simp add: l)
  finally have two: "length (filter ?Q l) = 2" by simp
  from m1 m2 m3 m4 m5 m6 m7 m8 m9 m10 m11 ne(1) h(4) b[unfolded h(4)] h6 lg two
  show ?thesis by blast
qed

theorem process_balances_test_table_witness:
  "process demo_env demo_ext demo_processor demo_disk
     = (Inr (), snd (process demo_env demo_ext demo_processor demo_disk))
   \<and> pd_read_csv demo_ext (test_path demo_processor) demo_disk
       \<noteq> pd_read_csv demo_ext (train_path demo_processor) demo_disk
   \<and> (\<exists>(s1 :: (int, nat) state) rte s2 (s3 :: (int, nat) state) s4 (s5 :: (int, nat) state) r6 s6
          Xte yte Xte' yte'.
        load_data demo_ext (test_path demo_processor) s1 = (Inr rte, s2)
      \<and> preprocess_data demo_env demo_ext demo_processor rte s3 = (Inr rte, s4)
      \<and> balanced_data demo_env demo_ext rte s5 = (Inr r6, s6)
      \<and> heap s5 rte = heap s4 rte
      \<and> drop_columns [''booking_status''] (heap s4 rte) = Inr Xte
      \<and> get_column ''booking_status'' (heap s4 rte) = Inr yte
      \<and> smote demo_ext Xte yte = Inr (Xte', yte'))
   \<and> length (filter (\<lambda>e. e = (INFO, ''Balancing the data using SMOTE''))
        (logs (snd (process demo_env demo_ext demo_processor demo_disk)))) = 2"
proof -
  have c: "length (filter (\<lambda>e. e = (INFO, ''Balancing the data using SMOTE''))
        (logs (snd (process demo_env demo_ext demo_processor demo_disk)))) = 2"
    using demo_process_run by simp
  from process_balances_test_table[OF demo_process_pair]
  obtain s1 :: "(int, nat) state" and rte s2 and s3 :: "(int, nat) state" and s4
    and s5 :: "(int, nat) state" and r6 s6 Xte yte Xte' yte' where
    "load_data demo_ext (test_path demo_processor) s1 = (Inr rte, s2)"
    "preprocess_data demo_env demo_ext demo_processor rte s3 = (Inr rte, s4)"
    "balanced_data demo_env demo_ext rte s5 = (Inr r6, s6)"
    "heap s5 rte = heap s4 rte"
    "drop_columns [''booking_status''] (heap s4 rte) = Inr Xte"
    "get_column ''booking_status'' (heap s4 rte) = Inr yte"
    "smote demo_ext Xte yte = Inr (Xte', yte')"
    by (elim exE conjE) (rule that)
  then have "\<exists>(s1 :: (int, nat) state) rte s2 (s3 :: (int, nat) state) s4 (s5 :: (int, nat) state) r6 s6
          Xte yte Xte' yte'.
        load_data demo_ext (test_path demo_processor) s1 = (Inr rte, s2)
      \<and> preprocess_data demo_env demo_ext demo_processor rte s3 = (Inr rte, s4)
      \<and> balanced_data demo_env demo_ext rte s5 = (Inr r6, s6)
      \<and> heap s5 rte = heap s4 rte
      \<and> drop_columns [''booking_status''] (heap s4 rte) = Inr Xte
      \<and> get_column ''booking_status'' (heap s4 rte) = Inr yte
      \<and> smote demo_ext Xte yte = Inr (Xte', yte')"
    by blast
  with demo_process_pair demo_files_differ c show ?thesis by simp
qed

text \<open>
  The claim as written fails: with a test file that holds one class only the oversampler
  refuses the test table, and the run stops at line 141, the balancing of the test table.
\<close>

theorem process_balances_test_table_counterexample:
  "fst (process demo_env demo_ext demo_processor demo_disk_one_class)
     = Inl (custom_exception ''prep.py'' 141 ''Failed to process the data'')"
  by (simp add: process_def process_body_def body_defs demo_load demo_load_one_class
      demo_preprocess demo_preprocess_one_class demo_balance
      demo_balance_one_class demo_disk_one_class_def demo_state_def demo_fields)

section \<open>The processed tables on disk\<close>

lemma map_of_names:
  "distinct (map fst xs) \<Longrightarrow> map (\<lambda>n. (n, the (map_of xs n))) (map fst xs) = xs"
proof (induction xs)
  case Nil
  then show ?case by simp
next
  case (Cons x xs)
  have "\<And>n. n \<in> set (map fst xs) \<Longrightarrow> the (map_of (x # xs) n) = the (map_of xs n)"
  proof -
    fix n assume "n \<in> set (map fst xs)"
    with Cons.prems have "n \<noteq> fst x" by (force simp: image_iff)
    then show "the (map_of (x # xs) n) = the (map_of xs n)" by simp
  qed
  then have "map (\<lambda>n. (n, the (map_of (x # xs) n))) (map fst xs)
           = map (\<lambda>n. (n, the (map_of xs n))) (map fst xs)"
    by (intro map_cong) simp_all
  with Cons show ?case by simp
qed

lemma select_all_columns:
  assumes "select_columns (columns t) t = Inr t'" and "distinct (columns t)"
  shows "t' = t"
proof -
  from assms(1) have eq: "t' = t\<lparr>cols := concat (map (\<lambda>n. filter (\<lambda>(m, d). m = n) (cols t)) (columns t))\<rparr>"
    by (auto simp: select_columns_def Let_def split: if_splits)
  from select_columns_Inr[OF assms] have c: "cols t' = map (\<lambda>n. (n, the (map_of (cols t) n))) (columns t)"
    by blast
  from assms(2) have "distinct (map fst (cols t))" by (simp only: columns_def)
  then have "map (\<lambda>n. (n, the (map_of (cols t) n))) (map fst (cols t)) = cols t"
    by (rule map_of_names)
  with c have "cols t' = cols t" by (simp only: columns_def)
  with eq show ?thesis by simp
qed

lemma columns_select:
  assumes "select_columns ns t = Inr t'" and "distinct (columns t)"
  shows "columns t' = ns"
  using select_columns_Inr[OF assms] by (simp add: columns_def comp_def)

lemma columns_drop:
  "drop_columns [n] t = Inr t' \<Longrightarrow> columns t' = filter (\<lambda>m. m \<noteq> n) (columns t)"
  by (auto simp: columns_def columns_filter dest!: drop_columns_Inr)

lemma head_subset: "set (head k xs) \<subseteq> set xs"
  by (auto simp: head_def dest: in_set_takeD)

lemma distinct_head: "distinct xs \<Longrightarrow> distinct (head k xs)"
  by (simp add: head_def)

lemma process_saved:
  fixes ext :: "'v ext"
  assumes run: "process env ext self s = (Inr (), s')"
    and dl: "\<forall>t. pd_read_csv ext (train_path self) s = Inr t \<longrightarrow> distinct (columns t)"
    and perm: "\<forall>ks. mset (sort_desc ext ks) = mset ks"
  shows "\<exists>rtr s1 rte s2 s3 s4 r5 s5 r6 s6 r7 s7 T' s9 s10 X y fi k l.
      load_data ext (train_path self) (log_line INFO ''Loading data from RAW directory'' s) = (Inr rtr, s1)
    \<and> load_data ext (test_path self) s1 = (Inr rte, s2)
    \<and> preprocess_data env ext self rtr s2 = (Inr rtr, s3)
    \<and> preprocess_data env ext self rte s3 = (Inr rte, s4)
    \<and> balanced_data env ext rtr s4 = (Inr r5, s5)
    \<and> balanced_data env ext rte s5 = (Inr r6, s6)
    \<and> select_feature env ext self r5 s6 = (Inr r7, s7)
    \<and> select_columns (columns (heap s7 r7)) (heap s7 r7) = Inr T'
    \<and> save_data env ext r7 (PROCESSED_TRAIN_DATA_PATH env)
         (s7\<lparr>heap := (heap s7)(next_ref s7 := T'), next_ref := Suc (next_ref s7)\<rparr>) = (Inr (), s9)
    \<and> save_data env ext (next_ref s7) (PROCESSED_TEST_DATA_PATH env) s9 = (Inr (), s10)
    \<and> s' = log_line INFO ''Data processing completed successfully'' s10
    \<and> rte \<noteq> rtr \<and> r5 \<noteq> rte \<and> r6 \<noteq> r5
    \<and> heap s6 r5 = heap s5 r5
    \<and> drop_columns [''booking_status''] (heap s6 r5) = Inr X
    \<and> get_column ''booking_status'' (heap s6 r5) = Inr y
    \<and> rf_importances ext X y = Inr fi
    \<and> dp_lookup (dp_config self) ''no_of_features'' no_of_features = Inr k
    \<and> columns (heap s7 r7) = head k (map fst (sort_desc ext (zip (columns X) fi))) @ [''booking_status'']
    \<and> T' = heap s7 r7
    \<and> fs s' = (fs s)(PROCESSED_TRAIN_DATA_PATH env \<mapsto> CsvFile (cols (heap s7 r7)),
                       PROCESSED_TEST_DATA_PATH env \<mapsto> CsvFile (cols (heap s7 r7)))
    \<and> logs s' = logs s @ l
    \<and> filter (\<lambda>e. e = (INFO, ''Balancing the data using SMOTE'')
                  \<or> e = (INFO, ''Feature selection using Random Forest'')) l
        = [(INFO, ''Balancing the data using SMOTE''), (INFO, ''Balancing the data using SMOTE''),
           (INFO, ''Feature selection using Random Forest'')]"
proof -
  let ?P = "\<lambda>e. e = (INFO, ''Balancing the data using SMOTE'')
                  \<or> e = (INFO, ''Feature selection using Random Forest'')"
  let ?s0 = "log_line INFO ''Loading data from RAW directory'' s"
  from process_trace[OF run] obtain rtr s1 rte s2 s3 s4 r5 s5 r6 s6 r7 s7 T' s9 s10 l where
    m1: "load_data ext (train_path self) ?s0 = (Inr rtr, s1)" and
    m2: "load_data ext (test_path self) s1 = (Inr rte, s2)" and
    m3: "preprocess_data env ext self rtr s2 = (Inr rtr, s3)" and
    m4: "preprocess_data env ext self rte s3 = (Inr rte, s4)" and
    m5: "balanced_data env ext rtr s4 = (Inr r5, s5)" and
    m6: "balanced_data env ext rte s5 = (Inr r6, s6)" and
    m7: "select_feature env ext self r5 s6 = (Inr r7, s7)" and
    m8: "select_columns (columns (heap s7 r7)) (heap s7 r7) = Inr T'" and
    m9: "save_data env ext r7 (PROCESSED_TRAIN_DATA_PATH env)
         (s7\<lparr>heap := (heap s7)(next_ref s7 := T'), next_ref := Suc (next_ref s7)\<rparr>) = (Inr (), s9)" and
    m10: "save_data env ext (next_ref s7) (PROCESSED_TEST_DATA_PATH env) s9 = (Inr (), s10)" and
    m11: "s' = log_line INFO ''Data processing completed successfully'' s10" and
    ne: "rte \<noteq> rtr" "r5 \<noteq> rte" "r6 \<noteq> r5" and
    h: "heap s2 rtr = heap s1 rtr" "heap s3 rte = heap s2 rte" "heap s4 rtr = heap s3 rtr"
       "heap s5 rte = heap s4 rte" "heap s6 r5 = heap s5 r5" and
    f2: "fs s2 = fs s" and
    fsf: "fs s' = (fs s)(PROCESSED_TRAIN_DATA_PATH env \<mapsto> CsvFile (to_csv False (heap s7 r7)),
                       PROCESSED_TEST_DATA_PATH env \<mapsto> CsvFile (to_csv False T'))" and
    lg: "logs s' = logs s @ l" and
    l: "filter ?P l = [(INFO, ''Balancing the data using SMOTE''), (INFO, ''Balancing the data using SMOTE''),
           (INFO, ''Feature selection using Random Forest'')]"
    by (elim exE conjE) (rule that)
  \<comment> \<open>the loaded train table has distinct names, and so has the preprocessed one\<close>
  from m1 obtain Ltr where
    Ltr: "pd_read_csv ext (train_path self) ?s0 = Inr Ltr" and h1: "heap s1 rtr = Ltr"
    by (auto simp: load_data_Inr)
  have "pd_read_csv ext (train_path self) s = Inr Ltr"
    using Ltr pd_read_csv_fs[of ?s0 s] by simp
  with dl have dL: "distinct (columns Ltr)" by blast
  from preprocess_data_Inr[OF m3] obtain Ptr where
    h3: "heap s3 rtr = Ptr" and
    cP: "columns Ptr = filter (\<lambda>n. n \<noteq> ''Booking_ID'') (columns (heap s2 rtr))"
    by auto
  from cP dL h(1) h1 have dP: "distinct (columns Ptr)" by simp
  \<comment> \<open>the balanced train table\<close>
  from balanced_data_Inr[OF m5] obtain Xtr ytr Xtr' ytr' where
    Xtr: "drop_columns [''booking_status''] (heap s4 rtr) = Inr Xtr" and
    h5: "heap s5 r5 = set_column ''booking_status'' ytr' (reindex_columns ext (columns Xtr) Xtr')"
    by auto
  let ?B = "set_column ''booking_status'' ytr' (reindex_columns ext (columns Xtr) Xtr')"
  from Xtr h(3) h3 have Xtr': "drop_columns [''booking_status''] Ptr = Inr Xtr" by simp
  with columns_drop[OF Xtr'] dP have dX: "distinct (columns Xtr)"
    and nX: "''booking_status'' \<notin> set (columns Xtr)" by simp_all
  from nX have cB: "columns ?B = columns Xtr @ [''booking_status'']"
    by (simp add: columns_set_column_new columns_reindex)
  with dX nX have dB: "distinct (columns ?B)" by simp
  have h6: "heap s6 r5 = ?B" using h(5) h5 by simp
  \<comment> \<open>the selection\<close>
  from select_feature_Inr[OF m7] obtain X y fi k T where
    X: "drop_columns [''booking_status''] (heap s6 r5) = Inr X" and
    y: "get_column ''booking_status'' (heap s6 r5) = Inr y" and
    fi: "rf_importances ext X y = Inr fi" "length fi = length (columns X)" and
    k: "dp_lookup (dp_config self) ''no_of_features'' no_of_features = Inr k" and
    T: "select_columns (head k (map fst (sort_desc ext (zip (columns X) fi))) @ [''booking_status''])
          (heap s6 r5) = Inr T" and
    h7: "heap s7 r7 = T"
    by auto
  let ?top = "head k (map fst (sort_desc ext (zip (columns X) fi)))"
  from columns_drop[OF X] h6 cB nX have cX: "columns X = columns Xtr"
    by (auto simp: filter_id_conv)
  have "mset (map fst (sort_desc ext (zip (columns X) fi))) = mset (map fst (zip (columns X) fi))"
    using perm by (metis mset_map)
  also have "\<dots> = mset (columns X)" using fi(2) by simp
  finally have ms: "mset (map fst (sort_desc ext (zip (columns X) fi))) = mset (columns X)" .
  with dX cX have "distinct (map fst (sort_desc ext (zip (columns X) fi)))"
    by (metis mset_eq_imp_distinct_iff)
  then have dtop: "distinct ?top" by (rule distinct_head)
  from ms have "set (map fst (sort_desc ext (zip (columns X) fi))) = set (columns X)"
    by (rule mset_eq_setD)
  with head_subset[of k "map fst (sort_desc ext (zip (columns X) fi))"] cX nX
  have ntop: "''booking_status'' \<notin> set ?top" by auto
  from T h6 have "select_columns (?top @ [''booking_status'']) ?B = Inr T" by simp
  from columns_select[OF this dB] have cT: "columns T = ?top @ [''booking_status'']" .
  with dtop ntop have "distinct (columns T)" by simp
  from select_all_columns[OF m8[unfolded h7] this] have TT: "T' = T" .
  with fsf h7 have fs2: "fs s' = (fs s)(PROCESSED_TRAIN_DATA_PATH env \<mapsto> CsvFile (cols (heap s7 r7)),
                       PROCESSED_TEST_DATA_PATH env \<mapsto> CsvFile (cols (heap s7 r7)))"
    by (simp add: to_csv_def)
  from m1 m2 m3 m4 m5 m6 m7 m8 m9 m10 m11 ne h(5) X y fi(1) k cT[folded h7] TT[folded h7] fs2 lg l
  show ?thesis by blast
qed

text \<open>
  Claim C3.  A successful run is the chain of method calls shown below.  In it
  \<^verbatim>\<open>select_feature\<close> is called once, on the reference \<open>r5\<close> that \<^verbatim>\<open>balanced_data\<close>
  returned for the train table; that reference is neither the test table's \<open>rte\<close> nor the
  balanced test table's \<open>r6\<close>.  The features \<open>X\<close> and labels \<open>y\<close> that the importance
  ranking saw are those of the frame behind \<open>r5\<close>, and the columns of the selected frame
  are the first \<open>k\<close> names of that ranking followed by the label.  Both processed files
  have exactly this header, name by name and in this order.  The log of the run has one
  feature-selection start.  The statement is for a train file whose header names are
  distinct (as pandas delivers them) and for a sort that only reorders the importance
  frame.
\<close>

theorem process_test_columns_match_train:
  fixes ext :: "'v ext"
  assumes "process env ext self s = (Inr (), s')"
    and "\<forall>t. pd_read_csv ext (train_path self) s = Inr t \<longrightarrow> distinct (columns t)"
    and "\<forall>ks. mset (sort_desc ext ks) = mset ks"
  shows "\<exists>rtr s1 rte s2 s3 s4 r5 s5 r6 s6 r7 s7 T' s9 s10 X y fi k ftr fte l.
      load_data ext (train_path self) (log_line INFO ''Loading data from RAW directory'' s) = (Inr rtr, s1)
    \<and> load_data ext (test_path self) s1 = (Inr rte, s2)
    \<and> preprocess_data env ext self rtr s2 = (Inr rtr, s3)
    \<and> preprocess_data env ext self rte s3 = (Inr rte, s4)
    \<and> balanced_data env ext rtr s4 = (Inr r5, s5)
    \<and> balanced_data env ext rte s5 = (Inr r6, s6)
    \<and> select_feature env ext self r5 s6 = (Inr r7, s7)
    \<and> select_columns (columns (heap s7 r7)) (heap s7 r7) = Inr T'
    \<and> save_data env ext r7 (PROCESSED_TRAIN_DATA_PATH env)
         (s7\<lparr>heap := (heap s7)(next_ref s7 := T'), next_ref := Suc (next_ref s7)\<rparr>) = (Inr (), s9)
    \<and> save_data env ext (next_ref s7) (PROCESSED_TEST_DATA_PATH env) s9 = (Inr (), s10)
    \<and> s' = log_line INFO ''Data processing completed successfully'' s10
    \<and> rte \<noteq> rtr \<and> r5 \<noteq> rte \<and> r6 \<noteq> r5
    \<and> heap s6 r5 = heap s5 r5
    \<and> drop_columns [''booking_status''] (heap s6 r5) = Inr X
    \<and> get_column ''booking_status'' (heap s6 r5) = Inr y
    \<and> rf_importances ext X y = Inr fi
    \<and> dp_lookup (dp_config self) ''no_of_features'' no_of_features = Inr k
    \<and> columns (heap s7 r7) = head k (map fst (sort_desc ext (zip (columns X) fi))) @ [''booking_status'']
    \<and> fs s' (PROCESSED_TRAIN_DATA_PATH env) = Some (CsvFile ftr)
    \<and> fs s' (PROCESSED_TEST_DATA_PATH env) = Some (CsvFile fte)
    \<and> map fst ftr = columns (heap s7 r7)
    \<and> map fst fte = map fst ftr
    \<and> logs s' = logs s @ l
    \<and> length (filter (\<lambda>e. e = (INFO, ''Feature selection using Random Forest'')) l) = 1"
proof -
  let ?P = "\<lambda>e. e = (INFO, ''Balancing the data using SMOTE'')
                  \<or> e = (INFO, ''Feature selection using Random Forest'')"
  let ?Q = "\<lambda>e. e = (INFO, ''Feature selection using Random Forest'')"
  from process_saved[OF assms] obtain rtr s1 rte s2 s3 s4 r5 s5 r6 s6 r7 s7 T' s9 s10 X y fi k l where
    m: "load_data ext (train_path self) (log_line INFO ''Loading data from RAW directory'' s) = (Inr rtr, s1)"
       "load_data ext (test_path self) s1 = (Inr rte, s2)"
       "preprocess_data env ext self rtr s2 = (Inr rtr, s3)"
       "preprocess_data env ext self rte s3 = (Inr rte, s4)"
       "balanced_data env ext rtr s4 = (Inr r5, s5)"
       "balanced_data env ext rte s5 = (Inr r6, s6)"
       "select_feature env ext self r5 s6 = (Inr r7, s7)"
       "select_columns (columns (heap s7 r7)) (heap s7 r7) = Inr T'"
       "save_data env ext r7 (PROCESSED_TRAIN_DATA_PATH env)
         (s7\<lparr>heap := (heap s7)(next_ref s7 := T'), next_ref := Suc (next_ref s7)\<rparr>) = (Inr (), s9)"
       "save_data env ext (next_ref s7) (PROCESSED_TEST_DATA_PATH env) s9 = (Inr (), s10)"
       "s' = log_line INFO ''Data processing completed successfully'' s10"
       "rte \<noteq> rtr" "r5 \<noteq> rte" "r6 \<noteq> r5"
       "heap s6 r5 = heap s5 r5"
       "drop_columns [''booking_status''] (heap s6 r5) = Inr X"
       "get_column ''booking_status'' (heap s6 r5) = Inr y"
       "rf_importances ext X y = Inr fi"
       "dp_lookup (dp_config self) ''no_of_features'' no_of_features = Inr k"
       "columns (heap s7 r7) = head k (map fst (sort_desc ext (zip (columns X) fi))) @ [''booking_status'']" and
    TT: "T' = heap s7 r7" and
    fsf: "fs s' = (fs s)(PROCESSED_TRAIN_DATA_PATH env \<mapsto> CsvFile (cols (heap s7 r7)),
                       PROCESSED_TEST_DATA_PATH env \<mapsto> CsvFile (cols (heap s7 r7)))" and
    lg: "logs s' = logs s @ l" and
    l: "filter ?P l = [(INFO, ''Balancing the data using SMOTE''), (INFO, ''Balancing the data using SMOTE''),
           (INFO, ''Feature selection using Random Forest'')]"
    by (elim exE conjE) (rule that)
  have "filter ?Q l = filter ?Q (filter ?P l)"
    by (rule filter_filter_imp[symmetric]) simp
  also have "\<dots> = [(INFO, ''Feature selection using Random Forest'')]"
    by (simp add: l)
  finally have one: "length (filter ?Q l) = 1" by simp
  from fsf have f: "fs s' (PROCESSED_TRAIN_DATA_PATH env) = Some (CsvFile (cols (heap s7 r7)))"
    "fs s' (PROCESSED_TEST_DATA_PATH env) = Some (CsvFile (cols (heap s7 r7)))"
    by simp_all
  have c: "map fst (cols (heap s7 r7)) = columns (heap s7 r7)"
    by (simp add: columns_def)
  show ?thesis
    by (rule exI[of _ rtr],
        rule exI[of _ s1],
        rule exI[of _ rte],
        rule exI[of _ s2],
        rule exI[of _ s3],
        rule exI[of _ s4],
        rule exI[of _ r5],
        rule exI[of _ s5],
        rule exI[of _ r6],
        rule exI[of _ s6],
        rule exI[of _ r7],
        rule exI[of _ s7],
        rule exI[of _ "T'"],
        rule exI[of _ s9],
        rule exI[of _ s10],
        rule exI[of _ X],
        rule exI[of _ y],
        rule exI[of _ fi],
        rule exI[of _ k],
        rule exI[of _ "cols (heap s7 r7)"], rule exI[of _ "cols (heap s7 r7)"], rule exI[of _ l])
       (intro conjI; (fact m f c lg one | rule refl))
qed

lemma demo_train_distinct:
  "\<forall>t. pd_read_csv demo_ext (train_path demo_processor) demo_disk = Inr t \<longrightarrow> distinct (columns t)"
  by (simp add: pd_read_csv_def demo_disk_def demo_fields demo_read demo_loaded_def columns_def)

lemma demo_sort_perm: "\<forall>ks. mset (sort_desc demo_ext ks) = mset ks"
  by (simp add: demo_ext_def mset_demo_sort)

theorem process_test_columns_match_train_witness:
  "process demo_env demo_ext demo_processor demo_disk
     = (Inr (), snd (process demo_env demo_ext demo_processor demo_disk))
   \<and> pd_read_csv demo_ext (test_path demo_processor) demo_disk
       \<noteq> pd_read_csv demo_ext (train_path demo_processor) demo_disk
   \<and> (\<exists>ftr fte. fs (snd (process demo_env demo_ext demo_processor demo_disk)) ''ptrain.csv''
                  = Some (CsvFile ftr)
        \<and> fs (snd (process demo_env demo_ext demo_processor demo_disk)) ''ptest.csv''
                  = Some (CsvFile fte)
        \<and> map fst fte = map fst ftr)
   \<and> length (filter (\<lambda>e. e = (INFO, ''Feature selection using Random Forest''))
        (logs (snd (process demo_env demo_ext demo_processor demo_disk)))) = 1"
proof -
  from process_test_columns_match_train[OF demo_process_pair demo_train_distinct demo_sort_perm]
  obtain ftr fte l where
    "fs (snd (process demo_env demo_ext demo_processor demo_disk)) (PROCESSED_TRAIN_DATA_PATH demo_env)
       = Some (CsvFile ftr)"
    "fs (snd (process demo_env demo_ext demo_processor demo_disk)) (PROCESSED_TEST_DATA_PATH demo_env)
       = Some (CsvFile fte)"
    "map fst fte = map fst ftr"
    "logs (snd (process demo_env demo_ext demo_processor demo_disk)) = logs demo_disk @ l"
    "length (filter (\<lambda>e. e = (INFO, ''Feature selection using Random Forest'')) l) = 1"
    by (elim exE conjE) (rule that)
  with demo_process_pair demo_files_differ show ?thesis
    by (simp add: demo_fields demo_disk_def demo_state_def)
qed

section \<open>The training stage and the column \<^verbatim>\<open>Unnamed: 0\<close>\<close>

lemma pd_read_csv_simps [simp]:
  "pd_read_csv ext p (log_line lv msg s) = pd_read_csv ext p s"
  "pd_read_csv ext p (s\<lparr>heap := h\<rparr>) = pd_read_csv ext p s"
  "pd_read_csv ext p (s\<lparr>next_ref := n\<rparr>) = pd_read_csv ext p s"
  "pd_read_csv ext p (s\<lparr>logs := l\<rparr>) = pd_read_csv ext p s"
  by (simp_all add: pd_read_csv_def)

lemma drop_columns_missing:
  "n \<notin> set (columns t) \<Longrightarrow> drop_columns [n] t = Inl (KeyError [n])"
  by (simp add: drop_columns_def)

lemma drop_columns_present:
  "n \<in> set (columns t) \<Longrightarrow> drop_columns [n] t = Inr (t\<lparr>cols := filter (\<lambda>(m, c). m \<noteq> n) (cols t)\<rparr>)"
  by (simp add: drop_columns_def)

lemma save_data_writes:
  "save_data env ext df p s0 = (Inr (), s1) \<Longrightarrow> fs s1 p = Some (CsvFile (cols (heap s0 df)))"
  by (simp add: save_data_Inr to_csv_def)

text \<open>
  Claim C4, as the code has it.  \<^verbatim>\<open>load_and_split_data\<close> drops \<^verbatim>\<open>Unnamed: 0\<close> from
  both loaded tables without looking whether it is there, so it raises the wrapped
  exception, from line 41 or line 42, as soon as one of the two loaded tables has no
  column of that name.  \<^verbatim>\<open>save_data\<close> writes the columns of the frame it is given and
  no column for the row labels: the file has a column of that name exactly when the frame
  has one.
\<close>

theorem load_and_split_needs_unnamed:
  assumes "pd_read_csv ext (mt_train_path self) s = Inr ttr"
    and "pd_read_csv ext (mt_test_path self) s = Inr tte"
    and "''Unnamed: 0'' \<notin> set (columns ttr) \<or> ''Unnamed: 0'' \<notin> set (columns tte)"
  shows "(\<exists>lno s'. load_and_split_data env ext self s
            = (Inl (custom_exception (model_training_py env) lno ''Failed to load and split the data''), s')
          \<and> (lno = 41 \<or> lno = 42))
       \<and> (\<forall>df p s0 s1. save_data env ext df p s0 = (Inr (), s1)
             \<longrightarrow> fs s1 p = Some (CsvFile (cols (heap s0 df))))"
proof
  show "\<exists>lno s'. load_and_split_data env ext self s
            = (Inl (custom_exception (model_training_py env) lno ''Failed to load and split the data''), s')
          \<and> (lno = 41 \<or> lno = 42)"
  proof (cases "''Unnamed: 0'' \<in> set (columns ttr)")
    case False
    with assms(1,2) show ?thesis
      by (auto simp: load_and_split_data_def load_and_split_body_def try_except_def and_then_def
          info_def call_def load_data_def df_read_def at_line_def drop_columns_missing)
  next
    case True
    with assms(3) have "''Unnamed: 0'' \<notin> set (columns tte)" by simp
    with True assms(1,2) show ?thesis
      by (auto simp: load_and_split_data_def load_and_split_body_def try_except_def and_then_def
          info_def call_def load_data_def df_read_def at_line_def drop_columns_missing
          drop_columns_present)
  qed
next
  show "\<forall>df p s0 s1. save_data env ext df p s0 = (Inr (), s1)
             \<longrightarrow> fs s1 p = Some (CsvFile (cols (heap s0 df)))"
    by (auto dest: save_data_writes)
qed


lemmas training_defs = load_and_split_data_def load_and_split_body_def load_data_def
  pd_read_csv_def

lemma demo_saved_files:
  "fs demo_saved ''ptrain.csv'' = Some (CsvFile (cols demo_frame))"
  "fs demo_saved ''ptest.csv'' = Some (CsvFile (cols demo_frame))"
  by (simp_all add: demo_saved_def demo_save to_csv_def demo_state_def)

lemma demo_read_plain: "read_csv demo_ext (cols demo_frame) = Inr demo_frame"
  by (simp add: frame_defs demo_defs enumerate_eq_zip)

theorem load_and_split_needs_unnamed_witness:
  "pd_read_csv demo_ext (mt_train_path demo_training) demo_saved = Inr demo_frame
   \<and> pd_read_csv demo_ext (mt_test_path demo_training) demo_saved = Inr demo_frame
   \<and> ''Unnamed: 0'' \<notin> set (columns demo_frame)
   \<and> save_data demo_env demo_ext 0 ''ptrain.csv'' demo_state
       = (Inr (), snd (save_data demo_env demo_ext 0 ''ptrain.csv'' demo_state))
   \<and> fs (snd (save_data demo_env demo_ext 0 ''ptrain.csv'' demo_state)) ''ptrain.csv''
       = Some (CsvFile (cols (heap demo_state 0)))
   \<and> (\<exists>lno. fst (load_and_split_data demo_env demo_ext demo_training demo_saved)
         = Inl (custom_exception ''train.py'' lno ''Failed to load and split the data'')
        \<and> (lno = 41 \<or> lno = 42))"
proof -
  have r1: "pd_read_csv demo_ext (mt_train_path demo_training) demo_saved = Inr demo_frame"
    by (simp add: pd_read_csv_def demo_training_def demo_saved_files demo_read_plain)
  have r2: "pd_read_csv demo_ext (mt_test_path demo_training) demo_saved = Inr demo_frame"
    by (simp add: pd_read_csv_def demo_training_def demo_saved_files demo_read_plain)
  have n: "''Unnamed: 0'' \<notin> set (columns demo_frame)"
    by (simp add: columns_def demo_frame_def)
  have sv: "save_data demo_env demo_ext 0 ''ptrain.csv'' demo_state
       = (Inr (), snd (save_data demo_env demo_ext 0 ''ptrain.csv'' demo_state))"
    by (simp add: demo_save)
  from load_and_split_needs_unnamed[OF r1 r2 disjI1[OF n], of demo_env] sv r1 r2 n
  show ?thesis
    by (auto simp: demo_env_def)
qed

text \<open>
  The claim as written fails on the files that the concrete processing run writes: the row
  labels that ingestion wrote into the split files come back as the column
  \<^verbatim>\<open>Unnamed: 0\<close>, the selector keeps it, \<^verbatim>\<open>save_data\<close> writes it, and
  \<^verbatim>\<open>load_and_split_data\<close> then succeeds.
\<close>

lemma demo_read_selected:
  "read_csv demo_ext (cols demo_selected) = Inr demo_selected"
  by (simp add: frame_defs demo_defs demo_selected_def enumerate_eq_zip)

lemma demo_load_and_split:
  "fs s ''ptrain.csv'' = Some (CsvFile (cols demo_selected)) \<Longrightarrow>
   fs s ''ptest.csv'' = Some (CsvFile (cols demo_selected)) \<Longrightarrow>
   fst (load_and_split_data demo_env demo_ext demo_training s)
     = Inr (\<lparr>index = [0, 1], cols = [(''lead_time'', [1, 2])]\<rparr>, [0, 1],
            \<lparr>index = [0, 1], cols = [(''lead_time'', [1, 2])]\<rparr>, [0, 1])"
  by (simp add: training_defs body_defs demo_training_def demo_read_selected)
     (simp add: frame_defs demo_selected_def)

theorem saved_table_has_unnamed_counterexample:
  "fs (snd (process demo_env demo_ext demo_processor demo_disk)) ''ptrain.csv''
     = Some (CsvFile [(''Unnamed: 0'', [0, 1]), (''lead_time'', [1, 2]), (''booking_status'', [0, 1])])
   \<and> fst (load_and_split_data demo_env demo_ext demo_training
            (snd (process demo_env demo_ext demo_processor demo_disk)))
     = Inr (\<lparr>index = [0, 1], cols = [(''lead_time'', [1, 2])]\<rparr>, [0, 1],
            \<lparr>index = [0, 1], cols = [(''lead_time'', [1, 2])]\<rparr>, [0, 1])"
proof -
  have f: "fs (snd (process demo_env demo_ext demo_processor demo_disk)) ''ptrain.csv''
             = Some (CsvFile (cols demo_selected))"
          "fs (snd (process demo_env demo_ext demo_processor demo_disk)) ''ptest.csv''
             = Some (CsvFile (cols demo_selected))"
    using demo_process_run by simp_all
  from demo_load_and_split[OF f] f(1) show ?thesis
    by (simp add: demo_selected_def)
qed

section \<open>What the training stage reads after \<^verbatim>\<open>process\<close>\<close>

lemma raises_Inr: "raises lno r s = (Inr u, s') \<longleftrightarrow> r = None \<and> s' = s"
  by (auto simp: raises_def split: option.splits)

lemma with_run_Inr:
  "with_run srv lno b s = (Inr u, s') \<Longrightarrow>
     mlflow_start_run srv = None \<and> mlflow_end_run srv = None \<and> b s = (Inr u, s')"
  by (auto simp: with_run_def split: option.splits prod.splits)

lemma training_run_Inr:
  assumes "training_run env ext srv self s = (Inr u, s')"
  shows "\<exists>X_train y_train X_test y_test t1 model t2 metrics t3 t4.
       mlflow_start_run srv = None \<and> mlflow_end_run srv = None
     \<and> mlflow_log_artifact srv (mt_train_path self) = None
     \<and> mlflow_log_artifact srv (mt_test_path self) = None
     \<and> load_and_split_data env ext self
          (log_line INFO ''Logging the training and testing dataset to MLFLOW''
            (log_line INFO ''Starting our MLFLOW experiment''
              (log_line INFO ''Starting the model training process'' s)))
         = (Inr (X_train, y_train, X_test, y_test), t1)
     \<and> train_lgbm env ext srv X_train y_train t1 = (Inr model, t2)
     \<and> evaluate_model env ext srv model X_test y_test t2 = (Inr metrics, t3)
     \<and> save_model env ext srv self model t3 = (Inr (), t4)
     \<and> mlflow_log_artifact srv (model_output_path self) = None
     \<and> mlflow_log_params srv model = None
     \<and> mlflow_log_metrics srv metrics = None"
proof -
  from assms have "with_run srv 136 (training_block env ext srv self) s = (Inr u, s')"
    by (simp add: training_run_def try_except_Inr)
  from with_run_Inr[OF this] have
    t: "mlflow_start_run srv = None" "mlflow_end_run srv = None" and
    b: "training_block env ext srv self s = (Inr u, s')"
    by simp_all
  from b t show ?thesis
    unfolding training_block_def
    by (auto simp: and_then_Inr raises_Inr info_eq call_Inr)
qed

lemma load_and_split_same_file:
  assumes "load_and_split_data env ext mt t = (Inr (X_train, y_train, X_test, y_test), t1)"
    and "fs t (mt_test_path mt) = fs t (mt_train_path mt)"
  shows "X_test = X_train \<and> y_test = y_train"
proof -
  have rd: "\<And>a b. pd_read_csv ext (mt_train_path mt) t = Inr a \<Longrightarrow>
                  pd_read_csv ext (mt_test_path mt) t = Inr b \<Longrightarrow> b = a"
    using assms(2) by (auto simp: pd_read_csv_def split: option.splits content.splits)
  from assms(1) show ?thesis
    unfolding load_and_split_data_def load_and_split_body_def
    by (auto simp: try_except_Inr and_then_Inr info_eq call_Inr load_data_Inr df_read_Inr
        at_line_Inr ret_eq dest: rd)
qed

lemmas training_run_defs = training_run_def with_run_def training_block_def train_lgbm_def
  train_lgbm_body_def evaluate_model_def evaluate_body_def save_model_def save_model_body_def

lemma demo_training_fields:
  "mt_train_path demo_training = ''ptrain.csv''"
  "mt_test_path demo_training = ''ptest.csv''"
  "model_output_path demo_training = ''model.pkl''"
  "model_training_py demo_env = ''train.py''"
  "exc_text demo_ext = (\<lambda>e. ''cause'')"
  "write_error demo_ext = (\<lambda>p. None)"
  "exc_text demo_ext_low = (\<lambda>e. ''cause'')"
  by (simp_all add: demo_training_def demo_env_def demo_ext_def demo_ext_low_def demo_ext_with_def)

lemma demo_load_and_split_run:
  "fs s ''ptrain.csv'' = Some (CsvFile (cols demo_selected)) \<Longrightarrow>
   fs s ''ptest.csv'' = Some (CsvFile (cols demo_selected)) \<Longrightarrow>
   load_and_split_data demo_env demo_ext demo_training s
     = (Inr (\<lparr>index = [0, 1], cols = [(''lead_time'', [1, 2])]\<rparr>, [0, 1],
             \<lparr>index = [0, 1], cols = [(''lead_time'', [1, 2])]\<rparr>, [0, 1]),
        s\<lparr>logs := logs s @ [(INFO, ''Loading the data from ptrain.csv''),
                            (INFO, ''Loading the data from ptest.csv''),
                            (INFO, ''Deleting the unnecessary columns''),
                            (INFO, ''Data loaded and split into features and target variable'')],
          heap := (heap s)(next_ref s := demo_selected, Suc (next_ref s) := demo_selected),
          next_ref := Suc (Suc (next_ref s))\<rparr>)"
  by (simp add: training_defs body_defs demo_training_def demo_read_selected)
     (simp add: frame_defs demo_selected_def)

lemma demo_training_run:
  "fs s ''ptrain.csv'' = Some (CsvFile (cols demo_selected)) \<Longrightarrow>
   fs s ''ptest.csv'' = Some (CsvFile (cols demo_selected)) \<Longrightarrow>
   fst (training_run demo_env demo_ext demo_srv demo_training s) = Inr ()"
  by (simp add: training_run_defs body_defs demo_load_and_split_run demo_training_fields
      demo_srv_def)

lemma demo_read_selected_low:
  "read_csv demo_ext_low (cols demo_selected_low) = Inr demo_selected_low"
  by (simp add: frame_defs demo_defs demo_ext_low_def demo_selected_low_def enumerate_eq_zip)

lemma demo_training_run_low:
  "fs s ''ptrain.csv'' = Some (CsvFile (cols demo_selected_low)) \<Longrightarrow>
   fs s ''ptest.csv'' = Some (CsvFile (cols demo_selected_low)) \<Longrightarrow>
   fst (training_run demo_env demo_ext_low demo_srv demo_training s)
     = Inl (custom_exception ''train.py'' 146 ''Failed to train the model'')"
  by (simp add: training_run_defs training_defs body_defs demo_training_fields demo_srv_def
      demo_read_selected_low)
     (simp add: frame_defs demo_selected_low_def)

text \<open>
  Claim C2, as the code has it.  Line 144 builds the test table from the train table, so
  after a successful run the file at the processed test path holds the very table that the
  file at the processed train path holds.  The training stage, started in any state \<open>t\<close>
  that has these two files, therefore loads one table twice: what
  \<^verbatim>\<open>load_and_split_data\<close> returns as test features and labels are its train features
  and labels, and in a training run that succeeds \<^verbatim>\<open>evaluate_model\<close> has scored the
  model on the table \<^verbatim>\<open>train_lgbm\<close> fitted it on, and these scores went to the tracker.
  The statement is for a train file whose header names are distinct (as pandas delivers
  them) and for a sort that only reorders the importance frame.
\<close>

theorem process_test_file_is_train_file:
  fixes ext :: "'v ext"
  assumes "process env ext self s = (Inr (), s')"
    and "\<forall>t. pd_read_csv ext (train_path self) s = Inr t \<longrightarrow> distinct (columns t)"
    and "\<forall>ks. mset (sort_desc ext ks) = mset ks"
    and "mt_train_path mt = PROCESSED_TRAIN_DATA_PATH env"
    and "mt_test_path mt = PROCESSED_TEST_DATA_PATH env"
    and "fs t (PROCESSED_TRAIN_DATA_PATH env) = fs s' (PROCESSED_TRAIN_DATA_PATH env)"
    and "fs t (PROCESSED_TEST_DATA_PATH env) = fs s' (PROCESSED_TEST_DATA_PATH env)"
  shows "(\<exists>f. fs s' (PROCESSED_TRAIN_DATA_PATH env) = Some (CsvFile f)
            \<and> fs s' (PROCESSED_TEST_DATA_PATH env) = Some (CsvFile f))
       \<and> (load_and_split_data env ext mt t = (Inr (X_train, y_train, X_test, y_test), t1)
            \<longrightarrow> X_test = X_train \<and> y_test = y_train)
       \<and> (training_run env ext srv mt t = (Inr (), t') \<longrightarrow>
            (\<exists>X y u1 model u2 metrics u3.
                load_and_split_data env ext mt
                  (log_line INFO ''Logging the training and testing dataset to MLFLOW''
                    (log_line INFO ''Starting our MLFLOW experiment''
                      (log_line INFO ''Starting the model training process'' t)))
                  = (Inr (X, y, X, y), u1)
              \<and> train_lgbm env ext srv X y u1 = (Inr model, u2)
              \<and> evaluate_model env ext srv model X y u2 = (Inr metrics, u3)
              \<and> mlflow_log_metrics srv metrics = None))"
proof -
  let ?pre = "log_line INFO ''Logging the training and testing dataset to MLFLOW''
                    (log_line INFO ''Starting our MLFLOW experiment''
                      (log_line INFO ''Starting the model training process'' t))"
  from process_saved[OF assms(1-3)] obtain T :: "'v table" where
    fsf: "fs s' = (fs s)(PROCESSED_TRAIN_DATA_PATH env \<mapsto> CsvFile (cols T),
                       PROCESSED_TEST_DATA_PATH env \<mapsto> CsvFile (cols T))"
    by blast
  then have same: "fs s' (PROCESSED_TRAIN_DATA_PATH env) = Some (CsvFile (cols T))"
    "fs s' (PROCESSED_TEST_DATA_PATH env) = Some (CsvFile (cols T))"
    by simp_all
  with assms(4-7) have eq: "fs t (mt_test_path mt) = fs t (mt_train_path mt)"
    by simp
  then have eq': "fs ?pre (mt_test_path mt) = fs ?pre (mt_train_path mt)"
    by (simp add: log_line_def)
  have a: "\<exists>f. fs s' (PROCESSED_TRAIN_DATA_PATH env) = Some (CsvFile f)
            \<and> fs s' (PROCESSED_TEST_DATA_PATH env) = Some (CsvFile f)"
    using same by blast
  have b: "load_and_split_data env ext mt t = (Inr (X_train, y_train, X_test, y_test), t1)
            \<longrightarrow> X_test = X_train \<and> y_test = y_train"
    using load_and_split_same_file[OF _ eq] by blast
  have c: "training_run env ext srv mt t = (Inr (), t') \<longrightarrow>
            (\<exists>X y u1 model u2 metrics u3.
                load_and_split_data env ext mt ?pre = (Inr (X, y, X, y), u1)
              \<and> train_lgbm env ext srv X y u1 = (Inr model, u2)
              \<and> evaluate_model env ext srv model X y u2 = (Inr metrics, u3)
              \<and> mlflow_log_metrics srv metrics = None)"
  proof
    assume "training_run env ext srv mt t = (Inr (), t')"
    from training_run_Inr[OF this] obtain X_train y_train X_test y_test u1 model u2 metrics u3 where
      l: "load_and_split_data env ext mt ?pre = (Inr (X_train, y_train, X_test, y_test), u1)" and
      r: "train_lgbm env ext srv X_train y_train u1 = (Inr model, u2)"
         "evaluate_model env ext srv model X_test y_test u2 = (Inr metrics, u3)"
         "mlflow_log_metrics srv metrics = None"
      by blast
    from load_and_split_same_file[OF l eq'] have "X_test = X_train" "y_test = y_train"
      by simp_all
    with l r show "\<exists>X y u1 model u2 metrics u3.
                load_and_split_data env ext mt ?pre = (Inr (X, y, X, y), u1)
              \<and> train_lgbm env ext srv X y u1 = (Inr model, u2)
              \<and> evaluate_model env ext srv model X y u2 = (Inr metrics, u3)
              \<and> mlflow_log_metrics srv metrics = None"
      by blast
  qed
  from a b c show ?thesis by blast
qed

lemma demo_training_paths:
  "mt_train_path demo_training = PROCESSED_TRAIN_DATA_PATH demo_env"
  "mt_test_path demo_training = PROCESSED_TEST_DATA_PATH demo_env"
  by (simp_all add: demo_training_fields demo_fields)

theorem process_test_file_is_train_file_witness:
  "process demo_env demo_ext demo_processor demo_disk
     = (Inr (), snd (process demo_env demo_ext demo_processor demo_disk))
   \<and> pd_read_csv demo_ext (test_path demo_processor) demo_disk
       \<noteq> pd_read_csv demo_ext (train_path demo_processor) demo_disk
   \<and> fs (snd (process demo_env demo_ext demo_processor demo_disk)) ''ptest.csv''
     = Some (CsvFile [(''Unnamed: 0'', [0, 1]), (''lead_time'', [1, 2]), (''booking_status'', [0, 1])])
   \<and> fs (snd (process demo_env demo_ext demo_processor demo_disk)) ''ptrain.csv''
     = Some (CsvFile [(''Unnamed: 0'', [0, 1]), (''lead_time'', [1, 2]), (''booking_status'', [0, 1])])
   \<and> fst (load_and_split_data demo_env demo_ext demo_training
            (snd (process demo_env demo_ext demo_processor demo_disk)))
     = Inr (\<lparr>index = [0, 1], cols = [(''lead_time'', [1, 2])]\<rparr>, [0, 1],
            \<lparr>index = [0, 1], cols = [(''lead_time'', [1, 2])]\<rparr>, [0, 1])
   \<and> fst (training_run demo_env demo_ext demo_srv demo_training
            (snd (process demo_env demo_ext demo_processor demo_disk))) = Inr ()
   \<and> (\<exists>X y u1 model u2 metrics u3.
          load_and_split_data demo_env demo_ext demo_training
            (log_line INFO ''Logging the training and testing dataset to MLFLOW''
              (log_line INFO ''Starting our MLFLOW experiment''
                (log_line INFO ''Starting the model training process''
                  (snd (process demo_env demo_ext demo_processor demo_disk)))))
            = (Inr (X, y, X, y), u1)
        \<and> train_lgbm demo_env demo_ext demo_srv X y u1 = (Inr model, u2)
        \<and> evaluate_model demo_env demo_ext demo_srv model X y u2 = (Inr metrics, u3))"
proof -
  let ?P = "snd (process demo_env demo_ext demo_processor demo_disk)"
  have f: "fs ?P ''ptrain.csv'' = Some (CsvFile (cols demo_selected))"
          "fs ?P ''ptest.csv'' = Some (CsvFile (cols demo_selected))"
    using demo_process_run by simp_all
  have ld: "load_and_split_data demo_env demo_ext demo_training ?P
     = (Inr (\<lparr>index = [0, 1], cols = [(''lead_time'', [1, 2])]\<rparr>, [0, 1],
             \<lparr>index = [0, 1], cols = [(''lead_time'', [1, 2])]\<rparr>, [0, 1]),
        snd (load_and_split_data demo_env demo_ext demo_training ?P))"
    by (simp add: demo_load_and_split_run[OF f])
  have tr: "training_run demo_env demo_ext demo_srv demo_training ?P
     = (Inr (), snd (training_run demo_env demo_ext demo_srv demo_training ?P))"
    using demo_training_run[OF f] by (metis prod.collapse)
  note inst = process_test_file_is_train_file[OF demo_process_pair demo_train_distinct
      demo_sort_perm demo_training_paths refl refl, where srv = demo_srv]
  from inst[THEN conjunct2, THEN conjunct2, THEN mp, OF tr]
  have "\<exists>X y u1 model u2 metrics u3.
          load_and_split_data demo_env demo_ext demo_training
            (log_line INFO ''Logging the training and testing dataset to MLFLOW''
              (log_line INFO ''Starting our MLFLOW experiment''
                (log_line INFO ''Starting the model training process'' ?P)))
            = (Inr (X, y, X, y), u1)
        \<and> train_lgbm demo_env demo_ext demo_srv X y u1 = (Inr model, u2)
        \<and> evaluate_model demo_env demo_ext demo_srv model X y u2 = (Inr metrics, u3)"
    by blast
  with inst[THEN conjunct2, THEN conjunct1, THEN mp, OF ld] demo_process_pair demo_files_differ
    f demo_training_run[OF f]
  show ?thesis
    by (simp add: demo_selected_def demo_load_and_split_run[OF f])
qed

text \<open>
  The claim as written fails in its last part.  Under the ranking in which the column of
  row labels counts for nothing, the selector does not keep \<^verbatim>\<open>Unnamed: 0\<close>; the run
  of \<^verbatim>\<open>process\<close> succeeds and writes the same table to both processed paths, and the
  training run on these files raises from line 146, the call of
  \<^verbatim>\<open>load_and_split_data\<close>: nothing is fitted and nothing is scored.
\<close>

theorem process_test_file_is_train_file_counterexample:
  "fst (process demo_env demo_ext_low demo_processor demo_disk) = Inr ()
   \<and> fs (snd (process demo_env demo_ext_low demo_processor demo_disk)) ''ptrain.csv''
     = Some (CsvFile [(''lead_time'', [1, 2]), (''no_of_previous_cancellations'', [100, 100]),
                      (''booking_status'', [0, 1])])
   \<and> fs (snd (process demo_env demo_ext_low demo_processor demo_disk)) ''ptest.csv''
     = Some (CsvFile [(''lead_time'', [1, 2]), (''no_of_previous_cancellations'', [100, 100]),
                      (''booking_status'', [0, 1])])
   \<and> fst (training_run demo_env demo_ext_low demo_srv demo_training
            (snd (process demo_env demo_ext_low demo_processor demo_disk)))
     = Inl (custom_exception ''train.py'' 146 ''Failed to train the model'')"
proof -
  let ?P = "snd (process demo_env demo_ext_low demo_processor demo_disk)"
  have f: "fs ?P ''ptrain.csv'' = Some (CsvFile (cols demo_selected_low))"
          "fs ?P ''ptest.csv'' = Some (CsvFile (cols demo_selected_low))"
    using demo_process_run_low by simp_all
  from demo_training_run_low[OF f] f demo_process_run_low show ?thesis
    by (simp add: demo_selected_low_def)
qed

section \<open>How failures leave the stage methods\<close>

lemma try_except_fails:
  "fst (try_except b el file msg s) = Inl e \<Longrightarrow> \<exists>lno c. e = custom_exception file lno (msg c)"
  by (auto simp: try_except_def split: prod.splits sum.splits)

lemma custom_exception_text:
  "custom_exception file lno msg
     = CustomException msg (''Error in '' @ file @ '' at line '' @ digits lno @ '': '' @ msg)"
  by (simp add: custom_exception_def get_detailed_error_message_def)

lemma ingestion_body_fails:
  assumes "ingestion_run_body env ext srv self s = (Inl (lno, e), s')"
  shows "\<exists>m d. e = CustomException m d"
proof -
  from assms obtain t t' where
    "download_csv_from_gcp env ext srv self t = (Inl e, t') \<or> split_data env ext self t = (Inl e, t')"
    by (auto simp: ingestion_run_body_def and_then_Inl call_Inl call_Inr info_eq)
  then have "\<exists>file lno msg. e = custom_exception file lno msg"
    by (auto simp: download_csv_from_gcp_def split_data_def try_except_Inl)
  then show ?thesis by (auto simp: custom_exception_def)
qed

lemma ingestion_run_returns: "fst (ingestion_run env ext srv self s) = Inr ()"
proof (cases "ingestion_run_body env ext srv self s")
  case (Pair r s')
  show ?thesis
  proof (cases r)
    case (Inl le)
    obtain lno e where le: "le = (lno, e)" by (cases le)
    from ingestion_body_fails[of env ext srv self s lno e s'] Pair Inl le
    obtain m d where "e = CustomException m d" by auto
    with Pair Inl le show ?thesis by (simp add: ingestion_run_def)
  next
    case (Inr u)
    with Pair show ?thesis by (simp add: ingestion_run_def)
  qed
qed

text \<open>
  Claim C5, as the code has it.  There is one error kind, \<^verbatim>\<open>CustomException\<close>.  Every
  stage method that wraps its body in \<^verbatim>\<open>try\<close> raises nothing else, and the text of
  what it raises is fixed by the method: the source file of the method's module, the line
  of the \<^verbatim>\<open>try\<close> body that the failure passed, and the method's own message.  Below,
  \<open>file\<close> and \<open>msg\<close> are bound, method by method, to that file and that message; \<open>msg\<close>
  is a function of the cause, and it ignores the cause in every method but
  \<^verbatim>\<open>download_csv_from_gcp\<close>, which appends the text of the cause.
  \<^verbatim>\<open>DataIngestion.run\<close> is different: it logs the exception of its steps and returns.
\<close>

theorem stage_failure_is_custom_exception:
  assumes "fst (preprocess_data env ext self df s) = Inl e
             \<and> file = data_preprocessing_py env \<and> msg = (\<lambda>c. ''Failed to preprocess the data'')
         \<or> fst (balanced_data env ext df s) = Inl e
             \<and> file = data_preprocessing_py env \<and> msg = (\<lambda>c. ''Failed to balance the data'')
         \<or> fst (select_feature env ext self df s) = Inl e
             \<and> file = data_preprocessing_py env \<and> msg = (\<lambda>c. ''Failed to select features'')
         \<or> fst (save_data env ext df p s) = Inl e
             \<and> file = data_preprocessing_py env \<and> msg = (\<lambda>c. ''Failed to save the processed data'')
         \<or> fst (process env ext self s) = Inl e
             \<and> file = data_preprocessing_py env \<and> msg = (\<lambda>c. ''Failed to process the data'')
         \<or> fst (download_csv_from_gcp env ext srv ing s) = Inl e
             \<and> file = data_ingestion_py env
             \<and> msg = (\<lambda>c. ''Failed to download csv file: '' @ str_exn (exc_text ext) c @ '' '')
         \<or> fst (split_data env ext ing s) = Inl e
             \<and> file = data_ingestion_py env
             \<and> msg = (\<lambda>c. ''Failed to split the data into train and test sets'')
         \<or> fst (load_and_split_data env ext mt s) = Inl e
             \<and> file = model_training_py env \<and> msg = (\<lambda>c. ''Failed to load and split the data'')
         \<or> fst (train_lgbm env ext srv X y s) = Inl e
             \<and> file = model_training_py env \<and> msg = (\<lambda>c. ''Failed to train the model'')
         \<or> fst (evaluate_model env ext srv m X y s) = Inl e
             \<and> file = model_training_py env \<and> msg = (\<lambda>c. ''Failed to evaluate the model'')
         \<or> fst (save_model env ext srv mt m s) = Inl e
             \<and> file = model_training_py env \<and> msg = (\<lambda>c. ''Failed to save the model'')
         \<or> fst (training_run env ext srv mt s) = Inl e
             \<and> file = model_training_py env \<and> msg = (\<lambda>c. ''Failed to train the model'')"
  shows "(\<exists>lno c. e = CustomException (msg c)
                     (''Error in '' @ file @ '' at line '' @ digits lno @ '': '' @ msg c))
       \<and> fst (ingestion_run env ext srv ing s) = Inr ()"
proof
  from assms have "\<exists>lno c. e = custom_exception file lno (msg c)"
    unfolding preprocess_data_def balanced_data_def select_feature_def save_data_def process_def
      download_csv_from_gcp_def split_data_def load_and_split_data_def train_lgbm_def
      evaluate_model_def save_model_def training_run_def
    by (elim disjE conjE) (drule try_except_fails, blast)+
  then show "\<exists>lno c. e = CustomException (msg c)
                     (''Error in '' @ file @ '' at line '' @ digits lno @ '': '' @ msg c)"
    by (simp only: custom_exception_text)
next
  show "fst (ingestion_run env ext srv ing s) = Inr ()"
    by (rule ingestion_run_returns)
qed

theorem stage_failure_is_custom_exception_witness:
  "fst (balanced_data demo_env demo_ext 0 (demo_state\<lparr>heap := (\<lambda>r. demo_one_class_clean)\<rparr>))
     = Inl (custom_exception ''prep.py'' 80 ''Failed to balance the data'')
   \<and> (\<exists>lno. custom_exception ''prep.py'' 80 ''Failed to balance the data''
            = CustomException ''Failed to balance the data''
                (''Error in prep.py at line '' @ digits lno @ '': Failed to balance the data''))
   \<and> fst (ingestion_run demo_env demo_ext demo_srv demo_ingestion
            (demo_state\<lparr>heap := (\<lambda>r. demo_one_class_clean)\<rparr>)) = Inr ()"
proof -
  have b: "fst (balanced_data demo_env demo_ext 0 (demo_state\<lparr>heap := (\<lambda>r. demo_one_class_clean)\<rparr>))
     = Inl (custom_exception ''prep.py'' 80 ''Failed to balance the data'')"
    by (simp add: demo_balance_one_class)
  have h: "fst (balanced_data demo_env demo_ext 0 (demo_state\<lparr>heap := (\<lambda>r. demo_one_class_clean)\<rparr>))
               = Inl (custom_exception ''prep.py'' 80 ''Failed to balance the data'')
             \<and> data_preprocessing_py demo_env = data_preprocessing_py demo_env
             \<and> (\<lambda>c :: exn. ''Failed to balance the data'') = (\<lambda>c. ''Failed to balance the data'')"
    using b by simp
  from stage_failure_is_custom_exception[OF disjI2[OF disjI1[OF h]],
      where srv = demo_srv and ing = demo_ingestion] b
  show ?thesis
    by (simp add: demo_fields)
qed

text \<open>
  The claim as written fails in \<^verbatim>\<open>DataIngestion.run\<close>: without credentials for the
  bucket the download fails, the run logs the exception and returns normally, and nothing
  is raised to the caller.
\<close>

lemma digits_28: "digits 28 = ''28''"
  by code_simp

theorem ingestion_run_swallows_counterexample:
  "fst (ingestion_run demo_env demo_ext demo_srv_no_credentials demo_ingestion demo_state) = Inr ()
   \<and> logs (snd (ingestion_run demo_env demo_ext demo_srv_no_credentials demo_ingestion demo_state))
     = [(INFO, ''Starting the data ingestion process''),
        (ERROR, ''Error while downloading the csv file: cause''),
        (ERROR, ''Custom Exception: Error in ingest.py at line 28: Failed to download csv file: cause ''),
        (INFO, ''Data ingestion Completed'')]
   \<and> fs (snd (ingestion_run demo_env demo_ext demo_srv_no_credentials demo_ingestion demo_state))
     = Map.empty"
  by (simp add: ingestion_run_def ingestion_run_body_def download_csv_from_gcp_def
      download_body_def body_defs demo_srv_no_credentials_def demo_srv_def demo_env_def
      demo_ext_def demo_state_def custom_exception_def get_detailed_error_message_def digits_28)

section \<open>The experiment tracker in \<^verbatim>\<open>ModelTraining.run\<close>\<close>

lemma with_run_fs:
  assumes "\<And>r t. b s = (r, t) \<Longrightarrow> fs t = fs s"
  shows "fs (snd (with_run srv lno b s)) = fs s"
  using assms by (auto simp: with_run_def split: option.splits prod.splits)

lemma training_block_early:
  assumes "mlflow_log_artifact srv (mt_train_path self) \<noteq> None
         \<or> mlflow_log_artifact srv (mt_test_path self) \<noteq> None"
  shows "fs (snd (training_block env ext srv self s)) = fs s"
proof (cases "mlflow_log_artifact srv (mt_train_path self)")
  case (Some e)
  then show ?thesis
    by (simp add: training_block_def and_then_def info_def raises_def)
next
  case None
  with assms obtain e where "mlflow_log_artifact srv (mt_test_path self) = Some e" by auto
  with None show ?thesis
    by (simp add: training_block_def and_then_def info_def raises_def)
qed

lemma training_run_fails:
  "training_run env ext srv self s = (Inl e, s') \<Longrightarrow>
     \<exists>lno. e = custom_exception (model_training_py env) lno ''Failed to train the model''"
  by (auto simp: training_run_def try_except_Inl)

lemma training_run_fs:
  "fs (snd (training_run env ext srv self s))
     = fs (snd (with_run srv 136 (training_block env ext srv self) s))"
  by (auto simp: training_run_def try_except_def split: prod.splits sum.splits)

lemma save_model_Inr:
  "save_model env ext srv self model s = (Inr u, s') \<Longrightarrow>
     fs s' (model_output_path self) = Some (ModelFile model)"
  by (auto simp: save_model_def save_model_body_def try_except_Inr and_then_Inr raises_Inr
      info_eq write_file_def split: option.splits)

text \<open>The block of \<^verbatim>\<open>run\<close> once the model has been saved: only tracker calls are left.\<close>

lemma training_block_late:
  assumes "mlflow_log_artifact srv (mt_train_path self) = None"
    and "mlflow_log_artifact srv (mt_test_path self) = None"
    and "load_and_split_data env ext self
          (log_line INFO ''Logging the training and testing dataset to MLFLOW''
            (log_line INFO ''Starting our MLFLOW experiment''
              (log_line INFO ''Starting the model training process'' s)))
         = (Inr (X_train, y_train, X_test, y_test), t1)"
    and "train_lgbm env ext srv X_train y_train t1 = (Inr model, t2)"
    and "evaluate_model env ext srv model X_test y_test t2 = (Inr metrics, t3)"
    and "save_model env ext srv self model t3 = (Inr (), t4)"
  shows "training_block env ext srv self s =
     and_then (info ''Logging the model parameters and metrics to MLFLOW'') (\<lambda>_.
     and_then (raises 152 (mlflow_log_artifact srv (model_output_path self))) (\<lambda>_.
     and_then (raises 154 (mlflow_log_params srv model)) (\<lambda>_.
     and_then (info ''Logging the model metrics to MLFLOW'') (\<lambda>_.
     and_then (raises 157 (mlflow_log_metrics srv metrics)) (\<lambda>_.
     info ''Model training process completed successfully''))))) t4"
  by (simp add: training_block_def and_then_def info_def raises_def call_def assms)

lemma tracker_tail:
  "\<exists>r t. and_then (info a) (\<lambda>_.
     and_then (raises 152 x1) (\<lambda>_.
     and_then (raises 154 x2) (\<lambda>_.
     and_then (info b) (\<lambda>_.
     and_then (raises 157 x3) (\<lambda>_.
     info c))))) t4 = (r, t)
   \<and> fs t = fs t4
   \<and> (x1 \<noteq> None \<or> x2 \<noteq> None \<or> x3 \<noteq> None \<longrightarrow> (\<exists>le. r = Inl le))"
  by (auto simp: and_then_def info_def raises_def log_line_def split: option.splits)

text \<open>
  Claim C6, as the code has it.  The tracker calls stand inside the one \<^verbatim>\<open>try\<close> block
  of \<^verbatim>\<open>run\<close> with everything else.  When opening or closing the run fails, or the
  logging of one of the two data sets, the run raises
  \<^verbatim>\<open>CustomException("Failed to train the model")\<close>; when it is the opening or one of
  the two data sets, nothing has been loaded or trained and the files are as they were.
  When loading, fitting, scoring and saving have all gone through (each started in the
  state the one before left) and the tracker then refuses the model file, the parameters
  of the fitted model or the computed scores, or the closing of the run, the run raises the
  same exception, and the file at the model path holds the fitted model.
\<close>

theorem tracker_failure_fails_run:
  assumes "training_run env ext srv self s = (r, s')"
  shows "(mlflow_start_run srv \<noteq> None \<or> mlflow_end_run srv \<noteq> None
           \<or> mlflow_log_artifact srv (mt_train_path self) \<noteq> None
           \<or> mlflow_log_artifact srv (mt_test_path self) \<noteq> None
          \<longrightarrow> (\<exists>lno. r = Inl (custom_exception (model_training_py env) lno ''Failed to train the model'')))
       \<and> (mlflow_start_run srv \<noteq> None
           \<or> mlflow_log_artifact srv (mt_train_path self) \<noteq> None
           \<or> mlflow_log_artifact srv (mt_test_path self) \<noteq> None
          \<longrightarrow> fs s' = fs s)
       \<and> (mlflow_start_run srv = None
           \<and> mlflow_log_artifact srv (mt_train_path self) = None
           \<and> mlflow_log_artifact srv (mt_test_path self) = None
           \<and> load_and_split_data env ext self
                (log_line INFO ''Logging the training and testing dataset to MLFLOW''
                  (log_line INFO ''Starting our MLFLOW experiment''
                    (log_line INFO ''Starting the model training process'' s)))
               = (Inr (X_train, y_train, X_test, y_test), t1)
           \<and> train_lgbm env ext srv X_train y_train t1 = (Inr model, t2)
           \<and> evaluate_model env ext srv model X_test y_test t2 = (Inr metrics, t3)
           \<and> save_model env ext srv self model t3 = (Inr (), t4)
           \<and> (mlflow_log_artifact srv (model_output_path self) \<noteq> None
               \<or> mlflow_log_params srv model \<noteq> None
               \<or> mlflow_log_metrics srv metrics \<noteq> None
               \<or> mlflow_end_run srv \<noteq> None)
          \<longrightarrow> (\<exists>lno. r = Inl (custom_exception (model_training_py env) lno ''Failed to train the model''))
              \<and> fs s' (model_output_path self) = Some (ModelFile model))"
proof -
  let ?b = "with_run srv 136 (training_block env ext srv self)"
  have fails: "\<exists>lno. r = Inl (custom_exception (model_training_py env) lno ''Failed to train the model'')"
    if "\<And>u. r \<noteq> Inr u"
  proof -
    from that obtain e where "r = Inl e" by (cases r) auto
    with training_run_fails[of env ext srv self s e s'] assms show ?thesis by simp
  qed
  have fsr: "fs s' = fs (snd (?b s))"
    using training_run_fs[of env ext srv self s] assms by simp
  have p1: "\<exists>lno. r = Inl (custom_exception (model_training_py env) lno ''Failed to train the model'')"
    if a: "mlflow_start_run srv \<noteq> None \<or> mlflow_end_run srv \<noteq> None
           \<or> mlflow_log_artifact srv (mt_train_path self) \<noteq> None
           \<or> mlflow_log_artifact srv (mt_test_path self) \<noteq> None"
  proof (rule fails)
    fix u show "r \<noteq> Inr u"
    proof
      assume "r = Inr u"
      with assms have "training_run env ext srv self s = (Inr u, s')" by simp
      from training_run_Inr[OF this] a show False by auto
    qed
  qed
  have p2: "fs s' = fs s"
    if a: "mlflow_start_run srv \<noteq> None
           \<or> mlflow_log_artifact srv (mt_train_path self) \<noteq> None
           \<or> mlflow_log_artifact srv (mt_test_path self) \<noteq> None"
  proof (cases "mlflow_start_run srv")
    case (Some x)
    then show ?thesis by (simp add: fsr with_run_def)
  next
    case None
    with a have "mlflow_log_artifact srv (mt_train_path self) \<noteq> None
                \<or> mlflow_log_artifact srv (mt_test_path self) \<noteq> None" by simp
    from training_block_early[OF this, of env ext s]
    have "fs (snd (?b s)) = fs s"
      by (intro with_run_fs) (metis snd_conv)
    with fsr show ?thesis by simp
  qed
  have p3: "(\<exists>lno. r = Inl (custom_exception (model_training_py env) lno ''Failed to train the model''))
              \<and> fs s' (model_output_path self) = Some (ModelFile model)"
    if st: "mlflow_start_run srv = None"
      and a1: "mlflow_log_artifact srv (mt_train_path self) = None"
      and a2: "mlflow_log_artifact srv (mt_test_path self) = None"
      and l: "load_and_split_data env ext self
                (log_line INFO ''Logging the training and testing dataset to MLFLOW''
                  (log_line INFO ''Starting our MLFLOW experiment''
                    (log_line INFO ''Starting the model training process'' s)))
               = (Inr (X_train, y_train, X_test, y_test), t1)"
      and t: "train_lgbm env ext srv X_train y_train t1 = (Inr model, t2)"
      and ev: "evaluate_model env ext srv model X_test y_test t2 = (Inr metrics, t3)"
      and sv: "save_model env ext srv self model t3 = (Inr (), t4)"
      and late: "mlflow_log_artifact srv (model_output_path self) \<noteq> None
               \<or> mlflow_log_params srv model \<noteq> None
               \<or> mlflow_log_metrics srv metrics \<noteq> None
               \<or> mlflow_end_run srv \<noteq> None"
  proof
    note blk = training_block_late[OF a1 a2 l t ev sv]
    from tracker_tail[of "''Logging the model parameters and metrics to MLFLOW''"
        "mlflow_log_artifact srv (model_output_path self)" "mlflow_log_params srv model"
        "''Logging the model metrics to MLFLOW''" "mlflow_log_metrics srv metrics"
        "''Model training process completed successfully''" t4]
    obtain rb tb where
      b: "training_block env ext srv self s = (rb, tb)" and
      ftb: "fs tb = fs t4" and
      fl: "mlflow_log_artifact srv (model_output_path self) \<noteq> None
               \<or> mlflow_log_params srv model \<noteq> None
               \<or> mlflow_log_metrics srv metrics \<noteq> None \<longrightarrow> (\<exists>le. rb = Inl le)"
      unfolding blk[symmetric] by blast
    have w: "fs (snd (?b s)) = fs tb"
      using b st by (simp add: with_run_def split: option.splits)
    show "fs s' (model_output_path self) = Some (ModelFile model)"
      using fsr w ftb save_model_Inr[OF sv] by simp
    have "r \<noteq> Inr u" for u
    proof
      assume "r = Inr u"
      with assms have ok: "training_run env ext srv self s = (Inr u, s')" by simp
      then have "?b s = (Inr u, s')"
        by (simp add: training_run_def try_except_Inr)
      from with_run_Inr[OF this] b have "mlflow_end_run srv = None" "rb = Inr u" by simp_all
      with late fl show False by auto
    qed
    then show "\<exists>lno. r = Inl (custom_exception (model_training_py env) lno ''Failed to train the model'')"
      by (rule fails)
  qed
  from p1 p2 p3 show ?thesis by blast
qed

lemma demo_processed_files:
  "fs (log_line INFO ''Logging the training and testing dataset to MLFLOW''
        (log_line INFO ''Starting our MLFLOW experiment''
          (log_line INFO ''Starting the model training process'' demo_processed))) ''ptrain.csv''
     = Some (CsvFile (cols demo_selected))"
  "fs (log_line INFO ''Logging the training and testing dataset to MLFLOW''
        (log_line INFO ''Starting our MLFLOW experiment''
          (log_line INFO ''Starting the model training process'' demo_processed))) ''ptest.csv''
     = Some (CsvFile (cols demo_selected))"
  by (simp_all add: demo_processed_def demo_state_def)

text \<open>
  The claim as written fails when the tracker refuses the metrics: the model has been
  fitted and written to disk, and the run still raises
  \<^verbatim>\<open>CustomException("Failed to train the model")\<close> from line 157.
\<close>

theorem tracker_failure_fails_run_counterexample:
  "fst (training_run demo_env demo_ext demo_srv_tracker_down demo_training demo_processed)
     = Inl (custom_exception ''train.py'' 157 ''Failed to train the model'')
   \<and> fs (snd (training_run demo_env demo_ext demo_srv_tracker_down demo_training demo_processed))
        ''model.pkl'' = Some (ModelFile 7)"
  by (simp add: training_run_defs body_defs demo_load_and_split_run demo_training_fields
      demo_srv_tracker_down_def demo_srv_def demo_processed_def demo_state_def)

theorem tracker_failure_fails_run_witness:
  "mlflow_start_run demo_srv_unreachable \<noteq> None
   \<and> (\<exists>lno. fst (training_run demo_env demo_ext demo_srv_unreachable demo_training demo_processed)
         = Inl (custom_exception ''train.py'' lno ''Failed to train the model''))
   \<and> fs (snd (training_run demo_env demo_ext demo_srv_unreachable demo_training demo_processed))
       = fs demo_processed
   \<and> mlflow_log_metrics demo_srv_tracker_down
        \<lparr>accuracy = Fin 1, precision = Fin 1, recall = Fin 1, f1_score = Fin 1\<rparr> \<noteq> None
   \<and> (\<exists>lno. fst (training_run demo_env demo_ext demo_srv_tracker_down demo_training demo_processed)
         = Inl (custom_exception ''train.py'' lno ''Failed to train the model''))
   \<and> fs (snd (training_run demo_env demo_ext demo_srv_tracker_down demo_training demo_processed))
       ''model.pkl'' = Some (ModelFile 7)"
proof -
  let ?pre = "log_line INFO ''Logging the training and testing dataset to MLFLOW''
        (log_line INFO ''Starting our MLFLOW experiment''
          (log_line INFO ''Starting the model training process'' demo_processed))"
  let ?X = "\<lparr>index = [0, 1], cols = [(''lead_time'', [1, 2])]\<rparr> :: int table"
  let ?m = "\<lparr>accuracy = Fin 1, precision = Fin 1, recall = Fin 1, f1_score = Fin 1\<rparr>"
  \<comment> \<open>the tracker cannot be reached at all\<close>
  have a: "mlflow_start_run demo_srv_unreachable \<noteq> None"
    by (simp add: demo_srv_unreachable_def)
  have r1: "training_run demo_env demo_ext demo_srv_unreachable demo_training demo_processed
       = (fst (training_run demo_env demo_ext demo_srv_unreachable demo_training demo_processed),
          snd (training_run demo_env demo_ext demo_srv_unreachable demo_training demo_processed))"
    by simp
  note early = tracker_failure_fails_run[OF r1]
  from a early[THEN conjunct1] have e1:
    "\<exists>lno. fst (training_run demo_env demo_ext demo_srv_unreachable demo_training demo_processed)
         = Inl (custom_exception (model_training_py demo_env) lno ''Failed to train the model'')"
    by blast
  from a early[THEN conjunct2, THEN conjunct1] have e2:
    "fs (snd (training_run demo_env demo_ext demo_srv_unreachable demo_training demo_processed))
       = fs demo_processed"
    by blast
  \<comment> \<open>the tracker refuses the metrics after the model has been saved\<close>
  define t1 where "t1 = snd (load_and_split_data demo_env demo_ext demo_training ?pre)"
  define t2 where "t2 = snd (train_lgbm demo_env demo_ext demo_srv_tracker_down ?X [0, 1] t1)"
  define t3 where "t3 = snd (evaluate_model demo_env demo_ext demo_srv_tracker_down 7 ?X [0, 1] t2)"
  define t4 where "t4 = snd (save_model demo_env demo_ext demo_srv_tracker_down demo_training 7 t3)"
  have l: "load_and_split_data demo_env demo_ext demo_training ?pre = (Inr (?X, [0, 1], ?X, [0, 1]), t1)"
    unfolding t1_def by (simp add: demo_load_and_split_run[OF demo_processed_files])
  have t: "train_lgbm demo_env demo_ext demo_srv_tracker_down ?X [0, 1] t1 = (Inr 7, t2)"
    unfolding t2_def
    by (simp add: train_lgbm_def train_lgbm_body_def body_defs demo_srv_tracker_down_def demo_srv_def)
  have ev: "evaluate_model demo_env demo_ext demo_srv_tracker_down 7 ?X [0, 1] t2 = (Inr ?m, t3)"
    unfolding t3_def
    by (simp add: evaluate_model_def evaluate_body_def body_defs demo_srv_tracker_down_def demo_srv_def)
  have sv: "save_model demo_env demo_ext demo_srv_tracker_down demo_training 7 t3 = (Inr (), t4)"
    unfolding t4_def
    by (simp add: save_model_def save_model_body_def body_defs demo_srv_tracker_down_def demo_srv_def
        demo_training_fields)
  have ok: "mlflow_start_run demo_srv_tracker_down = None"
    "mlflow_log_artifact demo_srv_tracker_down (mt_train_path demo_training) = None"
    "mlflow_log_artifact demo_srv_tracker_down (mt_test_path demo_training) = None"
    by (simp_all add: demo_srv_tracker_down_def demo_srv_def)
  have down: "mlflow_log_metrics demo_srv_tracker_down ?m \<noteq> None"
    by (simp add: demo_srv_tracker_down_def)
  have r2: "training_run demo_env demo_ext demo_srv_tracker_down demo_training demo_processed
       = (fst (training_run demo_env demo_ext demo_srv_tracker_down demo_training demo_processed),
          snd (training_run demo_env demo_ext demo_srv_tracker_down demo_training demo_processed))"
    by simp
  from tracker_failure_fails_run[OF r2, THEN conjunct2, THEN conjunct2, THEN mp,
      of "?X" "[0, 1]" "?X" "[0, 1]" t1 7 t2 ?m t3 t4] ok l t ev sv down
  have e3: "(\<exists>lno. fst (training_run demo_env demo_ext demo_srv_tracker_down demo_training demo_processed)
         = Inl (custom_exception (model_training_py demo_env) lno ''Failed to train the model''))
     \<and> fs (snd (training_run demo_env demo_ext demo_srv_tracker_down demo_training demo_processed))
         (model_output_path demo_training) = Some (ModelFile 7)"
    by blast
  from a e1 e2 down e3 show ?thesis
    by (simp add: demo_training_fields)
qed

section \<open>The splitter\<close>

lemma split_data_Inr:
  "split_data env ext self s = (Inr u, s') \<longleftrightarrow>
     (\<exists>data train_data test_data.
        pd_read_csv ext (RAW_FILE_PATH env) s = Inr data
      \<and> train_test_split ext data (1 - train_test_ratio self) 42 = Inr (train_data, test_data)
      \<and> write_error ext (TRAIN_FILE_PATH env) = None
      \<and> write_error ext (TEST_FILE_PATH env) = None
      \<and> s' = s\<lparr>logs := logs s @ [(INFO, ''Splitting the data into train and test sets''),
                                 (INFO, ''Train data saved to '' @ TRAIN_FILE_PATH env),
                                 (INFO, ''Test data saved to '' @ TEST_FILE_PATH env)],
               fs := (fs s)(TRAIN_FILE_PATH env \<mapsto> CsvFile (to_csv True train_data),
                            TEST_FILE_PATH env \<mapsto> CsvFile (to_csv True test_data))\<rparr>)"
  by (auto simp: split_data_def split_body_def try_except_Inr and_then_Inr info_eq at_line_Inr
      write_file_def log_line_def split: option.splits)

text \<open>
  Claim C7.  \<^verbatim>\<open>split_data\<close> reads the raw file, calls the library splitter with the
  configured ratio and the constant seed 42, and writes the two parts.  The library
  splitter is a function of the table, the test fraction and the seed (scikit-learn's
  contract for a given \<^verbatim>\<open>random_state\<close>); nothing else of the state enters the call.
  So whenever a call of \<^verbatim>\<open>split_data\<close> has succeeded, a call in any state with the
  same raw file, in particular a second call right after the first, succeeds as well and
  leaves the same train file and the same test file.
\<close>

theorem split_data_deterministic:
  assumes "split_data env ext self s = (Inr (), s')"
    and "fs t (RAW_FILE_PATH env) = fs s (RAW_FILE_PATH env)"
  shows "\<exists>t'. split_data env ext self t = (Inr (), t')
           \<and> fs t' (TRAIN_FILE_PATH env) = fs s' (TRAIN_FILE_PATH env)
           \<and> fs t' (TEST_FILE_PATH env) = fs s' (TEST_FILE_PATH env)"
proof -
  from assms(1) obtain data train_data test_data where
    rd: "pd_read_csv ext (RAW_FILE_PATH env) s = Inr data" and
    sp: "train_test_split ext data (1 - train_test_ratio self) 42 = Inr (train_data, test_data)" and
    we: "write_error ext (TRAIN_FILE_PATH env) = None" "write_error ext (TEST_FILE_PATH env) = None" and
    s': "s' = s\<lparr>logs := logs s @ [(INFO, ''Splitting the data into train and test sets''),
                                 (INFO, ''Train data saved to '' @ TRAIN_FILE_PATH env),
                                 (INFO, ''Test data saved to '' @ TEST_FILE_PATH env)],
               fs := (fs s)(TRAIN_FILE_PATH env \<mapsto> CsvFile (to_csv True train_data),
                            TEST_FILE_PATH env \<mapsto> CsvFile (to_csv True test_data))\<rparr>"
    unfolding split_data_Inr by blast
  let ?t' = "t\<lparr>logs := logs t @ [(INFO, ''Splitting the data into train and test sets''),
                                 (INFO, ''Train data saved to '' @ TRAIN_FILE_PATH env),
                                 (INFO, ''Test data saved to '' @ TEST_FILE_PATH env)],
               fs := (fs t)(TRAIN_FILE_PATH env \<mapsto> CsvFile (to_csv True train_data),
                            TEST_FILE_PATH env \<mapsto> CsvFile (to_csv True test_data))\<rparr>"
  from rd assms(2) have rd': "pd_read_csv ext (RAW_FILE_PATH env) t = Inr data"
    by (simp add: pd_read_csv_def)
  with sp we have "split_data env ext self t = (Inr (), ?t')"
    unfolding split_data_Inr by blast
  moreover have "fs ?t' (TRAIN_FILE_PATH env) = fs s' (TRAIN_FILE_PATH env)"
    "fs ?t' (TEST_FILE_PATH env) = fs s' (TEST_FILE_PATH env)"
    by (simp_all add: s')
  ultimately show ?thesis by blast
qed

lemma demo_ingestion_fields:
  "RAW_FILE_PATH demo_env = ''raw.csv''"
  "TRAIN_FILE_PATH demo_env = ''train.csv''"
  "TEST_FILE_PATH demo_env = ''test.csv''"
  by (simp_all add: demo_env_def)

lemma demo_split_run:
  "fs s ''raw.csv'' = Some (CsvFile (cols demo_frame)) \<Longrightarrow>
   split_data demo_env demo_ext demo_ingestion s
     = (Inr (), s\<lparr>logs := logs s @ [(INFO, ''Splitting the data into train and test sets''),
                                     (INFO, ''Train data saved to train.csv''),
                                     (INFO, ''Test data saved to test.csv'')],
          fs := (fs s)(''train.csv'' \<mapsto> CsvFile [([], [0]), (''Booking_ID'', [1]), (''lead_time'', [1]),
                            (''no_of_previous_cancellations'', [0]),
                            (''no_of_previous_bookings_not_canceled'', [0]),
                            (''booking_status'', [0])],
                       ''test.csv'' \<mapsto> CsvFile [([], [1]), (''Booking_ID'', [2]), (''lead_time'', [2]),
                            (''no_of_previous_cancellations'', [0]),
                            (''no_of_previous_bookings_not_canceled'', [0]),
                            (''booking_status'', [1])])\<rparr>)"
  by (simp add: split_data_Inr pd_read_csv_def demo_ingestion_fields demo_read_plain)
     (simp add: demo_ext_def demo_frame_def to_csv_def)

theorem split_data_deterministic_witness:
  "split_data demo_env demo_ext demo_ingestion demo_raw
     = (Inr (), snd (split_data demo_env demo_ext demo_ingestion demo_raw))
   \<and> fs (snd (split_data demo_env demo_ext demo_ingestion demo_raw)) ''raw.csv''
       = fs demo_raw ''raw.csv''
   \<and> fs (snd (split_data demo_env demo_ext demo_ingestion demo_raw)) ''train.csv''
       \<noteq> fs (snd (split_data demo_env demo_ext demo_ingestion demo_raw)) ''test.csv''
   \<and> fst (split_data demo_env demo_ext demo_ingestion
            (snd (split_data demo_env demo_ext demo_ingestion demo_raw))) = Inr ()
   \<and> fs (snd (split_data demo_env demo_ext demo_ingestion
            (snd (split_data demo_env demo_ext demo_ingestion demo_raw)))) ''train.csv''
       = fs (snd (split_data demo_env demo_ext demo_ingestion demo_raw)) ''train.csv''
   \<and> fs (snd (split_data demo_env demo_ext demo_ingestion
            (snd (split_data demo_env demo_ext demo_ingestion demo_raw)))) ''test.csv''
       = fs (snd (split_data demo_env demo_ext demo_ingestion demo_raw)) ''test.csv''"
proof -
  let ?S = "snd (split_data demo_env demo_ext demo_ingestion demo_raw)"
  have raw: "fs demo_raw ''raw.csv'' = Some (CsvFile (cols demo_frame))"
    by (simp add: demo_raw_def demo_state_def)
  have first: "split_data demo_env demo_ext demo_ingestion demo_raw = (Inr (), ?S)"
    by (simp add: demo_split_run[OF raw])
  have keep: "fs ?S (RAW_FILE_PATH demo_env) = fs demo_raw (RAW_FILE_PATH demo_env)"
    by (simp add: demo_split_run[OF raw] demo_ingestion_fields)
  have differ: "fs ?S ''train.csv'' \<noteq> fs ?S ''test.csv''"
    by (simp add: demo_split_run[OF raw])
  from split_data_deterministic[OF first keep] first keep differ show ?thesis
    by (auto simp: demo_ingestion_fields)
qed

section \<open>What \<^verbatim>\<open>balanced_data\<close> returns\<close>







end
